(* ===== verification/Prelude.thy ===== *)
theory Prelude
  imports Main "HOL-Library.AList" "HOL-Library.Multiset" "HOL-Library.Sublist" "HOL-Library.Char_ord" "HOL-Library.List_Lexorder"
begin

text \<open>
  Shared vocabulary of the model of the JFrog Artifactory plugin.
  \<^item> \<open>py_exc\<close>: the Python exceptions the plugin raises or lets propagate, one
    constructor per exception class, carrying the message;
  \<^item> \<open>'a py\<close>: a Python computation's outcome, an exception (\<open>Inl\<close>) or a value (\<open>Inr\<close>);
  \<^item> \<open>('w, 'a) act\<close>: a statement sequence over an explicit world \<open>'w\<close>; an exception
    does not roll the world back, so an action returns the outcome together with
    the world as it is when the exception leaves the statement sequence;
  \<^item> string helpers with Python's meaning: \<open>str.split(c)\<close>, \<open>c.join\<close>,
    \<open>str.startswith\<close>, \<open>str.endswith\<close>, \<open>str.lower\<close> on ASCII letters.
\<close>

named_theorems py_simps "evaluation rules of the Python model's combinators"

section \<open>Exceptions and outcomes\<close>

datatype py_exc =
    PyException string        \<comment> \<open>\<open>raise Exception(msg)\<close>\<close>
  | AfApiError string         \<comment> \<open>\<open>rtpy.Rtpy.AfApiError\<close>: an HTTP error reported by the client\<close>
  | TransportError string     \<comment> \<open>any other failure of the client (connection, timeout)\<close>
  | RuntimeError string
  | MlflowException string
  | AssertionError string
  | AttributeError string
  | KeyError string
  | ValueError string
  | FileNotFoundError string
  | FileExistsError string
  | NotADirectoryError string
  | IsADirectoryError string

type_synonym 'a py = "py_exc + 'a"
type_synonym bytes = "char list"

type_synonym ('w, 'a) act = "'w \<Rightarrow> 'a py \<times> 'w"

definition ret :: "'a \<Rightarrow> ('w, 'a) act" where
  "ret a = (\<lambda>w. (Inr a, w))"

definition raise :: "py_exc \<Rightarrow> ('w, 'a) act" where
  "raise e = (\<lambda>w. (Inl e, w))"

text \<open>Sequencing: the second part runs only when the first returned normally.\<close>

definition bindA :: "('w, 'a) act \<Rightarrow> ('a \<Rightarrow> ('w, 'b) act) \<Rightarrow> ('w, 'b) act" where
  "bindA m f = (\<lambda>w. case m w of (Inl e, w') \<Rightarrow> (Inl e, w') | (Inr a, w') \<Rightarrow> f a w')"

text \<open>Lifting a pure outcome (a library call that may raise) into an action.\<close>

definition liftA :: "'a py \<Rightarrow> ('w, 'a) act" where
  "liftA r = (\<lambda>w. (r, w))"

text \<open>A state change that cannot fail.\<close>

definition modifyA :: "('w \<Rightarrow> 'w) \<Rightarrow> ('w, unit) act" where
  "modifyA f = (\<lambda>w. (Inr (), f w))"

section \<open>Strings with Python's meaning\<close>

text \<open>\<open>s.split(c)\<close> for a one-character separator: never empty.\<close>

fun split_on :: "char \<Rightarrow> string \<Rightarrow> string list" where
  "split_on c [] = [[]]"
| "split_on c (x # xs) =
     (if x = c then [] # split_on c xs
      else (case split_on c xs of w # ws \<Rightarrow> (x # w) # ws | [] \<Rightarrow> [[x]]))"

text \<open>\<open>c.join(xs)\<close>.\<close>

fun join_on :: "char \<Rightarrow> string list \<Rightarrow> string" where
  "join_on c [] = []"
| "join_on c [x] = x"
| "join_on c (x # y # xs) = x @ c # join_on c (y # xs)"

definition startswith :: "string \<Rightarrow> string \<Rightarrow> bool" where
  "startswith s p \<longleftrightarrow> take (length p) s = p"

definition endswith :: "string \<Rightarrow> string \<Rightarrow> bool" where
  "endswith s p \<longleftrightarrow> length p \<le> length s \<and> drop (length s - length p) s = p"

definition ascii_lower :: "char \<Rightarrow> char" where
  "ascii_lower c =
     (case map_of (zip ''ABCDEFGHIJKLMNOPQRSTUVWXYZ'' ''abcdefghijklmnopqrstuvwxyz'') c of
        Some d \<Rightarrow> d | None \<Rightarrow> c)"

section \<open>Rules of the combinators\<close>

lemma ret_apply [simp, py_simps]: "ret a w = (Inr a, w)"
  by (simp add: ret_def)

lemma raise_apply [simp, py_simps]: "raise e w = (Inl e, w)"
  by (simp add: raise_def)

lemma liftA_apply [simp, py_simps]: "liftA r w = (r, w)"
  by (simp add: liftA_def)

lemma modifyA_apply [simp, py_simps]: "modifyA f w = (Inr (), f w)"
  by (simp add: modifyA_def)

lemma bindA_apply [simp, py_simps]:
  "bindA m f w = (case m w of (Inl e, w') \<Rightarrow> (Inl e, w') | (Inr a, w') \<Rightarrow> f a w')"
  by (simp add: bindA_def)

lemma bindA_Inr [py_simps]: "m w = (Inr a, w') \<Longrightarrow> bindA m f w = f a w'"
  by simp

lemma bindA_Inl [py_simps]: "m w = (Inl e, w') \<Longrightarrow> bindA m f w = (Inl e, w')"
  by simp

lemma bindA_liftA_Inr [simp]: "bindA (liftA (Inr a)) f = f a"
  by (rule ext) simp

lemma bindA_liftA_Inl [simp]: "bindA (liftA (Inl e)) f = raise e"
  by (rule ext) simp

lemma bindA_assoc: "bindA (bindA m f) g = bindA m (\<lambda>a. bindA (f a) g)"
  by (rule ext) (simp split: prod.splits sum.splits)

lemma bindA_ret_left [simp]: "bindA (ret a) f = f a"
  by (rule ext) simp

lemma bindA_ret_right [simp]: "bindA m ret = m"
  by (rule ext) (simp split: prod.splits sum.splits)

text \<open>Two runs of a sequence from different worlds agree on the outcome when the first
  step does and the rest does from the worlds the first step leaves.\<close>

lemma bindA_fst_eq:
  assumes "fst (m w1) = fst (m w2)"
    and "\<And>a. fst (m w1) = Inr a \<Longrightarrow> fst (f a (snd (m w1))) = fst (f a (snd (m w2)))"
  shows "fst (bindA m f w1) = fst (bindA m f w2)"
  using assms by (auto simp: bindA_def split: prod.splits sum.splits)

section \<open>Rules of the string helpers\<close>

lemma split_on_not_Nil [simp]: "split_on c s \<noteq> []"
  by (induction s) (auto split: list.splits)

lemma split_on_Cons_hd: "x \<noteq> c \<Longrightarrow> split_on c (x # xs) = (x # hd (split_on c xs)) # tl (split_on c xs)"
  by (cases "split_on c xs") simp_all

lemma join_on_Cons: "xs \<noteq> [] \<Longrightarrow> join_on c (x # xs) = x @ c # join_on c xs"
  by (cases xs) simp_all

text \<open>Joining the pieces of a split gives the string back.\<close>

lemma join_split_on [simp]: "join_on c (split_on c s) = s"
proof (induction s)
  case Nil
  then show ?case by simp
next
  case (Cons x xs)
  show ?case
  proof (cases "x = c")
    case True
    with Cons show ?thesis by (simp add: join_on_Cons)
  next
    case False
    then have "split_on c (x # xs) = (x # hd (split_on c xs)) # tl (split_on c xs)"
      by (rule split_on_Cons_hd)
    moreover have "join_on c (hd (split_on c xs) # tl (split_on c xs)) = xs"
      using Cons by simp
    ultimately show ?thesis
      by (cases "tl (split_on c xs)") (simp_all add: join_on_Cons)
  qed
qed

lemma split_on_no_sep: "c \<notin> set s \<Longrightarrow> split_on c s = [s]"
  by (induction s) auto

lemma split_on_pieces: "w \<in> set (split_on c s) \<Longrightarrow> c \<notin> set w"
proof (induction s arbitrary: w)
  case Nil
  then show ?case by simp
next
  case (Cons x xs)
  then show ?case
    by (auto split: if_splits list.splits)
qed

lemma split_on_append_sep:
  "c \<notin> set a \<Longrightarrow> split_on c (a @ c # b) = a # split_on c b"
  by (induction a) auto

lemma split_on_append_sep_gen: "split_on c (x @ c # y) = split_on c x @ split_on c y"
proof (induction x)
  case Nil
  then show ?case by simp
next
  case (Cons a x)
  show ?case
  proof (cases "a = c")
    case True
    then show ?thesis using Cons by simp
  next
    case False
    obtain s ss where s: "split_on c x = s # ss" by (cases "split_on c x") auto
    then show ?thesis using Cons False by simp
  qed
qed

lemma split_on_slashes: "c \<notin> set b \<Longrightarrow> split_on c (replicate k c @ b) = replicate k [] @ [b]"
  by (induction k) (simp_all add: split_on_no_sep)

lemma split_at_first:
  "c \<in> set s \<Longrightarrow> s = takeWhile (\<lambda>x. x \<noteq> c) s @ c # drop 1 (dropWhile (\<lambda>x. x \<noteq> c) s)"
  by (induction s) auto

lemma startswith_append [simp]: "startswith (p @ s) p"
  by (simp add: startswith_def)

lemma startswith_Nil [simp]: "startswith s []"
  by (simp add: startswith_def)

lemma startswith_Cons [simp]: "startswith (x # s) (y # p) \<longleftrightarrow> x = y \<and> startswith s p"
  by (simp add: startswith_def)

lemma startswith_Nil_Cons [simp]: "\<not> startswith [] (y # p)"
  by (simp add: startswith_def)

lemma endswith_Nil [simp]: "\<not> endswith [] (y # p)"
  by (simp add: endswith_def)

lemma endswith_snoc: "endswith (s @ [x]) [y] \<longleftrightarrow> x = y"
  by (simp add: endswith_def)

lemma endswith_append_single: "b \<noteq> [] \<Longrightarrow> endswith (x @ b) [c] \<longleftrightarrow> endswith b [c]"
  by (cases b rule: rev_cases) (simp, metis append_assoc endswith_snoc)

lemma join_on_Cons_append: "join_on c ((a @ c # b) # bs) = join_on c (a # b # bs)"
  by (cases bs) simp_all

section \<open>Sorting by a key\<close>

text \<open>Sorting by a key and then reading the keys gives the sorted keys.\<close>

lemma map_sort_key: "map f (sort_key f xs) = sort (map f xs)"
  by (rule properties_for_sort [symmetric]) (simp_all add: mset_map)

section \<open>Association lists and prefixes\<close>

lemma set_update_subset: "set (AList.update k v al) \<subseteq> insert (k, v) (set al)"
  by (induction al) auto

lemma in_prefixes_butlast:
  "q \<in> set (prefixes (butlast k)) \<Longrightarrow> k \<noteq> [] \<Longrightarrow> length q < length k \<and> take (length q) k = q"
  by (cases k rule: rev_cases) (auto simp: prefix_def)

end
