(* ===== verification/Url_Parse.thy ===== *)
theory Url_Parse
  imports Prelude
begin

text \<open>
  The URI resolver: \<open>JFrogArtifactRepository.parse_artifactory_uri\<close> (lines 46--55 of
  jfrog_artifact_repository.py) and the parts of Python's \<open>urllib.parse\<close> it rests on.
  \<open>urlsplit\<close>, \<open>urlparse\<close> and \<open>urlunparse\<close> (\<open>ParseResult.geturl\<close>) follow CPython
  3.12's \<open>Lib/urllib/parse.py\<close>: leading C0 controls and spaces are stripped, tab, CR
  and LF removed, the scheme is the ASCII-lowercased prefix before the first colon when
  it starts with a letter and consists of scheme characters, the network location
  follows a leading \<open>//\<close> up to the first of \<open>/?#\<close>, then the fragment and the query are
  split off at the first \<open>#\<close> and \<open>?\<close>; parameters are split off only for the schemes
  of \<open>uses_params\<close>. Not modelled: the validation of a netloc holding both brackets
  (IPv6 literals, checked by the \<open>ipaddress\<close> module) and the NFKC check of non-ASCII
  network locations; a netloc with one bracket only raises \<open>ValueError\<close> as in CPython.
\<close>

record parse_result =
  pr_scheme :: string
  pr_netloc :: string
  pr_path :: string
  pr_params :: string
  pr_query :: string
  pr_fragment :: string

definition c0_or_space :: "char \<Rightarrow> bool" where
  "c0_or_space c \<longleftrightarrow> of_char c \<le> (32::nat)"

definition unsafe_url_bytes :: string where
  "unsafe_url_bytes = [CHR 0x09, CHR 0x0D, CHR 0x0A]"

definition ascii_letter :: "char \<Rightarrow> bool" where
  "ascii_letter c \<longleftrightarrow> c \<in> set ''abcdefghijklmnopqrstuvwxyzABCDEFGHIJKLMNOPQRSTUVWXYZ''"

definition scheme_char :: "char \<Rightarrow> bool" where
  "scheme_char c \<longleftrightarrow> ascii_letter c \<or> c \<in> set ''0123456789+-.''"

definition uses_params :: "string list" where
  "uses_params = ['''', ''ftp'', ''hdl'', ''prospero'', ''http'', ''imap'', ''https'', ''shttp'',
     ''rtsp'', ''rtspu'', ''sip'', ''sips'', ''mms'', ''sftp'', ''tel'']"

definition uses_netloc :: "string list" where
  "uses_netloc = ['''', ''ftp'', ''http'', ''gopher'', ''nntp'', ''telnet'', ''imap'', ''wais'',
     ''file'', ''mms'', ''https'', ''shttp'', ''snews'', ''prospero'', ''rtsp'', ''rtsps'', ''rtspu'',
     ''rsync'', ''svn'', ''svn+ssh'', ''sftp'', ''nfs'', ''git'', ''git+ssh'', ''ws'', ''wss'',
     ''itms-services'']"

text \<open>\<open>url.lstrip(C0 or space)\<close>, then every tab, CR and LF removed.\<close>

definition url_clean :: "string \<Rightarrow> string" where
  "url_clean s = filter (\<lambda>c. c \<notin> set unsafe_url_bytes) (dropWhile c0_or_space s)"

text \<open>\<open>s.split(c, 1)\<close> when \<open>c in s\<close>: the part before the first \<open>c\<close> and the rest after it.\<close>

definition split_first :: "char \<Rightarrow> string \<Rightarrow> string \<times> string" where
  "split_first c s = (takeWhile (\<lambda>x. x \<noteq> c) s, drop 1 (dropWhile (\<lambda>x. x \<noteq> c) s))"

text \<open>The scheme: \<open>i = url.find(':')\<close>; taken when \<open>i > 0\<close>, \<open>url[0]\<close> is an ASCII letter
  and every character of \<open>url[:i]\<close> is a scheme character.\<close>

definition split_scheme :: "string \<Rightarrow> string \<times> string" where
  "split_scheme s =
     (let pre = takeWhile (\<lambda>x. x \<noteq> CHR '':'') s in
      if CHR '':'' \<in> set s \<and> pre \<noteq> [] \<and> ascii_letter (hd pre) \<and> list_all scheme_char pre
      then (map ascii_lower pre, snd (split_first CHR '':'' s))
      else ([], s))"

text \<open>\<open>_splitnetloc(url, 2)\<close>: the authority runs up to the first of \<open>/?#\<close>.\<close>

definition netloc_delim :: "char \<Rightarrow> bool" where
  "netloc_delim c \<longleftrightarrow> c \<in> set ''/?#''"

definition split_netloc :: "string \<Rightarrow> string \<times> string" where
  "split_netloc s =
     (takeWhile (\<lambda>x. \<not> netloc_delim x) (drop 2 s), dropWhile (\<lambda>x. \<not> netloc_delim x) (drop 2 s))"

definition urlsplit :: "string \<Rightarrow> parse_result py" where
  "urlsplit s0 =
     (let s = url_clean s0;
          (scheme, url) = split_scheme s;
          (netloc, url) = (if take 2 url = ''//'' then split_netloc url else ([], url))
      in if (CHR ''['' \<in> set netloc \<and> CHR '']'' \<notin> set netloc)
            \<or> (CHR '']'' \<in> set netloc \<and> CHR ''['' \<notin> set netloc)
         then Inl (ValueError ''Invalid IPv6 URL'')
         else
           (let (url, fragment) = (if CHR ''#'' \<in> set url then split_first CHR ''#'' url else (url, []));
                (url, query) = (if CHR ''?'' \<in> set url then split_first CHR ''?'' url else (url, []))
            in Inr \<lparr>pr_scheme = scheme, pr_netloc = netloc, pr_path = url, pr_params = [],
                    pr_query = query, pr_fragment = fragment\<rparr>))"

text \<open>\<open>_splitparams\<close>: after the last \<open>/\<close>, at the first \<open>;\<close>.\<close>

definition split_params :: "string \<Rightarrow> string \<times> string" where
  "split_params url =
     (if CHR ''/'' \<in> set url then
        (let tail = rev (takeWhile (\<lambda>x. x \<noteq> CHR ''/'') (rev url));
             head = take (length url - length tail) url
         in if CHR '';'' \<in> set tail
            then (head @ fst (split_first CHR '';'' tail), snd (split_first CHR '';'' tail))
            else (url, []))
      else split_first CHR '';'' url)"

definition urlparse :: "string \<Rightarrow> parse_result py" where
  "urlparse s =
     (case urlsplit s of
        Inl e \<Rightarrow> Inl e
      | Inr r \<Rightarrow>
          (if pr_scheme r \<in> set uses_params \<and> CHR '';'' \<in> set (pr_path r)
           then (let (url, params) = split_params (pr_path r)
                 in Inr (r\<lparr>pr_path := url, pr_params := params\<rparr>))
           else Inr r))"

text \<open>\<open>ParseResult.geturl()\<close>, that is \<open>urlunparse\<close> and \<open>urlunsplit\<close>.\<close>

definition urlunparse :: "parse_result \<Rightarrow> string" where
  "urlunparse r =
     (let url = (if pr_params r \<noteq> [] then pr_path r @ '';'' @ pr_params r else pr_path r);
          url = (if pr_netloc r \<noteq> []
                    \<or> (pr_scheme r \<noteq> [] \<and> pr_scheme r \<in> set uses_netloc \<and> take 2 url \<noteq> ''//'')
                 then ''//'' @ pr_netloc r @
                      (if url \<noteq> [] \<and> take 1 url \<noteq> ''/'' then CHR ''/'' # url else url)
                 else url);
          url = (if pr_scheme r \<noteq> [] then pr_scheme r @ CHR '':'' # url else url);
          url = (if pr_query r \<noteq> [] then url @ CHR ''?'' # pr_query r else url)
      in if pr_fragment r \<noteq> [] then url @ CHR ''#'' # pr_fragment r else url)"

text \<open>
  \<^verbatim>\<open>
    parsed = urlparse(uri)
    if parsed.scheme != "artifactory":
        raise Exception("Not an artifactory URI: %s" % uri)
    path = parsed.path
    if path.startswith("/"):
        path = path[1:]
    return parsed.netloc, path
  \<close>
\<close>

definition parse_artifactory_uri :: "string \<Rightarrow> (string \<times> string) py" where
  "parse_artifactory_uri uri =
     (case urlparse uri of
        Inl e \<Rightarrow> Inl e
      | Inr parsed \<Rightarrow>
          (if pr_scheme parsed \<noteq> ''artifactory''
           then Inl (PyException (''Not an artifactory URI: '' @ uri))
           else (let path = pr_path parsed;
                     path = (if startswith path ''/'' then drop 1 path else path)
                 in Inr (pr_netloc parsed, path))))"

section \<open>Properties of the URI resolver\<close>

text \<open>The rules that evaluate the parser on a concrete URI.\<close>

lemmas uri_eval = parse_artifactory_uri_def urlparse_def urlsplit_def url_clean_def split_scheme_def
  split_first_def split_netloc_def netloc_delim_def c0_or_space_def unsafe_url_bytes_def
  ascii_letter_def scheme_char_def ascii_lower_def uses_params_def

lemma url_clean_plain:
  assumes "set s \<inter> set unsafe_url_bytes = {}" and "s = [] \<or> \<not> c0_or_space (hd s)"
  shows "url_clean s = s"
proof -
  have "dropWhile c0_or_space s = s" using assms(2) by (cases s) auto
  moreover have "filter (\<lambda>c. c \<notin> set unsafe_url_bytes) s = s"
    using assms(1) by (auto simp: filter_id_conv)
  ultimately show ?thesis by (simp add: url_clean_def)
qed

lemma urlsplit_error: "urlsplit s = Inl e \<Longrightarrow> e = ValueError ''Invalid IPv6 URL''"
  by (auto simp: urlsplit_def Let_def split: prod.splits if_splits)

lemma urlparse_error: "urlparse s = Inl e \<Longrightarrow> e = ValueError ''Invalid IPv6 URL''"
  by (auto simp: urlparse_def Let_def dest: urlsplit_error split: sum.splits if_splits prod.splits)

text \<open>A result comes only from a URI whose scheme, ignoring case, is \<open>artifactory\<close>.\<close>

lemma parse_artifactory_uri_scheme:
  assumes "parse_artifactory_uri uri = Inr x"
  shows "map ascii_lower (take 12 (url_clean uri)) = ''artifactory:''"
proof -
  obtain r where r: "urlsplit uri = Inr r" and sc: "pr_scheme r = ''artifactory''"
    using assms by (cases "urlsplit uri")
      (auto simp: parse_artifactory_uri_def urlparse_def Let_def split: if_splits prod.splits)
  let ?s = "url_clean uri"
  let ?pre = "takeWhile (\<lambda>x. x \<noteq> CHR '':'') ?s"
  have "pr_scheme r = fst (split_scheme ?s)"
    using r by (auto simp: urlsplit_def Let_def split: prod.splits if_splits)
  then have taken: "CHR '':'' \<in> set ?s" and low: "map ascii_lower ?pre = ''artifactory''"
    using sc by (auto simp: split_scheme_def Let_def split: if_splits)
  have len: "length ?pre = 11" using arg_cong[OF low, of length] by simp
  have "take 12 ?s = ?pre @ [CHR '':'']"
    by (subst split_at_first[OF taken]) (simp add: len)
  then show ?thesis by (simp add: low ascii_lower_def)
qed

text \<open>
  C1. Round trip of the URI resolver: for a host segment without \<open>/?#[]\<close> and a path
  segment without \<open>?#\<close> (neither holding tab, CR or LF),
  \<open>parse_artifactory_uri\<close> of \<open>artifactory://host/path\<close> returns exactly
  \<open>(host, path)\<close>: the network location, and the path with one leading slash removed.
  A path that itself starts with a slash keeps it, since only one slash is stripped.
\<close>

theorem parse_artifactory_uri_roundtrip:
  assumes h: "set h \<inter> set ''/?#[]'' = {}" and p: "set p \<inter> set ''?#'' = {}"
    and u: "set (h @ p) \<inter> set unsafe_url_bytes = {}"
  shows "parse_artifactory_uri (''artifactory://'' @ h @ CHR ''/'' # p) = Inr (h, p)"
proof -
  define uri where "uri = ''artifactory://'' @ h @ CHR ''/'' # p"
  define rest where "rest = ''//'' @ h @ CHR ''/'' # p"
  have clean: "url_clean uri = uri"
    using u unfolding uri_def
    by (intro url_clean_plain) (auto simp: unsafe_url_bytes_def c0_or_space_def)
  have sch: "split_scheme uri = (''artifactory'', rest)"
    by (simp add: uri_def rest_def split_scheme_def split_first_def ascii_letter_def
        scheme_char_def ascii_lower_def)
  have h': "\<forall>x\<in>set h. \<not> netloc_delim x" using h by (auto simp: netloc_delim_def)
  have net: "split_netloc rest = (h, CHR ''/'' # p)"
    using h' by (simp add: rest_def split_netloc_def takeWhile_append2 dropWhile_append2
        netloc_delim_def)
  have r2: "take 2 rest = ''//''" by (simp add: rest_def)
  have nb: "CHR ''['' \<notin> set h" "CHR '']'' \<notin> set h" using h by auto
  have nq: "CHR ''#'' \<notin> set p" "CHR ''?'' \<notin> set p" using p by auto
  have "urlsplit uri = Inr \<lparr>pr_scheme = ''artifactory'', pr_netloc = h, pr_path = CHR ''/'' # p,
      pr_params = [], pr_query = [], pr_fragment = []\<rparr>"
    by (simp add: urlsplit_def clean sch r2 net nb nq Let_def)
  then have "parse_artifactory_uri uri = Inr (h, p)"
    by (simp add: parse_artifactory_uri_def urlparse_def uses_params_def)
  then show ?thesis by (simp only: uri_def)
qed

theorem parse_artifactory_uri_roundtrip_witness:
  "set ''myhost'' \<inter> set ''/?#[]'' = {} \<and> set ''mlruns/0/run1/artifacts'' \<inter> set ''?#'' = {}
   \<and> set (''myhost'' @ ''mlruns/0/run1/artifacts'') \<inter> set unsafe_url_bytes = {}
   \<and> parse_artifactory_uri (''artifactory://'' @ ''myhost'' @ CHR ''/'' # ''mlruns/0/run1/artifacts'')
       = Inr (''myhost'', ''mlruns/0/run1/artifacts'')"
  using parse_artifactory_uri_roundtrip [of "''myhost''" "''mlruns/0/run1/artifacts''"]
  by (simp add: unsafe_url_bytes_def)

text \<open>
  C2. Rejection of other schemes: a URI whose text (after the leading-space strip and the
  tab/CR/LF removal of \<open>urlsplit\<close>) does not begin with \<open>artifactory:\<close>, in any letter
  case, makes \<open>parse_artifactory_uri\<close> raise \<open>Exception("Not an artifactory URI: ...")\<close>,
  or \<open>ValueError\<close> when \<open>urlparse\<close> itself rejects an unbalanced bracket.
\<close>

theorem parse_artifactory_uri_rejects:
  assumes "map ascii_lower (take 12 (url_clean uri)) \<noteq> ''artifactory:''"
  shows "parse_artifactory_uri uri = Inl (PyException (''Not an artifactory URI: '' @ uri))
       \<or> parse_artifactory_uri uri = Inl (ValueError ''Invalid IPv6 URL'')"
proof (cases "parse_artifactory_uri uri")
  case (Inl e)
  then have "e = PyException (''Not an artifactory URI: '' @ uri) \<or> e = ValueError ''Invalid IPv6 URL''"
    by (auto simp: parse_artifactory_uri_def Let_def dest: urlparse_error
        split: sum.splits if_splits)
  with Inl show ?thesis by auto
next
  case (Inr x)
  then show ?thesis using assms parse_artifactory_uri_scheme by blast
qed

theorem parse_artifactory_uri_rejects_witness:
  "map ascii_lower (take 12 (url_clean ''s3://bucket/mlruns'')) \<noteq> ''artifactory:''
   \<and> (parse_artifactory_uri ''s3://bucket/mlruns''
        = Inl (PyException (''Not an artifactory URI: '' @ ''s3://bucket/mlruns''))
      \<or> parse_artifactory_uri ''s3://bucket/mlruns'' = Inl (ValueError ''Invalid IPv6 URL''))"
proof -
  have h: "map ascii_lower (take 12 (url_clean ''s3://bucket/mlruns'')) \<noteq> ''artifactory:''"
    by (simp add: url_clean_def c0_or_space_def unsafe_url_bytes_def ascii_lower_def)
  show ?thesis using h parse_artifactory_uri_rejects [OF h] by simp
qed



end
