(* ===== verification/Py_Lib.thy ===== *)
theory Py_Lib
  imports Prelude
begin

text \<open>
  The Python library functions the plugin calls on paths and numbers, as CPython 3.12
  defines them:
  \<^item> \<open>posixpath.join\<close>, \<open>os.path.basename\<close> and \<open>os.path.dirname\<close> on POSIX;
  \<^item> \<open>pathlib.PurePosixPath\<close>: the parsing of a path string into its \<open>parts\<close> (root,
    then the non-empty components other than \<open>.\<close>) and \<open>Path.name\<close>;
  \<^item> \<open>int(s)\<close> on a decimal string (surrounding ASCII whitespace, an optional sign, digits
    with single underscores between them) and \<open>str(i)\<close> of an integer.
  The component \<open>..\<close> is kept as a name, as pathlib does; symbolic links are not modelled.
\<close>

section \<open>posixpath\<close>

text \<open>
  \<^verbatim>\<open>
    path = a
    for b in p:
        if b.startswith(sep): path = b
        elif not path or path.endswith(sep): path += b
        else: path += sep + b
  \<close>
\<close>

fun posix_join :: "string \<Rightarrow> string list \<Rightarrow> string" where
  "posix_join a [] = a"
| "posix_join a (b # bs) =
     posix_join (if startswith b ''/'' then b
                 else if a = [] \<or> endswith a ''/'' then a @ b
                 else a @ CHR ''/'' # b) bs"

text \<open>\<open>p[p.rfind('/') + 1:]\<close>\<close>

definition basename :: "string \<Rightarrow> string" where
  "basename p = rev (takeWhile (\<lambda>c. c \<noteq> CHR ''/'') (rev p))"

text \<open>\<open>head = p[:p.rfind('/') + 1]\<close>, trailing slashes removed unless it is all slashes.\<close>

definition dirname :: "string \<Rightarrow> string" where
  "dirname p =
     (let head = take (length p - length (basename p)) p
      in if head \<noteq> [] \<and> (\<exists>c\<in>set head. c \<noteq> CHR ''/'')
         then rev (dropWhile (\<lambda>c. c = CHR ''/'') (rev head)) else head)"

section \<open>pathlib\<close>

text \<open>\<open>splitroot\<close>: exactly two leading slashes are kept as the root \<open>//\<close>, one or
  three and more give \<open>/\<close>.\<close>

definition pl_splitroot :: "string \<Rightarrow> string \<times> string" where
  "pl_splitroot s =
     (if take 1 s = ''/'' then
        (let rel = dropWhile (\<lambda>c. c = CHR ''/'') s
         in (if length s - length rel = 2 then ''//'' else ''/'', rel))
      else ([], s))"

definition pl_parts :: "string \<Rightarrow> string list" where
  "pl_parts s =
     (let (root, rel) = pl_splitroot s
      in (if root = [] then [] else [root]) @ filter (\<lambda>x. x \<noteq> [] \<and> x \<noteq> ''.'') (split_on CHR ''/'' rel))"

definition is_root_part :: "string \<Rightarrow> bool" where
  "is_root_part x \<longleftrightarrow> x = ''/'' \<or> x = ''//''"

text \<open>\<open>Path.name\<close>: the last part, or the empty string when there is none but the root.\<close>

definition pl_name :: "string list \<Rightarrow> string" where
  "pl_name parts = (if parts = [] \<or> is_root_part (last parts) then [] else last parts)"

section \<open>int and str\<close>

definition is_digit :: "char \<Rightarrow> bool" where
  "is_digit c \<longleftrightarrow> c \<in> set ''0123456789''"

definition digit_val :: "char \<Rightarrow> nat" where
  "digit_val c = of_char c - of_char CHR ''0''"

definition digits_val :: "string \<Rightarrow> nat" where
  "digits_val s = foldl (\<lambda>acc c. 10 * acc + digit_val c) 0 s"

text \<open>\<open>str.isspace()\<close> on the characters up to U+00FF: the ASCII blanks, the
  separators U+001C--U+001F, NEL and NO-BREAK SPACE; \<open>str.strip()\<close> and \<open>int()\<close>
  strip exactly these.\<close>

definition py_space :: "char \<Rightarrow> bool" where
  "py_space c \<longleftrightarrow> c \<in> set [CHR 0x20, CHR 0x09, CHR 0x0A, CHR 0x0B, CHR 0x0C, CHR 0x0D,
                               CHR 0x1C, CHR 0x1D, CHR 0x1E, CHR 0x1F, CHR 0x85, CHR 0xA0]"

definition py_strip :: "string \<Rightarrow> string" where
  "py_strip s = rev (dropWhile py_space (rev (dropWhile py_space s)))"

text \<open>Digits, with an underscore allowed only between two digits.\<close>

fun digit_body :: "string \<Rightarrow> bool" where
  "digit_body [] = False"
| "digit_body [c] = is_digit c"
| "digit_body (c # d # cs) =
     (is_digit c \<and> (if d = CHR ''_'' then (case cs of [] \<Rightarrow> False | e # _ \<Rightarrow> is_digit e) \<and> digit_body cs
                     else digit_body (d # cs)))"

definition py_int :: "string \<Rightarrow> int py" where
  "py_int s =
     (let t = py_strip s;
          (neg, body) = (case t of
                           c # r \<Rightarrow> if c = CHR ''-'' then (True, r)
                                    else if c = CHR ''+'' then (False, r) else (False, t)
                         | [] \<Rightarrow> (False, []))
      in if digit_body body
         then Inr ((if neg then -1 else 1) * int (digits_val (filter (\<lambda>c. c \<noteq> CHR ''_'') body)))
         else Inl (ValueError (''invalid literal for int() with base 10: '' @ s)))"

definition digit_char :: "nat \<Rightarrow> char" where
  "digit_char n = ''0123456789'' ! n"

fun dec_nat :: "nat \<Rightarrow> string" where
  "dec_nat n = (if n < 10 then [digit_char n] else dec_nat (n div 10) @ [digit_char (n mod 10)])"

declare dec_nat.simps [simp del]

definition py_str_int :: "int \<Rightarrow> string" where
  "py_str_int i = (if i < 0 then CHR ''-'' # dec_nat (nat (- i)) else dec_nat (nat i))"

section \<open>Properties of the path functions\<close>

lemma takeWhile_append_stop: "\<not> P y \<Longrightarrow> takeWhile P (xs @ y # ys) = takeWhile P xs"
  by (induction xs) auto

lemma endswith_single: "endswith a [c] \<Longrightarrow> a = butlast a @ [c]"
  by (cases a rule: rev_cases) (auto simp: endswith_def)

lemma basename_no_slash [simp]: "CHR ''/'' \<notin> set (basename p)"
  by (auto simp: basename_def dest: set_takeWhileD)

lemma basename_append_slash [simp]: "basename (a @ CHR ''/'' # b) = basename b"
  by (simp add: basename_def takeWhile_append_stop)

lemma basename_snoc_slash [simp]: "basename (a @ [CHR ''/'']) = []"
  using basename_append_slash [of a "[]"] by (simp add: basename_def)

lemma basename_plain: "CHR ''/'' \<notin> set b \<Longrightarrow> basename b = b"
proof -
  assume "CHR ''/'' \<notin> set b"
  then have tw: "takeWhile (\<lambda>c. c \<noteq> CHR ''/'') (rev b) = rev b"
    by (intro takeWhile_eq_all_conv[THEN iffD2]) auto
  show ?thesis unfolding basename_def tw by simp
qed

lemma basename_after_slash:
  assumes "endswith a ''/''"
  shows "basename (a @ b) = basename b"
proof -
  obtain a' where "a = a' @ [CHR ''/'']" using endswith_single [OF assms] by blast
  then show ?thesis by simp
qed

lemma basename_posix_join:
  assumes "CHR ''/'' \<notin> set b"
  shows "basename (posix_join a [b]) = b"
proof -
  have plain: "basename b = b" using assms by (rule basename_plain)
  have ns: "\<not> startswith b ''/''" using assms by (cases b) auto
  consider "a = []" | "a \<noteq> []" "endswith a ''/''" | "a \<noteq> []" "\<not> endswith a ''/''" by blast
  then show ?thesis
  proof cases
    case 1
    then show ?thesis using ns plain by simp
  next
    case 2
    then show ?thesis using ns plain by (simp add: basename_after_slash)
  next
    case 3
    then show ?thesis using ns plain by simp
  qed
qed

section \<open>Properties of int and str\<close>

lemma digit_char_val: "k < 10 \<Longrightarrow> digit_val (digit_char k) = k"
  by (auto simp: digit_val_def digit_char_def numeral_eq_Suc less_Suc_eq)

lemma digit_char_digit: "k < 10 \<Longrightarrow> is_digit (digit_char k)"
  by (auto simp: is_digit_def digit_char_def numeral_eq_Suc less_Suc_eq)

lemma digits_val_snoc [simp]: "digits_val (xs @ [c]) = 10 * digits_val xs + digit_val c"
  by (simp add: digits_val_def)

lemma dec_nat_digits: "c \<in> set (dec_nat n) \<Longrightarrow> is_digit c"
proof (induction n rule: dec_nat.induct)
  case (1 n)
  then show ?case
    by (cases "n < 10") (auto simp: dec_nat.simps [of n] digit_char_digit)
qed

lemma dec_nat_not_Nil [simp]: "dec_nat n \<noteq> []"
  by (simp add: dec_nat.simps [of n])

lemma dec_nat_val: "digits_val (dec_nat n) = n"
proof (induction n rule: dec_nat.induct)
  case (1 n)
  then show ?case
    by (cases "n < 10") (auto simp: dec_nat.simps [of n] digit_char_val digits_val_def)
qed

lemma digit_body_digits: "s \<noteq> [] \<Longrightarrow> \<forall>c\<in>set s. is_digit c \<Longrightarrow> digit_body s"
  by (induction s rule: digit_body.induct) (auto simp: is_digit_def)

lemma digit_not_sign: "is_digit c \<Longrightarrow> c \<noteq> CHR ''-'' \<and> c \<noteq> CHR ''+''"
  by (auto simp: is_digit_def)

lemma digit_not_underscore: "is_digit c \<Longrightarrow> c \<noteq> CHR ''_''"
  by (auto simp: is_digit_def)

lemma digit_not_space: "is_digit c \<Longrightarrow> \<not> py_space c"
  by (auto simp: is_digit_def py_space_def)

lemma py_strip_digits:
  assumes "\<forall>c\<in>set s. \<not> py_space c"
  shows "py_strip s = s"
proof -
  have "dropWhile py_space s = s" using assms by (cases s) auto
  moreover have "dropWhile py_space (rev s) = rev s" using assms by (cases "rev s") auto
  ultimately show ?thesis by (simp add: py_strip_def)
qed

lemma py_int_digits:
  assumes ne: "s \<noteq> []" and dig: "\<forall>c\<in>set s. is_digit c"
  shows "py_int s = Inr (int (digits_val s))"
    and "py_int (CHR ''-'' # s) = Inr (- int (digits_val s))"
proof -
  obtain c r where cr: "s = c # r" using ne by (cases s) auto
  have nsp: "\<forall>x\<in>set s. \<not> py_space x" using dig digit_not_space by blast
  have strip1: "py_strip s = s" using nsp by (rule py_strip_digits)
  have "\<not> py_space CHR ''-''" by (simp add: py_space_def)
  then have strip2: "py_strip (CHR ''-'' # s) = CHR ''-'' # s" using nsp by (intro py_strip_digits) simp
  have c: "c \<noteq> CHR ''-''" "c \<noteq> CHR ''+''" using dig cr digit_not_sign by auto
  have filt: "filter (\<lambda>c. c \<noteq> CHR ''_'') s = s"
    using dig digit_not_underscore by (simp add: filter_id_conv)
  have body: "digit_body s" using ne dig by (rule digit_body_digits)
  have "py_int (c # r) = Inr (int (digits_val (c # r)))"
    unfolding py_int_def strip1 [unfolded cr] using c filt body by (simp add: cr)
  then show "py_int s = Inr (int (digits_val s))" by (simp only: cr)
  show "py_int (CHR ''-'' # s) = Inr (- int (digits_val s))"
    unfolding py_int_def strip2 using filt body by simp
qed



section \<open>Directory part and parts of a path\<close>

text \<open>A path ends with its base name after the directory part \<open>head\<close>, which is empty or
  ends with a slash.\<close>

lemma basename_head:
  obtains h where "p = h @ basename p" "h = [] \<or> last h = CHR ''/''"
    "take (length p - length (basename p)) p = h"
proof -
  define t where "t = takeWhile (\<lambda>c. c \<noteq> CHR ''/'') (rev p)"
  define r where "r = dropWhile (\<lambda>c. c \<noteq> CHR ''/'') (rev p)"
  have rp: "rev p = t @ r" by (simp add: t_def r_def)
  then have p: "p = rev r @ rev t" by (metis rev_append rev_rev_ident)
  have b: "basename p = rev t" by (simp add: basename_def t_def)
  have "r = [] \<or> hd r = CHR ''/''"
    unfolding r_def by (metis (mono_tags, lifting) hd_dropWhile)
  then have "rev r = [] \<or> last (rev r) = CHR ''/''" by (auto simp: last_rev)
  moreover have "take (length p - length (basename p)) p = rev r" using p b by simp
  ultimately show ?thesis using that [of "rev r"] p b by simp
qed

lemma pl_splitroot_append:
  assumes "\<exists>c\<in>set d. c \<noteq> CHR ''/''"
  shows "pl_splitroot (d @ e) = (fst (pl_splitroot d), snd (pl_splitroot d) @ e)"
proof -
  obtain c where c: "c \<in> set d" "c \<noteq> CHR ''/''" using assms by blast
  have ne: "d \<noteq> []" using c by auto
  have dw: "dropWhile (\<lambda>x. x = CHR ''/'') (d @ e) = dropWhile (\<lambda>x. x = CHR ''/'') d @ e"
    using c by (simp add: dropWhile_append1)
  have t1: "Suc 0 - length d = 0" using ne by (cases d) auto
  have "length (dropWhile (\<lambda>x. x = CHR ''/'') d) \<le> length d" by (simp add: length_dropWhile_le)
  then show ?thesis using dw t1 by (simp add: pl_splitroot_def Let_def)
qed

lemma pl_parts_snoc_name:
  assumes "\<exists>c\<in>set d. c \<noteq> CHR ''/''" and "CHR ''/'' \<notin> set b" "b \<noteq> []" "b \<noteq> ''.''"
  shows "pl_parts (d @ replicate (Suc m) CHR ''/'' @ b) = pl_parts d @ [b]"
proof -
  have "split_on CHR ''/'' (snd (pl_splitroot d) @ CHR ''/'' # replicate m CHR ''/'' @ b)
        = split_on CHR ''/'' (snd (pl_splitroot d)) @ replicate m [] @ [b]"
    using assms(2) by (simp add: split_on_append_sep_gen split_on_slashes)
  then show ?thesis using assms
    by (simp add: pl_parts_def pl_splitroot_append [OF assms(1)] split_def Let_def)
qed

lemma pl_parts_root_name:
  assumes "CHR ''/'' \<notin> set b" "b \<noteq> []" "b \<noteq> ''.''" "n \<noteq> 0"
  shows "pl_parts (replicate n CHR ''/'' @ b) = pl_parts (replicate n CHR ''/'') @ [b]"
proof -
  have hb: "hd b \<noteq> CHR ''/''" using assms(1,2) by (cases b) auto
  have "dropWhile (\<lambda>x. x = CHR ''/'') (replicate n CHR ''/'' @ b) = dropWhile (\<lambda>x. x = CHR ''/'') b"
    by (rule dropWhile_append2) simp
  also have "\<dots> = b" using hb assms(2) by (cases b) auto
  finally have dw: "dropWhile (\<lambda>x. x = CHR ''/'') (replicate n CHR ''/'' @ b) = b" .
  have "take 1 (replicate n CHR ''/'' @ b) = ''/''" "take 1 (replicate n CHR ''/'') = ''/''"
    using assms(4) by (cases n, simp_all)+
  then show ?thesis using assms dw
    by (simp add: pl_parts_def pl_splitroot_def Let_def split_on_no_sep)
qed

text \<open>For a path with a directory part and a proper final name, pathlib's parts are the
  parts of \<open>os.path.dirname\<close> followed by \<open>os.path.basename\<close>.\<close>

lemma pl_parts_dirname:
  assumes "dirname p \<noteq> []" "basename p \<noteq> []" "basename p \<noteq> ''.''"
  shows "pl_parts p = pl_parts (dirname p) @ [basename p]"
proof -
  obtain h where ph: "p = h @ basename p" and hl: "h = [] \<or> last h = CHR ''/''"
    and ht: "take (length p - length (basename p)) p = h" by (rule basename_head)
  define b where "b = basename p"
  have ph': "p = h @ b" using ph unfolding b_def .
  have nb: "CHR ''/'' \<notin> set b" by (simp add: b_def)
  have bne: "b \<noteq> []" "b \<noteq> ''.''" using assms(2,3) by (simp_all add: b_def)
  have dn: "dirname p = (if h \<noteq> [] \<and> (\<exists>c\<in>set h. c \<noteq> CHR ''/'')
                         then rev (dropWhile (\<lambda>c. c = CHR ''/'') (rev h)) else h)"
    by (simp add: dirname_def ht Let_def)
  have hne: "h \<noteq> []" using assms(1) dn by (auto split: if_splits)
  show ?thesis
    unfolding b_def [symmetric]
  proof (cases "\<exists>c\<in>set h. c \<noteq> CHR ''/''")
    case False
    then obtain n where hr: "h = replicate n CHR ''/''" by (metis replicate_length_same)
    have "dirname p = h" using dn False by simp
    moreover have "pl_parts p = pl_parts (replicate n CHR ''/'' @ b)"
      using ph' hr by simp
    moreover have "n \<noteq> 0" using hne hr by auto
    ultimately show "pl_parts p = pl_parts (dirname p) @ [b]"
      using pl_parts_root_name [OF nb bne, of n] hr by simp
  next
    case True
    define s where "s = takeWhile (\<lambda>c. c = CHR ''/'') (rev h)"
    define d where "d = rev (dropWhile (\<lambda>c. c = CHR ''/'') (rev h))"
    have "rev h = s @ rev d" unfolding d_def s_def by simp
    then have hds: "h = d @ rev s" by (metis rev_append rev_rev_ident)
    have "hd (rev h) = CHR ''/''" using hl hne by (simp add: hd_rev)
    then have sne: "s \<noteq> []" using hne unfolding s_def by (cases "rev h") auto
    have sl: "\<forall>c\<in>set (rev s). c = CHR ''/''" unfolding s_def by (auto dest: set_takeWhileD)
    then have "replicate (length (rev s)) CHR ''/'' = rev s" by (rule replicate_length_same)
    then have "rev s = replicate (length s) CHR ''/''" by (metis length_rev)
    then have rs: "rev s = replicate (Suc (length s - 1)) CHR ''/''" using sne by (cases s) auto
    obtain c where c: "c \<in> set h" "c \<noteq> CHR ''/''" using True by blast
    have "c \<notin> set (rev s)" using sl c(2) by blast
    moreover have "c \<in> set (d @ rev s)" using c(1) hds by simp
    ultimately have dc: "\<exists>c\<in>set d. c \<noteq> CHR ''/''" using c(2) by auto
    have "dirname p = d" using dn True hne by (simp add: d_def)
    moreover have "pl_parts p = pl_parts (d @ replicate (Suc (length s - 1)) CHR ''/'' @ b)"
      using ph' hds rs by simp
    ultimately show "pl_parts p = pl_parts (dirname p) @ [b]"
      using pl_parts_snoc_name [OF dc nb bne] by simp
  qed
qed


lemma basename_not_trailing: "basename p \<noteq> [] \<Longrightarrow> \<not> endswith p ''/''"
  by (metis basename_snoc_slash endswith_single)

lemma dirname_no_slash: "CHR ''/'' \<notin> set p \<Longrightarrow> dirname p = []"
  by (simp add: dirname_def basename_plain)


text \<open>On components that neither start nor end with a slash, \<open>posixpath.join\<close> is
  \<open>"/".join\<close>.\<close>

lemma posix_join_plain:
  assumes "a \<noteq> []" and "\<not> endswith a ''/''"
    and "list_all (\<lambda>b. b \<noteq> [] \<and> \<not> startswith b ''/'' \<and> \<not> endswith b ''/'') bs"
  shows "posix_join a bs = join_on CHR ''/'' (a # bs)"
  using assms
proof (induction bs arbitrary: a)
  case Nil
  then show ?case by simp
next
  case (Cons b bs)
  have "\<not> endswith (a @ CHR ''/'' # b) ''/''"
    using Cons.prems(3) endswith_append_single [of b "a @ ''/''"] by simp
  then have "posix_join (a @ CHR ''/'' # b) bs = join_on CHR ''/'' ((a @ CHR ''/'' # b) # bs)"
    using Cons.IH Cons.prems(3) by simp
  then show ?case using Cons.prems by (simp add: join_on_Cons_append)
qed


lemma py_int_dec_nat: "py_int (dec_nat n) = Inr (int n)"
  using py_int_digits(1) [OF dec_nat_not_Nil, of n] dec_nat_digits dec_nat_val by simp


lemma basename_Cons_slash [simp]: "basename (CHR ''/'' # b) = basename b"
  using basename_append_slash [of "[]" b] by simp

end
