(* ===== verification/Local_FS.thy ===== *)
theory Local_FS
  imports Py_Lib
begin

text \<open>
  The local file system as the plugin sees it through \<open>pathlib\<close> and \<open>os\<close>: an association
  list from a path (its pathlib \<open>parts\<close>) to a node, a regular file with its bytes or a
  directory. The working directory (no parts) and the root (\<open>/\<close> or \<open>//\<close>) always exist as
  directories. The operations are the calls of jfrog_artifact_repository.py:
  \<open>Path.is_file\<close> (lines 68, 94), \<open>Path.glob("**/*")\<close> (line 82) as the set of paths it
  yields in an unspecified order, reading a file for an upload, \<open>os.makedirs(d,
  exist_ok=True)\<close> (line 153) and \<open>open(p, "wb").write(b)\<close> (lines 156--157), each with
  the OSError that POSIX gives where it fails. \<open>lfs_wf\<close> says the list is a tree (one
  entry per path, every proper prefix of an entry a directory); \<open>os.makedirs\<close> and the
  write of a file preserve it. Permissions, symbolic links, \<open>..\<close> as a
  parent reference and concurrent writers are not modelled.
\<close>

datatype lnode = LFile bytes | LDir

type_synonym lfs = "(string list \<times> lnode) list"

definition implicit_dir :: "string list \<Rightarrow> bool" where
  "implicit_dir k \<longleftrightarrow> k = [] \<or> (length k = 1 \<and> is_root_part (hd k))"

definition fs_lookup :: "lfs \<Rightarrow> string list \<Rightarrow> lnode option" where
  "fs_lookup fs k = (if implicit_dir k then Some LDir else map_of fs k)"

definition is_lfile :: "lfs \<Rightarrow> string list \<Rightarrow> bool" where
  "is_lfile fs k \<longleftrightarrow> (case fs_lookup fs k of Some (LFile _) \<Rightarrow> True | _ \<Rightarrow> False)"

text \<open>A proper prefix of the path is a regular file: \<open>stat\<close> of the path fails with
  \<open>ENOTDIR\<close>, so the path is neither a file nor a directory.\<close>

definition fs_blocked :: "lfs \<Rightarrow> string list \<Rightarrow> bool" where
  "fs_blocked fs k \<longleftrightarrow> list_ex (is_lfile fs) (prefixes (butlast k))"

text \<open>\<open>Path.is_file()\<close> and \<open>os.path.isdir()\<close>: \<open>stat\<close> succeeds and reports the kind.\<close>

definition fs_is_file :: "lfs \<Rightarrow> string list \<Rightarrow> bool" where
  "fs_is_file fs k \<longleftrightarrow> \<not> fs_blocked fs k \<and> is_lfile fs k"

definition fs_is_dir :: "lfs \<Rightarrow> string list \<Rightarrow> bool" where
  "fs_is_dir fs k \<longleftrightarrow> \<not> fs_blocked fs k \<and> fs_lookup fs k = Some LDir"

text \<open>\<open>str(Path(...))\<close> of a list of parts, used in the messages.\<close>

definition pl_str :: "string list \<Rightarrow> string" where
  "pl_str parts =
     (case parts of
        [] \<Rightarrow> ''.''
      | r # rest \<Rightarrow> if is_root_part r then r @ join_on CHR ''/'' rest else join_on CHR ''/'' parts)"

text \<open>\<open>open(p, "rb").read()\<close>, as \<open>rtpy\<close> does for the file it uploads.\<close>

definition fs_read :: "lfs \<Rightarrow> string list \<Rightarrow> bytes py" where
  "fs_read fs k =
     (if fs_blocked fs k then Inl (NotADirectoryError (pl_str k))
      else case fs_lookup fs k of
             Some (LFile b) \<Rightarrow> Inr b
           | Some LDir \<Rightarrow> Inl (IsADirectoryError (pl_str k))
           | None \<Rightarrow> Inl (FileNotFoundError (pl_str k)))"

text \<open>\<open>Path(d).glob("**/*")\<close> yields every path strictly below a directory \<open>d\<close>, each once,
  in an order the file system decides. \<open>fs_descendants\<close> is that set as a list;
  \<open>glob_enum fs d walk\<close> says that \<open>walk\<close> is one order glob may produce.\<close>

definition strict_prefix_of :: "string list \<Rightarrow> string list \<Rightarrow> bool" where
  "strict_prefix_of d k \<longleftrightarrow> length d < length k \<and> take (length d) k = d"

definition fs_descendants :: "lfs \<Rightarrow> string list \<Rightarrow> string list list" where
  "fs_descendants fs d = filter (strict_prefix_of d) (remdups (map fst fs))"

definition glob_enum :: "lfs \<Rightarrow> string list \<Rightarrow> string list list \<Rightarrow> bool" where
  "glob_enum fs d walk \<longleftrightarrow>
     (if fs_is_dir fs d then distinct walk \<and> set walk = set (fs_descendants fs d) else walk = [])"

text \<open>\<open>os.makedirs(name, exist_ok=True)\<close>: every missing directory along the path is
  created; an existing directory is accepted; a regular file as the last component raises
  \<open>FileExistsError\<close>, one further up makes the \<open>mkdir\<close> of the next component raise
  \<open>NotADirectoryError\<close> (the inner \<open>FileExistsError\<close> is swallowed by \<open>makedirs\<close>).
  \<open>mkdir('')\<close> raises \<open>FileNotFoundError\<close>.\<close>

fun mkdirs :: "string list \<Rightarrow> string list \<Rightarrow> lfs \<Rightarrow> lfs py" where
  "mkdirs pre [] fs = Inr fs"
| "mkdirs pre (c # cs) fs =
     (let k = pre @ [c] in
      case fs_lookup fs k of
        Some LDir \<Rightarrow> mkdirs k cs fs
      | Some (LFile _) \<Rightarrow>
          Inl (case cs of [] \<Rightarrow> FileExistsError (pl_str k) | d # _ \<Rightarrow> NotADirectoryError (pl_str (k @ [d])))
      | None \<Rightarrow> mkdirs k cs (AList.update k LDir fs))"

definition os_makedirs :: "string \<Rightarrow> lfs \<Rightarrow> lfs py" where
  "os_makedirs name fs =
     (if name = [] then Inl (FileNotFoundError (''[Errno 2] No such file or directory: '' @ [CHR 0x27, CHR 0x27]))
      else (case pl_parts name of
              [] \<Rightarrow> Inr fs
            | r # cs \<Rightarrow> if is_root_part r then mkdirs [r] cs fs else mkdirs [] (r # cs) fs))"

text \<open>\<open>with open(p, "wb") as f: f.write(b)\<close>: creates or truncates a regular file whose
  parent directory exists.\<close>

definition fs_write :: "string \<Rightarrow> bytes \<Rightarrow> lfs \<Rightarrow> lfs py" where
  "fs_write p b fs =
     (let k = pl_parts p in
      if p = [] then Inl (FileNotFoundError p)
      else if implicit_dir k \<or> endswith p ''/'' then Inl (IsADirectoryError p)
      else if fs_blocked fs k then Inl (NotADirectoryError p)
      else if \<not> fs_is_dir fs (butlast k) then Inl (FileNotFoundError p)
      else case fs_lookup fs k of
             Some LDir \<Rightarrow> Inl (IsADirectoryError p)
           | _ \<Rightarrow> Inr (AList.update k (LFile b) fs))"

section \<open>Properties of the file system operations\<close>

text \<open>The rules that evaluate the file system on a concrete tree.\<close>

text \<open>The tree the local file system is: one entry per path, no entry for the
  root, and every proper prefix of an entry's path a directory.\<close>

definition lfs_wf :: "lfs \<Rightarrow> bool" where
  "lfs_wf fs \<longleftrightarrow> distinct (map fst fs)
     \<and> list_all (\<lambda>e. \<not> implicit_dir (fst e)
                    \<and> list_all (\<lambda>q. fs_lookup fs q = Some LDir) (prefixes (butlast (fst e)))) fs"

lemmas fs_eval = fs_is_file_def fs_is_dir_def fs_blocked_def is_lfile_def fs_lookup_def implicit_dir_def
  fs_read_def fs_descendants_def strict_prefix_of_def glob_enum_def pl_parts_def pl_splitroot_def
  pl_name_def is_root_part_def pl_str_def

lemma fs_read_is_file: "fs_read fs k = Inr b \<Longrightarrow> fs_is_file fs k"
  by (auto simp: fs_read_def fs_is_file_def is_lfile_def split: if_splits option.splits lnode.splits)

lemma glob_enum_files:
  assumes "glob_enum fs d walk" and "fs_is_dir fs d"
  shows "length (filter (fs_is_file fs) walk) = card {k \<in> set (fs_descendants fs d). fs_is_file fs k}"
proof -
  have dst: "distinct walk" and s: "set walk = set (fs_descendants fs d)"
    using assms by (simp_all add: glob_enum_def)
  show ?thesis using distinct_card [OF distinct_filter [OF dst, of "fs_is_file fs"]] s
    by (simp add: set_filter)
qed


section \<open>makedirs and writing a file\<close>

text \<open>\<open>os.makedirs\<close> succeeds when no component of the path is a regular file, leaves
  every directory along the path, keeps every existing entry and changes nothing longer than
  the path; \<open>open(p, "wb")\<close> succeeds below a chain of directories, and the file then
  reads back as the bytes written.\<close>

lemma fs_lookup_update:
  "fs_lookup (AList.update k v fs) x = (if implicit_dir x then Some LDir else if x = k then Some v else fs_lookup fs x)"
  by (simp add: fs_lookup_def update_conv')

lemma dirs_along_Cons:
  assumes "fs_lookup F (pre @ [c]) = Some LDir"
    and "\<forall>q\<in>set (prefixes cs). q \<noteq> [] \<longrightarrow> fs_lookup F ((pre @ [c]) @ q) = Some LDir"
  shows "\<forall>q\<in>set (prefixes (c # cs)). q \<noteq> [] \<longrightarrow> fs_lookup F (pre @ q) = Some LDir"
proof (intro ballI impI)
  fix q assume q: "q \<in> set (prefixes (c # cs))" "q \<noteq> []"
  then obtain q' where q': "q = c # q'" "q' \<in> set (prefixes cs)" by (auto simp del: in_set_prefixes)
  show "fs_lookup F (pre @ q) = Some LDir"
    using assms q' by (cases "q' = []") auto
qed

lemma mkdirs_ok:
  assumes "\<forall>q\<in>set (prefixes cs). q \<noteq> [] \<longrightarrow> \<not> is_lfile fs (pre @ q)"
  shows "\<exists>fs'. mkdirs pre cs fs = Inr fs'
           \<and> (\<forall>q\<in>set (prefixes cs). q \<noteq> [] \<longrightarrow> fs_lookup fs' (pre @ q) = Some LDir)
           \<and> (\<forall>k. fs_lookup fs k \<noteq> None \<longrightarrow> fs_lookup fs' k = fs_lookup fs k)
           \<and> (\<forall>k. length pre + length cs < length k \<longrightarrow> fs_lookup fs' k = fs_lookup fs k)"
  using assms
proof (induction cs arbitrary: pre fs)
  case Nil
  then show ?case by simp
next
  case (Cons c cs)
  define k where "k = pre @ [c]"
  have nf: "\<not> is_lfile fs k" using Cons.prems by (simp add: k_def)
  have rest: "\<forall>q\<in>set (prefixes cs). q \<noteq> [] \<longrightarrow> \<not> is_lfile fs (k @ q)"
    using Cons.prems by (simp add: k_def)
  show ?case
  proof (cases "fs_lookup fs k")
    case None
    define fs1 where "fs1 = AList.update k LDir fs"
    have l1: "fs_lookup fs1 x = (if x = k then Some LDir else fs_lookup fs x)" for x
      using None by (simp add: fs1_def fs_lookup_update) (auto simp: fs_lookup_def)
    have "\<forall>q\<in>set (prefixes cs). q \<noteq> [] \<longrightarrow> \<not> is_lfile fs1 (k @ q)"
      using rest by (simp add: is_lfile_def l1)
    then obtain fs' where m: "mkdirs k cs fs1 = Inr fs'"
      and d: "\<forall>q\<in>set (prefixes cs). q \<noteq> [] \<longrightarrow> fs_lookup fs' (k @ q) = Some LDir"
      and p: "\<forall>x. fs_lookup fs1 x \<noteq> None \<longrightarrow> fs_lookup fs' x = fs_lookup fs1 x"
      and l: "\<forall>x. length k + length cs < length x \<longrightarrow> fs_lookup fs' x = fs_lookup fs1 x"
      using Cons.IH by blast
    have "fs_lookup fs' k = Some LDir" using p l1 [of k] by simp
    moreover have "fs_lookup fs x \<noteq> None \<Longrightarrow> fs_lookup fs' x = fs_lookup fs x" for x
      using p l1 [of x] None by (cases "x = k") auto
    moreover have "length pre + length (c # cs) < length x \<Longrightarrow> fs_lookup fs' x = fs_lookup fs x" for x
      using l l1 [of x] by (auto simp: k_def)
    ultimately show ?thesis using m dirs_along_Cons [of fs' pre c cs] d None
      by (simp add: k_def [symmetric] fs1_def [symmetric] Let_def)
  next
    case (Some n)
    then have n: "n = LDir" using nf by (cases n) (auto simp: is_lfile_def)
    obtain fs' where m: "mkdirs k cs fs = Inr fs'"
      and d: "\<forall>q\<in>set (prefixes cs). q \<noteq> [] \<longrightarrow> fs_lookup fs' (k @ q) = Some LDir"
      and p: "\<forall>x. fs_lookup fs x \<noteq> None \<longrightarrow> fs_lookup fs' x = fs_lookup fs x"
      and l: "\<forall>x. length k + length cs < length x \<longrightarrow> fs_lookup fs' x = fs_lookup fs x"
      using Cons.IH [OF rest] by blast
    have "fs_lookup fs' k = Some LDir" using p Some n by simp
    moreover have "\<forall>x. length pre + length (c # cs) < length x \<longrightarrow> fs_lookup fs' x = fs_lookup fs x"
      using l by (simp add: k_def)
    ultimately show ?thesis using m dirs_along_Cons [of fs' pre c cs] d p Some n
      by (simp add: k_def [symmetric] Let_def)
  qed
qed

lemma fs_lookup_implicit: "implicit_dir k \<Longrightarrow> fs_lookup fs k = Some LDir"
  by (simp add: fs_lookup_def)

lemma os_makedirs_mkdirs:
  assumes "name \<noteq> []"
  obtains pre cs where "os_makedirs name fs = mkdirs pre cs fs" "pl_parts name = pre @ cs"
    "list_all implicit_dir (prefixes pre)"
proof (cases "pl_parts name")
  case Nil
  then show ?thesis using that [of "[]" "[]"] assms by (simp add: os_makedirs_def implicit_dir_def)
next
  case (Cons r cs)
  show ?thesis
  proof (cases "is_root_part r")
    case True
    then show ?thesis using that [of "[r]" cs] assms Cons by (simp add: os_makedirs_def implicit_dir_def)
  next
    case False
    then show ?thesis using that [of "[]" "r # cs"] assms Cons by (simp add: os_makedirs_def implicit_dir_def)
  qed
qed

lemma os_makedirs_ok:
  assumes "name \<noteq> []" and "list_all (\<lambda>q. \<not> is_lfile fs q) (prefixes (pl_parts name))"
  shows "\<exists>fs'. os_makedirs name fs = Inr fs'
           \<and> list_all (\<lambda>q. fs_lookup fs' q = Some LDir) (prefixes (pl_parts name))
           \<and> (\<forall>k. fs_lookup fs k \<noteq> None \<longrightarrow> fs_lookup fs' k = fs_lookup fs k)
           \<and> (\<forall>k. length (pl_parts name) < length k \<longrightarrow> fs_lookup fs' k = fs_lookup fs k)"
proof -
  obtain pre cs where os: "os_makedirs name fs = mkdirs pre cs fs" and pc: "pl_parts name = pre @ cs"
    and imp: "list_all implicit_dir (prefixes pre)"
    using os_makedirs_mkdirs [OF assms(1)] by blast
  have hyp: "\<forall>q\<in>set (prefixes cs). q \<noteq> [] \<longrightarrow> \<not> is_lfile fs (pre @ q)"
    using assms(2) pc by (auto simp: list_all_iff)
  obtain fs' where m: "mkdirs pre cs fs = Inr fs'"
    and d: "\<forall>q\<in>set (prefixes cs). q \<noteq> [] \<longrightarrow> fs_lookup fs' (pre @ q) = Some LDir"
    and p: "\<forall>k. fs_lookup fs k \<noteq> None \<longrightarrow> fs_lookup fs' k = fs_lookup fs k"
    and l: "\<forall>k. length pre + length cs < length k \<longrightarrow> fs_lookup fs' k = fs_lookup fs k"
    using mkdirs_ok [OF hyp] by blast
  have "fs_lookup fs' q = Some LDir" if q: "q \<in> set (prefixes (pre @ cs))" for q
  proof -
    consider "q \<in> set (prefixes pre)" | ys where "q = pre @ ys" "ys \<in> set (prefixes cs)" "ys \<noteq> []"
      using q unfolding set_prefixes_append by (cases "q \<in> set (prefixes pre)") auto
    then show ?thesis
    proof cases
      case 1
      then show ?thesis using imp by (simp add: list_all_iff fs_lookup_implicit del: in_set_prefixes)
    next
      case 2
      then show ?thesis using d by simp
    qed
  qed
  then have "list_all (\<lambda>q. fs_lookup fs' q = Some LDir) (prefixes (pre @ cs))"
    by (simp add: list_all_iff del: in_set_prefixes)
  then show ?thesis using os m p l pc by simp
qed

lemma dirs_not_blocked:
  "list_all (\<lambda>q. fs_lookup fs q = Some LDir) (prefixes (butlast k)) \<Longrightarrow> \<not> fs_blocked fs k"
  by (auto simp: fs_blocked_def list_all_iff list_ex_iff is_lfile_def simp del: in_set_prefixes)

lemma dirs_butlast:
  assumes "list_all (\<lambda>q. fs_lookup fs q = Some LDir) (prefixes (butlast k))"
  shows "fs_is_dir fs (butlast k)"
proof -
  have "prefix q (butlast k)" if "prefix q (butlast (butlast k))" for q
    using that prefix_order.trans prefixeq_butlast by blast
  then have "list_all (\<lambda>q. fs_lookup fs q = Some LDir) (prefixes (butlast (butlast k)))"
    using assms by (auto simp: list_all_iff)
  moreover have "fs_lookup fs (butlast k) = Some LDir" using assms by (simp add: list_all_iff)
  ultimately show ?thesis by (simp add: fs_is_dir_def dirs_not_blocked)
qed

lemma fs_write_ok:
  assumes "p \<noteq> []" "\<not> endswith p ''/''" "\<not> implicit_dir (pl_parts p)"
    "list_all (\<lambda>q. fs_lookup fs q = Some LDir) (prefixes (butlast (pl_parts p)))"
    "fs_lookup fs (pl_parts p) \<noteq> Some LDir"
  shows "fs_write p b fs = Inr (AList.update (pl_parts p) (LFile b) fs)"
  using assms dirs_not_blocked [OF assms(4)] dirs_butlast [OF assms(4)]
  by (auto simp: fs_write_def Let_def split: option.splits lnode.splits)

lemma dirs_update_longer:
  assumes "list_all (\<lambda>q. fs_lookup fs q = Some LDir) (prefixes d)" and "length d < length k"
  shows "list_all (\<lambda>q. fs_lookup (AList.update k v fs) q = Some LDir) (prefixes d)"
proof -
  have "q \<noteq> k" if "q \<in> set (prefixes d)" for q
    using prefix_length_le [of q d] that assms(2) by auto
  then show ?thesis
    using assms(1) by (auto simp: list_all_iff fs_lookup_update fs_lookup_implicit simp del: in_set_prefixes)
qed

lemma fs_read_written:
  assumes "list_all (\<lambda>q. fs_lookup fs q = Some LDir) (prefixes (butlast k))" "\<not> implicit_dir k"
  shows "fs_read (AList.update k (LFile b) fs) k = Inr b"
proof -
  have "k \<noteq> []" using assms(2) by (auto simp: implicit_dir_def)
  then have "list_all (\<lambda>q. fs_lookup (AList.update k (LFile b) fs) q = Some LDir) (prefixes (butlast k))"
    using dirs_update_longer [OF assms(1)] by simp
  then show ?thesis using assms(2) dirs_not_blocked by (simp add: fs_read_def fs_lookup_update)
qed


lemma fs_is_file_read: "fs_is_file fs k \<Longrightarrow> \<exists>b. fs_read fs k = Inr b"
  by (auto simp: fs_is_file_def fs_read_def is_lfile_def split: option.splits lnode.splits)

text \<open>\<open>os.makedirs\<close> and the write of a file keep the file system a tree.\<close>

lemma implicit_dir_prefixes:
  "implicit_dir d \<Longrightarrow> list_all (\<lambda>q. fs_lookup fs q = Some LDir) (prefixes d)"
  by (auto simp: implicit_dir_def fs_lookup_def list_all_iff length_Suc_conv)

lemma wf_dir_prefixes:
  assumes "lfs_wf fs" and "fs_lookup fs d = Some LDir"
  shows "list_all (\<lambda>q. fs_lookup fs q = Some LDir) (prefixes d)"
proof (cases "implicit_dir d")
  case True
  then show ?thesis by (rule implicit_dir_prefixes)
next
  case False
  then have "(d, LDir) \<in> set fs" using assms(2) by (simp add: fs_lookup_def map_of_SomeD)
  then have "list_all (\<lambda>q. fs_lookup fs q = Some LDir) (prefixes (butlast d))"
    using assms(1) by (auto simp: lfs_wf_def list_all_iff)
  moreover have "d \<noteq> []" using False by (auto simp: implicit_dir_def)
  then have "prefixes d = prefixes (butlast d) @ [d]"
    by (metis append_butlast_last_id prefixes_snoc)
  ultimately show ?thesis using assms(2) by simp
qed

lemma lfs_wf_update:
  assumes wf: "lfs_wf fs" and ni: "\<not> implicit_dir k"
    and dirs: "list_all (\<lambda>q. fs_lookup fs q = Some LDir) (prefixes (butlast k))"
    and nd: "v = LDir \<or> fs_lookup fs k \<noteq> Some LDir"
  shows "lfs_wf (AList.update k v fs)"
proof -
  let ?fs = "AList.update k v fs"
  have "k \<noteq> []" using ni by (auto simp: implicit_dir_def)
  then have shorter: "list_all (\<lambda>q. fs_lookup ?fs q = Some LDir) (prefixes (butlast k))"
    using dirs_update_longer [OF dirs] by simp
  have old: "list_all (\<lambda>q. fs_lookup ?fs q = Some LDir) (prefixes (butlast k'))
               \<and> \<not> implicit_dir k'" if e: "(k', n) \<in> set fs" for k' n
  proof -
    have o: "list_all (\<lambda>q. fs_lookup fs q = Some LDir) (prefixes (butlast k'))" "\<not> implicit_dir k'"
      using wf e by (auto simp: lfs_wf_def list_all_iff)
    have "fs_lookup ?fs q = Some LDir" if q: "q \<in> set (prefixes (butlast k'))" for q
    proof (cases "q = k")
      case True
      then have "fs_lookup fs k = Some LDir" using o(1) q by (simp add: list_all_iff)
      then show ?thesis using True nd ni by (simp add: fs_lookup_update)
    next
      case False
      then show ?thesis using o(1) q by (auto simp: list_all_iff fs_lookup_update fs_lookup_implicit)
    qed
    then show ?thesis using o(2) by (simp add: list_all_iff)
  qed
  have "\<forall>e\<in>set ?fs. \<not> implicit_dir (fst e) \<and> list_all (\<lambda>q. fs_lookup ?fs q = Some LDir) (prefixes (butlast (fst e)))"
  proof
    fix e assume "e \<in> set ?fs"
    then have "e \<in> insert (k, v) (set fs)" by (rule subsetD [OF set_update_subset])
    then show "\<not> implicit_dir (fst e) \<and> list_all (\<lambda>q. fs_lookup ?fs q = Some LDir) (prefixes (butlast (fst e)))"
      using old [of "fst e" "snd e"] shorter ni by auto
  qed
  moreover have "distinct (map fst ?fs)" using wf by (simp add: lfs_wf_def distinct_update)
  ultimately show ?thesis by (simp add: lfs_wf_def list_all_iff)
qed

lemma mkdirs_wf:
  "lfs_wf fs \<Longrightarrow> list_all (\<lambda>q. fs_lookup fs q = Some LDir) (prefixes pre)
     \<Longrightarrow> mkdirs pre cs fs = Inr fs' \<Longrightarrow> lfs_wf fs'"
proof (induction cs arbitrary: pre fs)
  case Nil
  then show ?case by simp
next
  case (Cons c cs)
  define k where "k = pre @ [c]"
  have pk: "prefixes k = prefixes pre @ [k]" by (simp add: k_def)
  show ?case
  proof (cases "fs_lookup fs k")
    case None
    let ?fs = "AList.update k LDir fs"
    have ni: "\<not> implicit_dir k" using None fs_lookup_implicit by fastforce
    have wf1: "lfs_wf ?fs"
      using lfs_wf_update [OF Cons.prems(1) ni] Cons.prems(2) by (simp add: k_def)
    have "list_all (\<lambda>q. fs_lookup ?fs q = Some LDir) (prefixes pre)"
      using dirs_update_longer [OF Cons.prems(2)] by (simp add: k_def)
    then have "list_all (\<lambda>q. fs_lookup ?fs q = Some LDir) (prefixes k)"
      using pk by (simp add: fs_lookup_update)
    then show ?thesis using Cons.IH [OF wf1] Cons.prems(3) None by (simp add: k_def [symmetric] Let_def)
  next
    case (Some n)
    then show ?thesis
    proof (cases n)
      case LDir
      then show ?thesis using Cons.IH [OF Cons.prems(1), of k] Cons.prems(2,3) Some pk
        by (simp add: k_def [symmetric] Let_def)
    next
      case (LFile x)
      then show ?thesis using Cons.prems(3) Some by (simp add: k_def [symmetric] Let_def)
    qed
  qed
qed

lemma os_makedirs_wf: "lfs_wf fs \<Longrightarrow> os_makedirs name fs = Inr fs' \<Longrightarrow> lfs_wf fs'"
proof (cases "name = []")
  case True
  then show "os_makedirs name fs = Inr fs' \<Longrightarrow> ?thesis" by (simp add: os_makedirs_def)
next
  case False
  assume wf: "lfs_wf fs" and mk: "os_makedirs name fs = Inr fs'"
  obtain pre cs where "os_makedirs name fs = mkdirs pre cs fs" "list_all implicit_dir (prefixes pre)"
    using os_makedirs_mkdirs [OF False] by metis
  then show ?thesis
    using mkdirs_wf [OF wf, of pre cs fs'] mk by (simp add: list_all_iff fs_lookup_implicit)
qed

lemma fs_write_wf: "lfs_wf fs \<Longrightarrow> fs_write p b fs = Inr fs' \<Longrightarrow> lfs_wf fs'"
proof -
  assume wf: "lfs_wf fs" and wr: "fs_write p b fs = Inr fs'"
  let ?k = "pl_parts p"
  have ni: "\<not> implicit_dir ?k" and d: "fs_is_dir fs (butlast ?k)"
    and nd: "fs_lookup fs ?k \<noteq> Some LDir" and fs': "fs' = AList.update ?k (LFile b) fs"
    using wr by (auto simp: fs_write_def Let_def split: if_splits option.splits lnode.splits)
  have "list_all (\<lambda>q. fs_lookup fs q = Some LDir) (prefixes (butlast ?k))"
    using wf_dir_prefixes [OF wf] d by (simp add: fs_is_dir_def)
  then show ?thesis using lfs_wf_update [OF wf ni] nd fs' by simp
qed

end
