(* ===== verification/Artifactory_Client.thy ===== *)
theory Artifactory_Client
  imports Local_FS
begin

text \<open>
  The interface between the plugin and the \<open>rtpy\<close> REST client, and the world the
  plugin's methods act on.
  \<^item> \<open>'s af_client\<close> holds the four storage capabilities the plugin calls on
    \<open>self.af.artifacts_and_storage\<close> (\<open>folder_info\<close>, \<open>file_info\<close>, \<open>deploy_artifact\<close>,
    \<open>retrieve_artifact\<close>) and \<open>system_and_configuration.system_health_ping\<close>, over an
    abstract server state \<open>'s\<close>; each returns the decoded JSON (or the bytes) or raises.
    The JSON shapes are records: a folder's \<open>"children"\<close> key may be absent, a file's
    \<open>"size"\<close> is a string that may be absent.
  \<^item> \<open>'s world\<close>: the local file system, the server state, the lines printed on
    standard output and the log of client calls in the order they were made.
  The plugin's own lemmas are stated for every client; Artifactory_Store gives one
  implementation used for the end-to-end properties.
\<close>

record child_entry =
  ch_uri :: string
  ch_folder :: bool

record folder_json =
  fo_children :: "child_entry list option"

record file_json =
  fj_size :: "string option"

record 's af_client =
  cl_folder_info :: "string \<Rightarrow> string \<Rightarrow> 's \<Rightarrow> folder_json py"
  cl_file_info :: "string \<Rightarrow> string \<Rightarrow> 's \<Rightarrow> file_json py"
  cl_deploy :: "string \<Rightarrow> bytes \<Rightarrow> string \<Rightarrow> 's \<Rightarrow> 's py"
  cl_retrieve :: "string \<Rightarrow> string \<Rightarrow> 's \<Rightarrow> bytes py"
  cl_ping :: "'s \<Rightarrow> string py"

datatype call =
    CFolderInfo string string
  | CFileInfo string string
  | CDeploy string "string list" string
  | CRetrieve string string
  | CPing

record 's world =
  w_local :: lfs
  w_remote :: 's
  w_stdout :: "string list"
  w_calls :: "call list"

type_synonym ('s, 'a) wact = "('s world, 'a) act"

definition log_call :: "call \<Rightarrow> 's world \<Rightarrow> 's world" where
  "log_call k w = w\<lparr>w_calls := w_calls w @ [k]\<rparr>"

text \<open>\<open>print(a, b, ...)\<close>: the arguments joined by one space, as one line.\<close>

definition print_line :: "string list \<Rightarrow> ('s, unit) wact" where
  "print_line args = modifyA (\<lambda>w. w\<lparr>w_stdout := w_stdout w @ [join_on CHR '' '' args]\<rparr>)"

definition folder_info_call :: "'s af_client \<Rightarrow> string \<Rightarrow> string \<Rightarrow> ('s, folder_json) wact" where
  "folder_info_call c repo p = (\<lambda>w. (cl_folder_info c repo p (w_remote w), log_call (CFolderInfo repo p) w))"

definition file_info_call :: "'s af_client \<Rightarrow> string \<Rightarrow> string \<Rightarrow> ('s, file_json) wact" where
  "file_info_call c repo p = (\<lambda>w. (cl_file_info c repo p (w_remote w), log_call (CFileInfo repo p) w))"

definition retrieve_call :: "'s af_client \<Rightarrow> string \<Rightarrow> string \<Rightarrow> ('s, bytes) wact" where
  "retrieve_call c repo p = (\<lambda>w. (cl_retrieve c repo p (w_remote w), log_call (CRetrieve repo p) w))"

definition ping_call :: "'s af_client \<Rightarrow> ('s, string) wact" where
  "ping_call c = (\<lambda>w. (cl_ping c (w_remote w), log_call CPing w))"

text \<open>\<open>deploy_artifact(repo, local, remote)\<close>: rtpy opens the local file and sends its bytes;
  a local file that cannot be read raises before any request.\<close>

definition deploy_call :: "'s af_client \<Rightarrow> string \<Rightarrow> string list \<Rightarrow> string \<Rightarrow> ('s, unit) wact" where
  "deploy_call c repo local remote =
     (\<lambda>w. let w1 = log_call (CDeploy repo local remote) w in
          case fs_read (w_local w) local of
            Inl e \<Rightarrow> (Inl e, w1)
          | Inr b \<Rightarrow> (case cl_deploy c repo b remote (w_remote w) of
                       Inl e \<Rightarrow> (Inl e, w1)
                     | Inr s' \<Rightarrow> (Inr (), w1\<lparr>w_remote := s'\<rparr>)))"

text \<open>\<open>try: m except AfApiError as e: h(e)\<close>\<close>

definition catch_af :: "('s, 'a) wact \<Rightarrow> (string \<Rightarrow> ('s, 'a) wact) \<Rightarrow> ('s, 'a) wact" where
  "catch_af m h = (\<lambda>w. case m w of (Inl (AfApiError msg), w') \<Rightarrow> h msg w' | r \<Rightarrow> r)"

text \<open>A local-file-system operation that may raise, run on the world.\<close>

definition local_act :: "(lfs \<Rightarrow> lfs py) \<Rightarrow> ('s, unit) wact" where
  "local_act f = (\<lambda>w. case f (w_local w) of Inl e \<Rightarrow> (Inl e, w) | Inr fs' \<Rightarrow> (Inr (), w\<lparr>w_local := fs'\<rparr>))"

definition is_file_act :: "string list \<Rightarrow> ('s, bool) wact" where
  "is_file_act k = (\<lambda>w. (Inr (fs_is_file (w_local w) k), w))"

section \<open>Evaluation and frame rules\<close>

lemma log_call_fields [simp]:
  "w_local (log_call k w) = w_local w" "w_remote (log_call k w) = w_remote w"
  "w_stdout (log_call k w) = w_stdout w" "w_calls (log_call k w) = w_calls w @ [k]"
  by (simp_all add: log_call_def)

lemma print_line_apply [simp, py_simps]:
  "print_line args w = (Inr (), w\<lparr>w_stdout := w_stdout w @ [join_on CHR '' '' args]\<rparr>)"
  by (simp add: print_line_def)

lemma folder_info_call_apply [simp, py_simps]:
  "folder_info_call c repo p w = (cl_folder_info c repo p (w_remote w), log_call (CFolderInfo repo p) w)"
  by (simp add: folder_info_call_def)

lemma file_info_call_apply [simp, py_simps]:
  "file_info_call c repo p w = (cl_file_info c repo p (w_remote w), log_call (CFileInfo repo p) w)"
  by (simp add: file_info_call_def)

lemma retrieve_call_apply [simp, py_simps]:
  "retrieve_call c repo p w = (cl_retrieve c repo p (w_remote w), log_call (CRetrieve repo p) w)"
  by (simp add: retrieve_call_def)

lemma ping_call_apply [simp, py_simps]:
  "ping_call c w = (cl_ping c (w_remote w), log_call CPing w)"
  by (simp add: ping_call_def)

lemma is_file_act_apply [simp, py_simps]: "is_file_act k w = (Inr (fs_is_file (w_local w) k), w)"
  by (simp add: is_file_act_def)

lemma local_act_apply [simp, py_simps]:
  "local_act f w = (case f (w_local w) of Inl e \<Rightarrow> (Inl e, w) | Inr fs' \<Rightarrow> (Inr (), w\<lparr>w_local := fs'\<rparr>))"
  by (simp add: local_act_def)

lemma catch_af_apply [simp, py_simps]:
  "catch_af m h w = (case m w of (Inl (AfApiError msg), w') \<Rightarrow> h msg w' | r \<Rightarrow> r)"
  by (simp add: catch_af_def)

lemma deploy_call_ok [py_simps]:
  assumes "fs_read (w_local w) local = Inr b" and "cl_deploy c repo b remote (w_remote w) = Inr s'"
  shows "deploy_call c repo local remote w = (Inr (), (log_call (CDeploy repo local remote) w)\<lparr>w_remote := s'\<rparr>)"
  using assms by (simp add: deploy_call_def)

lemma deploy_call_fail [py_simps]:
  assumes "fs_read (w_local w) local = Inr b" and "cl_deploy c repo b remote (w_remote w) = Inl e"
  shows "deploy_call c repo local remote w = (Inl e, log_call (CDeploy repo local remote) w)"
  using assms by (simp add: deploy_call_def)

text \<open>The upload reads the local file and changes nothing but the server and the call log.\<close>

lemma deploy_call_frame:
  assumes "deploy_call c repo local remote w = (r, w')"
  shows "w_local w' = w_local w" "w_stdout w' = w_stdout w"
    "w_calls w' = w_calls w @ [CDeploy repo local remote]"
  using assms by (auto simp: deploy_call_def Let_def split: sum.splits)

end
