(* ===== verification/Artifactory_Store.thy ===== *)
theory Artifactory_Store
  imports Artifactory_Client
begin

text \<open>
  A reference implementation of the client interface: an in-memory Artifactory. It is
  not code of the repository; it stands for the server so that properties spanning an
  upload and a later listing or download can be stated. Files are stored under a
  repository key and a path given by its components; folders exist implicitly above
  files, and the repository root is always a folder. A request path is normalised by
  dropping empty components, so \<open>/a//b\<close> and \<open>a/b\<close> name the same artifact.
  \<^item> folder info of a folder lists each child once, as \<open>"/name"\<close> with its folder flag;
    of a file or of a missing path it is an HTTP error (\<open>AfApiError\<close>);
  \<^item> file info of a file reports its size as the decimal string of its length; of a
    folder it returns the folder's JSON, which has no \<open>"size"\<close>;
  \<^item> deploy stores the bytes, replacing an existing file; it is refused below a file,
    onto a folder and at the root;
  \<^item> retrieve returns the bytes of a file and refuses anything else.
\<close>

type_synonym store = "((string \<times> string list) \<times> bytes) list"

definition norm_path :: "string \<Rightarrow> string list" where
  "norm_path p = filter (\<lambda>x. x \<noteq> []) (split_on CHR ''/'' p)"

definition st_file :: "store \<Rightarrow> string \<Rightarrow> string list \<Rightarrow> bytes option" where
  "st_file s repo k = map_of s (repo, k)"

definition st_keys :: "store \<Rightarrow> string \<Rightarrow> string list list" where
  "st_keys s repo = remdups (map (snd \<circ> fst) (filter (\<lambda>e. fst (fst e) = repo) s))"

definition st_is_folder :: "store \<Rightarrow> string \<Rightarrow> string list \<Rightarrow> bool" where
  "st_is_folder s repo k \<longleftrightarrow> k = [] \<or> list_ex (strict_prefix_of k) (st_keys s repo)"

definition st_children :: "store \<Rightarrow> string \<Rightarrow> string list \<Rightarrow> string list" where
  "st_children s repo k =
     remdups (map (\<lambda>k'. k' ! length k) (filter (strict_prefix_of k) (st_keys s repo)))"

definition store_folder_info :: "string \<Rightarrow> string \<Rightarrow> store \<Rightarrow> folder_json py" where
  "store_folder_info repo p s =
     (let k = norm_path p in
      if st_is_folder s repo k
      then Inr \<lparr>fo_children = Some (map (\<lambda>n. \<lparr>ch_uri = CHR ''/'' # n,
                                                  ch_folder = st_is_folder s repo (k @ [n])\<rparr>)
                                       (st_children s repo k))\<rparr>
      else if st_file s repo k \<noteq> None then Inl (AfApiError ''400 Bad Request'')
      else Inl (AfApiError ''404 Not Found''))"

definition store_file_info :: "string \<Rightarrow> string \<Rightarrow> store \<Rightarrow> file_json py" where
  "store_file_info repo p s =
     (let k = norm_path p in
      case st_file s repo k of
        Some b \<Rightarrow> Inr \<lparr>fj_size = Some (py_str_int (int (length b)))\<rparr>
      | None \<Rightarrow> if st_is_folder s repo k then Inr \<lparr>fj_size = None\<rparr>
                else Inl (AfApiError ''404 Not Found''))"

definition store_deploy :: "string \<Rightarrow> bytes \<Rightarrow> string \<Rightarrow> store \<Rightarrow> store py" where
  "store_deploy repo b p s =
     (let k = norm_path p in
      if k = [] \<or> st_is_folder s repo k \<or> list_ex (\<lambda>q. st_file s repo q \<noteq> None) (prefixes (butlast k))
      then Inl (AfApiError ''409 Conflict'')
      else Inr (AList.update (repo, k) b s))"

definition store_retrieve :: "string \<Rightarrow> string \<Rightarrow> store \<Rightarrow> bytes py" where
  "store_retrieve repo p s =
     (case st_file s repo (norm_path p) of Some b \<Rightarrow> Inr b | None \<Rightarrow> Inl (AfApiError ''404 Not Found''))"

definition store_client :: "store af_client" where
  "store_client = \<lparr>cl_folder_info = store_folder_info, cl_file_info = store_file_info,
                   cl_deploy = store_deploy, cl_retrieve = store_retrieve,
                   cl_ping = (\<lambda>s. Inr ''OK'')\<rparr>"

text \<open>The store's invariant: one entry per key, every file below the root, and no file
  above another (a path is either a file or a folder).\<close>

definition store_wf :: "store \<Rightarrow> bool" where
  "store_wf s \<longleftrightarrow> distinct (map fst s)
     \<and> list_all (\<lambda>e. snd (fst e) \<noteq> []
          \<and> list_all (\<lambda>q. map_of s (fst (fst e), q) = None) (prefixes (butlast (snd (fst e))))) s"

section \<open>Properties of the store\<close>

text \<open>The rules that evaluate the store on concrete requests.\<close>

lemmas store_eval = store_client_def store_folder_info_def store_file_info_def store_deploy_def
  store_retrieve_def norm_path_def st_is_folder_def st_keys_def st_children_def st_file_def
  strict_prefix_of_def basename_def py_int_def py_strip_def py_space_def is_digit_def digits_val_def
  digit_val_def py_str_int_def dec_nat.simps digit_char_def

lemma store_deploy_ok:
  assumes "store_deploy repo b p s = Inr s'"
  shows "s' = AList.update (repo, norm_path p) b s" and "norm_path p \<noteq> []"
    and "\<not> st_is_folder s repo (norm_path p)"
    and "\<not> list_ex (\<lambda>q. st_file s repo q \<noteq> None) (prefixes (butlast (norm_path p)))"
  using assms by (auto simp: store_deploy_def Let_def split: if_splits)

lemma store_deploy_lookup:
  assumes d: "store_deploy repo b p s = Inr s'"
  shows "map_of s' x = (if x = (repo, norm_path p) then Some b else map_of s x)"
  using store_deploy_ok(1) [OF d] by (simp add: update_conv')

lemma store_wf_entry:
  assumes wf: "store_wf s" and e: "((r, k), v) \<in> set s"
  shows "k \<noteq> []" "list_all (\<lambda>q. map_of s (r, q) = None) (prefixes (butlast k))"
  using wf e by (auto simp: store_wf_def list_all_iff)

lemma st_keys_entry: "((r, k), v) \<in> set s \<Longrightarrow> k \<in> set (st_keys s r)"
  by (force simp: st_keys_def image_iff)

lemma store_deploy_not_above:
  assumes d: "store_deploy repo b p s = Inr s'" and e: "((repo, k), v) \<in> set s"
    and q: "q \<in> set (prefixes (butlast k))" and ne: "k \<noteq> []"
  shows "q \<noteq> norm_path p"
proof
  assume eq: "q = norm_path p"
  have "strict_prefix_of (norm_path p) k"
    using in_prefixes_butlast [OF q ne] eq by (simp add: strict_prefix_of_def)
  then have "st_is_folder s repo (norm_path p)"
    using st_keys_entry [OF e] by (auto simp: st_is_folder_def list_ex_iff)
  then show False using store_deploy_ok(3) [OF d] by simp
qed

lemma store_deploy_wf:
  assumes wf: "store_wf s" and d: "store_deploy repo b p s = Inr s'"
  shows "store_wf s'"
proof -
  let ?k = "norm_path p"
  note ok = store_deploy_ok [OF d]
  note lk = store_deploy_lookup [OF d]
  have old: "list_all (\<lambda>q. map_of s' (r, q) = None) (prefixes (butlast k))"
    if e: "((r, k), v) \<in> set s" for r k v
  proof -
    note wk = store_wf_entry [OF wf e]
    have "map_of s' (r, q) = None" if q: "q \<in> set (prefixes (butlast k))" for q
    proof (cases "r = repo")
      case True
      then have "q \<noteq> ?k" using store_deploy_not_above [OF d _ q wk(1)] e by blast
      then show ?thesis using wk(2) q by (simp add: lk list_all_iff)
    next
      case False
      then show ?thesis using wk(2) q by (simp add: lk list_all_iff)
    qed
    then show ?thesis by (simp add: list_all_iff)
  qed
  have new: "list_all (\<lambda>q. map_of s' (repo, q) = None) (prefixes (butlast ?k))"
  proof -
    have "map_of s' (repo, q) = None" if q: "q \<in> set (prefixes (butlast ?k))" for q
    proof -
      have "q \<noteq> ?k" using in_prefixes_butlast [OF q ok(2)] by auto
      moreover have "map_of s (repo, q) = None" using ok(4) q by (auto simp: list_ex_iff st_file_def)
      ultimately show ?thesis by (simp add: lk)
    qed
    then show ?thesis by (simp add: list_all_iff)
  qed
  have all: "snd (fst e) \<noteq> [] \<and> list_all (\<lambda>q. map_of s' (fst (fst e), q) = None) (prefixes (butlast (snd (fst e))))"
    if e: "e \<in> set s'" for e
  proof -
    obtain r k v where ee: "e = ((r, k), v)" by (cases e) auto
    have "((r, k), v) \<in> set (AList.update (repo, ?k) b s)" using e ee ok(1) by simp
    then have "((r, k), v) \<in> insert ((repo, ?k), b) (set s)" by (rule subsetD [OF set_update_subset])
    then consider "(r, k) = (repo, ?k)" | "((r, k), v) \<in> set s" by auto
    then show ?thesis
    proof cases
      case 1
      then show ?thesis using new ok(2) ee by simp
    next
      case 2
      then show ?thesis using old store_wf_entry(1) [OF wf 2] ee by simp
    qed
  qed
  have "distinct (map fst s')" using wf ok(1) by (simp add: store_wf_def distinct_update)
  with all show ?thesis by (simp add: store_wf_def list_all_iff)
qed

lemma store_deploy_retrieve:
  assumes "store_deploy repo b p s = Inr s'" and "norm_path p' = norm_path p"
  shows "store_retrieve repo p' s' = Inr b"
  using store_deploy_ok(1) [OF assms(1)] assms(2)
  by (simp add: store_retrieve_def st_file_def update_conv')


lemma store_file_info_size:
  assumes "store_file_info repo p s = Inr r" and "fj_size r = Some sz" and "py_int sz = Inr v"
  shows "\<exists>b. st_file s repo (norm_path p) = Some b \<and> v = int (length b)"
  using assms
  by (auto simp: store_file_info_def Let_def py_str_int_def py_int_dec_nat split: option.splits if_splits)

end
