(* ===== verification/Repository.thy ===== *)
theory Repository
  imports Url_Parse Artifactory_Store
begin

text \<open>
  \<open>JFrogArtifactRepository\<close> (src/jfrogartifactoryplugin/store/artifact/
  jfrog_artifact_repository.py), one definition per method, in the order of the source:
  the constructor \<open>init_repo\<close>, \<open>ping\<close>, \<open>log_artifact\<close>, \<open>log_artifacts\<close> (with the
  loop \<open>log_files\<close>), \<open>list_artifacts\<close> with the generator \<open>_list_files\<close> (\<open>list_files\<close>
  and its loop \<open>list_children\<close>), \<open>_download_file\<close> and \<open>delete_artifacts\<close>.
  The instance is a record whose optional fields are the attributes the constructor may
  leave unset: reading an unset one raises \<open>AttributeError\<close>. Every method is an action on
  the world of Artifactory_Client, over any client \<open>c\<close>.
\<close>

record rt_settings =
  af_url :: string
  af_api_key :: string

record jfrog_repo =
  artifact_uri :: string
  artifactory_repo :: "string option"
  api_key_attr :: "string option"
  artifactory_endpoint :: "string option"
  artifactory_api_key :: "string option"
  af :: "rt_settings option"

record file_info =
  fi_path :: string
  fi_is_dir :: bool
  fi_size :: "int option"

type_synonym environ = "string \<Rightarrow> string option"

definition no_attr :: "string \<Rightarrow> py_exc" where
  "no_attr name = AttributeError (CHR 0x27 # ''JFrogArtifactRepository'' @ CHR 0x27 #
     '' object has no attribute '' @ CHR 0x27 # name @ [CHR 0x27])"

definition get_af :: "jfrog_repo \<Rightarrow> rt_settings py" where
  "get_af obj = (case af obj of None \<Rightarrow> Inl (no_attr ''af'') | Some s \<Rightarrow> Inr s)"

definition get_repo :: "jfrog_repo \<Rightarrow> string py" where
  "get_repo obj = (case artifactory_repo obj of None \<Rightarrow> Inl (no_attr ''artifactory_repo'') | Some r \<Rightarrow> Inr r)"

text \<open>Truth of an optional string argument: \<open>None\<close> and \<open>""\<close> are false.\<close>

definition py_truthy :: "string option \<Rightarrow> bool" where
  "py_truthy x \<longleftrightarrow> (case x of None \<Rightarrow> False | Some s \<Rightarrow> s \<noteq> [])"

section \<open>Construction\<close>

text \<open>\<open>urlparse(os.environ.get("MLFLOW_ARTIFACTORY_REPO")).geturl()\<close>: an unset variable
  (\<open>None\<close>) is parsed as the empty bytes and gives an empty, false result.\<close>

definition env_repo_url :: "string option \<Rightarrow> string py" where
  "env_repo_url v = (case v of None \<Rightarrow> Inr [] | Some s \<Rightarrow> map_sum id urlunparse (urlparse s))"

definition init_repo ::
  "environ \<Rightarrow> string \<Rightarrow> string option \<Rightarrow> string option \<Rightarrow> jfrog_repo py" where
  "init_repo env uri repo_name api_key =
     (let obj = \<lparr>artifact_uri = uri, artifactory_repo = None, api_key_attr = None,
                 artifactory_endpoint = None, artifactory_api_key = None, af = None\<rparr>
      in case repo_name of
           Some r \<Rightarrow> Inr (obj\<lparr>artifactory_repo := Some r\<rparr>)
         | None \<Rightarrow>
            (case api_key of
               Some k \<Rightarrow> Inr (obj\<lparr>api_key_attr := Some k\<rparr>)
             | None \<Rightarrow>
                (let ep = env ''MLFLOW_ARTIFACTORY_ENDPOINT_URL''; key = env ''MLFLOW_ARTIFACTORY_KEY''
                 in case env_repo_url (env ''MLFLOW_ARTIFACTORY_REPO'') of
                      Inl e \<Rightarrow> Inl e
                    | Inr repo \<Rightarrow>
                        if \<not> py_truthy ep then Inl (AssertionError ''please set MLFLOW_ARTIFACTORY_ENDPOINT_URL'')
                        else if \<not> py_truthy key then Inl (AssertionError ''please set MLFLOW_ARTIFACTORY_KEY'')
                        else if repo = [] then Inl (AssertionError ''please set MLFLOW_ARTIFACTORY_REPO'')
                        else Inr (obj\<lparr>artifactory_endpoint := ep, artifactory_api_key := key,
                                      artifactory_repo := Some repo,
                                      af := Some \<lparr>af_url = the ep, af_api_key = the key\<rparr>\<rparr>))))"

definition ping :: "'s af_client \<Rightarrow> jfrog_repo \<Rightarrow> ('s, string) wact" where
  "ping c obj = bindA (liftA (get_af obj)) (\<lambda>_. ping_call c)"

section \<open>Path mapping\<close>

text \<open>The remote paths the methods build from the parsed URI \<open>(netloc, path)\<close>. The two
  upload methods join the optional \<open>artifact_path\<close> on different sides of the URI's path
  segment; the listing concatenates strings; the download uses \<open>posixpath.join\<close>.\<close>

definition upload_dir :: "string \<Rightarrow> string \<Rightarrow> string option \<Rightarrow> string" where
  "upload_dir netloc uri_dir artifact_path =
     (if py_truthy artifact_path then posix_join netloc [the artifact_path, uri_dir]
      else posix_join netloc [uri_dir])"

definition upload_dir_batch :: "string \<Rightarrow> string \<Rightarrow> string option \<Rightarrow> string" where
  "upload_dir_batch netloc uri_dir artifact_path =
     (if py_truthy artifact_path then posix_join netloc [uri_dir, the artifact_path]
      else posix_join netloc [uri_dir])"

definition listing_root :: "string \<Rightarrow> string \<Rightarrow> string option \<Rightarrow> string" where
  "listing_root netloc artifact_dir path =
     (if py_truthy path then ''/'' @ netloc @ ''/'' @ artifact_dir @ ''/'' @ the path
      else ''/'' @ netloc @ ''/'' @ artifact_dir)"

definition download_path :: "string \<Rightarrow> string \<Rightarrow> string \<Rightarrow> string" where
  "download_path netloc artifact_dir remote_file_path = posix_join netloc [artifact_dir, remote_file_path]"

section \<open>Uploads\<close>

text \<open>The message of the \<open>RuntimeError\<close>: the triple-quoted f-string keeps the line
  break and the source's indentation (24 spaces in \<open>log_artifact\<close>, 28 in
  \<open>log_artifacts\<close>).\<close>

definition upload_msg :: "string \<Rightarrow> string \<Rightarrow> string \<Rightarrow> nat \<Rightarrow> string" where
  "upload_msg local repo remote indent =
     ''Unable to log '' @ local @ '' to repository'' @ CHR 0x0A # replicate indent CHR '' '' @
     repo @ '' with target destination '' @ remote"

text \<open>
  The guarded deploy shared by both upload methods:
  \<^verbatim>\<open>
    try:
        response = self.af.artifacts_and_storage.deploy_artifact(
            self.artifactory_repo, local_file, remote_file)
    except self.af.AfApiError as error:
        print(error)
        raise RuntimeError(f"""Unable to log ...""")
  \<close>
  Any other exception, \<open>AttributeError\<close> for an unset \<open>af\<close> included, propagates.
\<close>

definition deploy_guarded ::
  "'s af_client \<Rightarrow> jfrog_repo \<Rightarrow> string list \<Rightarrow> string \<Rightarrow> string \<Rightarrow> nat \<Rightarrow> ('s, unit) wact" where
  "deploy_guarded c obj local local_str remote indent =
     bindA (liftA (get_af obj)) (\<lambda>_.
     bindA (liftA (get_repo obj)) (\<lambda>repo.
     catch_af (deploy_call c repo local remote)
       (\<lambda>msg. bindA (print_line [msg]) (\<lambda>_.
               raise (RuntimeError (upload_msg local_str repo remote indent))))))"

text \<open>\<open>log_artifact\<close> (lines 57--79).\<close>

definition log_artifact ::
  "'s af_client \<Rightarrow> jfrog_repo \<Rightarrow> string \<Rightarrow> string option \<Rightarrow> ('s, unit) wact" where
  "log_artifact c obj local_file artifact_path =
     bindA (liftA (parse_artifactory_uri (artifact_uri obj))) (\<lambda>(netloc, uri_dir).
     let artifact_dir = upload_dir netloc uri_dir artifact_path
     in bindA (print_line [''artifact_dir: '', artifact_dir]) (\<lambda>_.
        bindA (print_line [''local_file: '', local_file]) (\<lambda>_.
        bindA (is_file_act (pl_parts local_file)) (\<lambda>isf.
        if \<not> isf then ret ()
        else deploy_guarded c obj (pl_parts local_file) local_file
               (posix_join artifact_dir [pl_name (pl_parts local_file)]) 24))))"

text \<open>The loop of \<open>log_artifacts\<close> (lines 93--105) over the paths the glob yields.\<close>

fun log_files :: "'s af_client \<Rightarrow> jfrog_repo \<Rightarrow> string \<Rightarrow> string list list \<Rightarrow> ('s, unit) wact" where
  "log_files c obj artifact_dir [] = ret ()"
| "log_files c obj artifact_dir (f # fs) =
     bindA (is_file_act f) (\<lambda>isf.
     bindA (if isf then deploy_guarded c obj f (pl_str f) (posix_join artifact_dir [pl_name f]) 28
            else ret ()) (\<lambda>_.
     log_files c obj artifact_dir fs))"

text \<open>\<open>log_artifacts\<close> (lines 81--105): \<open>walk\<close> is the sequence of paths that
  \<open>Path(local_dir).glob("**/*")\<close> yields (Local_FS.glob_enum).\<close>

definition log_artifacts ::
  "'s af_client \<Rightarrow> jfrog_repo \<Rightarrow> string \<Rightarrow> string option \<Rightarrow> string list list \<Rightarrow> ('s, unit) wact" where
  "log_artifacts c obj local_dir artifact_path walk =
     bindA (liftA (parse_artifactory_uri (artifact_uri obj))) (\<lambda>(netloc, uri_dir).
     let artifact_dir = upload_dir_batch netloc uri_dir artifact_path
     in bindA (print_line [''artifact_dir: '', artifact_dir]) (\<lambda>_.
        bindA (print_line [''local_dir: '', local_dir]) (\<lambda>_.
        log_files c obj artifact_dir walk)))"

section \<open>Listing\<close>

text \<open>The loop of \<open>_list_files\<close> (lines 128--143) over the children of the folder: a
  folder child yields its base name alone, a file child its base name after
  \<open>parent + "/"\<close> when a parent is given, and costs a \<open>file_info\<close> call whose
  \<open>"size"\<close> is read with \<open>int()\<close>.\<close>

fun list_children ::
  "'s af_client \<Rightarrow> string \<Rightarrow> string \<Rightarrow> string option \<Rightarrow> child_entry list \<Rightarrow> ('s, file_info list) wact" where
  "list_children c repo directory parent [] = ret []"
| "list_children c repo directory parent (ch # chs) =
     (if ch_folder ch then
        bindA (list_children c repo directory parent chs) (\<lambda>rest.
        ret (\<lparr>fi_path = basename (ch_uri ch), fi_is_dir = True, fi_size = None\<rparr> # rest))
      else
        (let file_name = CHR ''/'' # basename (ch_uri ch);
             rel = (case parent of None \<Rightarrow> basename (ch_uri ch) | Some p \<Rightarrow> p @ file_name)
         in bindA (file_info_call c repo (directory @ file_name)) (\<lambda>r.
            bindA (liftA (case fj_size r of None \<Rightarrow> Inl (KeyError ''size'') | Some s \<Rightarrow> py_int s)) (\<lambda>size.
            bindA (list_children c repo directory parent chs) (\<lambda>rest.
            ret (\<lparr>fi_path = rel, fi_is_dir = False, fi_size = Some size\<rparr> # rest))))))"

text \<open>\<open>_list_files\<close> (lines 123--143): a folder whose JSON has no \<open>"children"\<close> lists
  nothing.\<close>

definition list_files ::
  "'s af_client \<Rightarrow> jfrog_repo \<Rightarrow> string \<Rightarrow> string option \<Rightarrow> ('s, file_info list) wact" where
  "list_files c obj directory parent =
     bindA (liftA (get_af obj)) (\<lambda>_.
     bindA (liftA (get_repo obj)) (\<lambda>repo.
     bindA (folder_info_call c repo directory) (\<lambda>r.
     case fo_children r of
       None \<Rightarrow> ret []
     | Some listdir \<Rightarrow> list_children c repo directory parent listdir)))"

text \<open>\<open>list_artifacts\<close> (lines 107--121): the result is sorted by path (a stable sort).\<close>

definition list_artifacts ::
  "'s af_client \<Rightarrow> jfrog_repo \<Rightarrow> string option \<Rightarrow> ('s, file_info list) wact" where
  "list_artifacts c obj path =
     bindA (liftA (parse_artifactory_uri (artifact_uri obj))) (\<lambda>(netloc, artifact_dir).
     let full_path = listing_root netloc artifact_dir path
     in bindA (print_line [''full_path: '', full_path]) (\<lambda>_.
        bindA (list_files c obj full_path path) (\<lambda>infos.
        ret (sort_key fi_path infos))))"

section \<open>Download and delete\<close>

text \<open>\<open>_download_file\<close> (lines 145--157): the parent directory of the local path is
  created with \<open>os.makedirs(os.path.dirname(local_path), exist_ok=True)\<close> after the
  retrieval, then the bytes are written.\<close>

definition download_file ::
  "'s af_client \<Rightarrow> jfrog_repo \<Rightarrow> string \<Rightarrow> string \<Rightarrow> ('s, unit) wact" where
  "download_file c obj remote_file_path local_path =
     bindA (liftA (parse_artifactory_uri (artifact_uri obj))) (\<lambda>(netloc, artifact_dir).
     bindA (print_line [''local_path: '', local_path]) (\<lambda>_.
     let artifact_path = download_path netloc artifact_dir remote_file_path
     in bindA (print_line [''artifact_path: '', artifact_path]) (\<lambda>_.
        bindA (liftA (get_af obj)) (\<lambda>_.
        bindA (liftA (get_repo obj)) (\<lambda>repo.
        bindA (retrieve_call c repo artifact_path) (\<lambda>content.
        bindA (local_act (os_makedirs (dirname local_path))) (\<lambda>_.
        local_act (fs_write local_path content))))))))"

definition delete_artifacts :: "jfrog_repo \<Rightarrow> string option \<Rightarrow> ('s, unit) wact" where
  "delete_artifacts obj artifact_path = raise (MlflowException ''delete_artifacts not implemented yet'')"

section \<open>Steps of the methods\<close>

text \<open>The outcome of the guarded deploy and of the upload methods once the URI has parsed;
  the loop of \<open>log_artifacts\<close> run on a concatenation and on a successful run.\<close>

lemma deploy_guarded_ok:
  assumes "af obj \<noteq> None" "artifactory_repo obj = Some repo" "fs_read (w_local w) local = Inr b"
    "cl_deploy c repo b remote (w_remote w) = Inr s'"
  shows "deploy_guarded c obj local ls remote n w
           = (Inr (), w\<lparr>w_remote := s', w_calls := w_calls w @ [CDeploy repo local remote]\<rparr>)"
  using assms by (auto simp: deploy_guarded_def get_af_def get_repo_def deploy_call_ok log_call_def)

lemma deploy_guarded_api_error:
  assumes "af obj \<noteq> None" "artifactory_repo obj = Some repo" "fs_read (w_local w) local = Inr b"
    "cl_deploy c repo b remote (w_remote w) = Inl (AfApiError msg)"
  shows "deploy_guarded c obj local ls remote n w
           = (Inl (RuntimeError (upload_msg ls repo remote n)),
              w\<lparr>w_stdout := w_stdout w @ [msg], w_calls := w_calls w @ [CDeploy repo local remote]\<rparr>)"
  using assms by (auto simp: deploy_guarded_def get_af_def get_repo_def deploy_call_fail log_call_def)

lemma log_artifact_parsed:
  assumes "parse_artifactory_uri (artifact_uri obj) = Inr (netloc, udir)"
  shows "log_artifact c obj f ap w =
     (let w1 = w\<lparr>w_stdout := w_stdout w @ [''artifact_dir:  '' @ upload_dir netloc udir ap, ''local_file:  '' @ f]\<rparr>
      in if fs_is_file (w_local w) (pl_parts f)
         then deploy_guarded c obj (pl_parts f) f (posix_join (upload_dir netloc udir ap) [pl_name (pl_parts f)]) 24 w1
         else (Inr (), w1))"
  using assms by (simp add: log_artifact_def Let_def)

lemma deploy_guarded_Inr:
  assumes "deploy_guarded c obj l ls rem n w = (Inr u, w')" and "artifactory_repo obj = Some r"
  shows "w_local w' = w_local w \<and> w_stdout w' = w_stdout w \<and> w_calls w' = w_calls w @ [CDeploy r l rem]"
proof -
  have dc: "deploy_call c r l rem w = (Inr u, w')"
    using assms
    by (auto simp: deploy_guarded_def get_af_def get_repo_def
        split: option.splits sum.splits prod.splits py_exc.splits)
  show ?thesis using deploy_call_frame [OF dc] by simp
qed

lemma log_files_append:
  "log_files c obj ad (xs @ ys) = bindA (log_files c obj ad xs) (\<lambda>_. log_files c obj ad ys)"
proof (induction xs)
  case Nil
  then show ?case by (simp only: append_Nil log_files.simps bindA_ret_left)
next
  case (Cons f xs)
  then show ?case by (simp only: append_Cons log_files.simps bindA_assoc)
qed

lemma log_files_success:
  assumes "log_files c obj ad walk w = (Inr u, w')" and "artifactory_repo obj = Some r"
  shows "w_local w' = w_local w \<and> w_stdout w' = w_stdout w
         \<and> w_calls w' = w_calls w @ map (\<lambda>f. CDeploy r f (posix_join ad [pl_name f]))
                                        (filter (fs_is_file (w_local w)) walk)"
  using assms(1)
proof (induction walk arbitrary: w)
  case Nil
  then show ?case by simp
next
  case (Cons f fs)
  show ?case
  proof (cases "fs_is_file (w_local w) f")
    case True
    obtain v1 w1 where d: "deploy_guarded c obj f (pl_str f) (posix_join ad [pl_name f]) 28 w = (v1, w1)"
      by fastforce
    obtain u1 where v1: "v1 = Inr u1" and rest: "log_files c obj ad fs w1 = (Inr u, w')"
      using Cons.prems True d by (cases v1) auto
    note fr = deploy_guarded_Inr [OF d [unfolded v1] assms(2)]
    show ?thesis using Cons.IH [OF rest] fr True by simp
  next
    case False
    then show ?thesis using Cons by simp
  qed
qed

lemma log_artifacts_parsed:
  assumes "parse_artifactory_uri (artifact_uri obj) = Inr (netloc, udir)"
  shows "log_artifacts c obj d ap walk w =
     log_files c obj (upload_dir_batch netloc udir ap) walk
       (w\<lparr>w_stdout := w_stdout w @ [''artifact_dir:  '' @ upload_dir_batch netloc udir ap, ''local_dir:  '' @ d]\<rparr>)"
  using assms by (simp add: log_artifacts_def Let_def)


lemma download_file_parsed:
  assumes "parse_artifactory_uri (artifact_uri obj) = Inr (netloc, adir)"
    and "af obj \<noteq> None" and "artifactory_repo obj = Some r"
    and "cl_retrieve c r (download_path netloc adir rp) (w_remote w) = Inr b"
  shows "download_file c obj rp lp w =
     (let w1 = w\<lparr>w_stdout := w_stdout w @ [''local_path:  '' @ lp, ''artifact_path:  '' @ download_path netloc adir rp],
                 w_calls := w_calls w @ [CRetrieve r (download_path netloc adir rp)]\<rparr>
      in case os_makedirs (dirname lp) (w_local w) of
           Inl e \<Rightarrow> (Inl e, w1)
         | Inr fs1 \<Rightarrow> (case fs_write lp b fs1 of Inl e \<Rightarrow> (Inl e, w1\<lparr>w_local := fs1\<rparr>)
                                                | Inr fs2 \<Rightarrow> (Inr (), w1\<lparr>w_local := fs2\<rparr>)))"
  using assms
  by (auto simp: download_file_def get_af_def get_repo_def Let_def log_call_def split: sum.splits)


lemma init_repo_env:
  assumes "env_repo_url (env ''MLFLOW_ARTIFACTORY_REPO'') = Inr name"
  shows "init_repo env uri None None =
     (if \<not> py_truthy (env ''MLFLOW_ARTIFACTORY_ENDPOINT_URL'') then Inl (AssertionError ''please set MLFLOW_ARTIFACTORY_ENDPOINT_URL'')
      else if \<not> py_truthy (env ''MLFLOW_ARTIFACTORY_KEY'') then Inl (AssertionError ''please set MLFLOW_ARTIFACTORY_KEY'')
      else if name = [] then Inl (AssertionError ''please set MLFLOW_ARTIFACTORY_REPO'')
      else Inr \<lparr>artifact_uri = uri, artifactory_repo = Some name, api_key_attr = None,
                artifactory_endpoint = env ''MLFLOW_ARTIFACTORY_ENDPOINT_URL'',
                artifactory_api_key = env ''MLFLOW_ARTIFACTORY_KEY'',
                af = Some \<lparr>af_url = the (env ''MLFLOW_ARTIFACTORY_ENDPOINT_URL''),
                           af_api_key = the (env ''MLFLOW_ARTIFACTORY_KEY'')\<rparr>\<rparr>)"
  using assms by (simp add: init_repo_def Let_def)

lemma init_repo_early:
  assumes "init_repo env uri rn k = Inr obj" and "rn \<noteq> None \<or> k \<noteq> None"
  shows "af obj = None \<and> artifact_uri obj = uri"
  using assms by (auto simp: init_repo_def Let_def split: option.splits)

lemma deploy_guarded_no_af:
  "af obj = None \<Longrightarrow> deploy_guarded c obj l ls rem n w = (Inl (no_attr ''af''), w)"
  by (simp add: deploy_guarded_def get_af_def)


lemma deploy_guarded_Inr_deploy:
  assumes "deploy_guarded c obj l ls rem n w = (Inr u, w')" and "artifactory_repo obj = Some r"
    and "fs_read (w_local w) l = Inr b"
  shows "cl_deploy c r b rem (w_remote w) = Inr (w_remote w')"
  using assms
  by (auto simp: deploy_guarded_def get_af_def get_repo_def deploy_call_def Let_def
      split: option.splits sum.splits prod.splits py_exc.splits)

lemma upload_download_same_path:
  "posix_join (upload_dir netloc adir None) [name] = download_path netloc adir name"
  by (simp add: upload_dir_def py_truthy_def download_path_def)


lemma deploy_guarded_calls:
  "deploy_guarded c obj l ls rem n w = (r, w') \<Longrightarrow>
   w_calls w' = w_calls w \<or> (\<exists>rp. w_calls w' = w_calls w @ [CDeploy rp l rem])"
  by (auto simp: deploy_guarded_def get_af_def get_repo_def deploy_call_def Let_def
      split: option.splits sum.splits prod.splits py_exc.splits)

lemma log_files_calls:
  "log_files c obj ad walk w = (r, w') \<Longrightarrow>
   \<exists>cs. w_calls w' = w_calls w @ cs \<and> length cs \<le> length walk
        \<and> (\<forall>x\<in>set cs. \<exists>rp f dst. x = CDeploy rp f dst \<and> f \<in> set walk)"
proof (induction walk arbitrary: w r)
  case Nil
  then show ?case by simp
next
  case (Cons f fs)
  obtain v1 w1 where d: "(if fs_is_file (w_local w) f then deploy_guarded c obj f (pl_str f) (posix_join ad [pl_name f]) 28
                          else ret ()) w = (v1, w1)" by fastforce
  obtain c1 where c1: "w_calls w1 = w_calls w @ c1" "length c1 \<le> 1"
    "\<forall>x\<in>set c1. \<exists>rp dst. x = CDeploy rp f dst"
  proof (cases "fs_is_file (w_local w) f")
    case True
    then have "deploy_guarded c obj f (pl_str f) (posix_join ad [pl_name f]) 28 w = (v1, w1)" using d by simp
    then consider "w_calls w1 = w_calls w" | rp where "w_calls w1 = w_calls w @ [CDeploy rp f (posix_join ad [pl_name f])]"
      using deploy_guarded_calls by blast
    then show ?thesis
    proof cases
      case 1
      then show ?thesis using that [of "[]"] by simp
    next
      case 2
      then show ?thesis using that [of "[CDeploy rp f (posix_join ad [pl_name f])]"] by simp
    qed
  next
    case False
    then show ?thesis using d that [of "[]"] by simp
  qed
  show ?case
  proof (cases v1)
    case (Inl e)
    then have "w' = w1" using Cons.prems d by simp
    then show ?thesis using c1 by (intro exI [of _ c1]) auto
  next
    case (Inr u)
    then have "log_files c obj ad fs w1 = (r, w')" using Cons.prems d by simp
    then obtain cs where cs: "w_calls w' = w_calls w1 @ cs" "length cs \<le> length fs"
      "\<forall>x\<in>set cs. \<exists>rp g dst. x = CDeploy rp g dst \<and> g \<in> set fs"
      using Cons.IH by blast
    show ?thesis using c1 cs by (intro exI [of _ "c1 @ cs"]) fastforce
  qed
qed


lemma log_files_completes:
  assumes "af obj \<noteq> None" and "artifactory_repo obj = Some r"
    and "\<forall>b p s. \<exists>s'. cl_deploy c r b p s = Inr s'"
  shows "fst (log_files c obj ad walk w) = Inr ()"
proof (induction walk arbitrary: w)
  case Nil
  then show ?case by simp
next
  case (Cons f fs)
  show ?case
  proof (cases "fs_is_file (w_local w) f")
    case True
    obtain b where b: "fs_read (w_local w) f = Inr b" using fs_is_file_read [OF True] by blast
    obtain s' where s': "cl_deploy c r b (posix_join ad [pl_name f]) (w_remote w) = Inr s'" using assms(3) by blast
    show ?thesis
      using True deploy_guarded_ok [OF assms(1,2) b s', of "pl_str f" 28] Cons.IH by simp
  next
    case False
    then show ?thesis using Cons.IH by simp
  qed
qed

end
