(* ===== verification/Examples.thy ===== *)
theory Examples
  imports Repository
begin

text \<open>A repository object as the constructor builds it from the environment, a store with a
  file and a nested folder under the run's artifact directory, and a local directory
  with two files of the same name at different depths.\<close>

definition demo_repo :: jfrog_repo where
  "demo_repo = \<lparr>artifact_uri = ''artifactory://host/mlruns/1/artifacts'',
     artifactory_repo = Some ''generic-local'', api_key_attr = None,
     artifactory_endpoint = Some ''https://af.example/artifactory'', artifactory_api_key = Some ''key'',
     af = Some \<lparr>af_url = ''https://af.example/artifactory'', af_api_key = ''key''\<rparr>\<rparr>"

definition demo_store :: store where
  "demo_store =
     [((''generic-local'', [''host'', ''mlruns'', ''1'', ''artifacts'', ''model.pkl'']), ''0123456789''),
      ((''generic-local'', [''host'', ''mlruns'', ''1'', ''artifacts'', ''weights'', ''w.bin'']), ''ab''),
      ((''generic-local'', [''host'', ''mlruns'', ''1'', ''artifacts'', ''weights'', ''ckpt'', ''c.bin'']), ''xyz'')]"

definition demo_world :: "store world" where
  "demo_world = \<lparr>w_local = [([''data''], LDir), ([''data'', ''a.txt''], LFile ''aa''), ([''data'', ''sub''], LDir),
      ([''data'', ''sub'', ''a.txt''], LFile ''cc'')], w_remote = demo_store, w_stdout = [], w_calls = []\<rparr>"

definition demo_listing :: "file_info list" where
  "demo_listing = [\<lparr>fi_path = ''model.pkl'', fi_is_dir = False, fi_size = Some 10\<rparr>,
                   \<lparr>fi_path = ''weights'', fi_is_dir = True, fi_size = None\<rparr>]"

definition demo_sub_listing :: "file_info list" where
  "demo_sub_listing = [\<lparr>fi_path = ''ckpt'', fi_is_dir = True, fi_size = None\<rparr>,
                       \<lparr>fi_path = ''weights/w.bin'', fi_is_dir = False, fi_size = Some 2\<rparr>]"

definition demo_clash_world :: "store world" where
  "demo_clash_world = demo_world\<lparr>w_local := [([''weights''], LFile ''w'')]\<rparr>"

definition demo_abort_world :: "store world" where
  "demo_abort_world = demo_world\<lparr>w_local := [([''data''], LDir), ([''data'', ''weights''], LFile ''w''),
                                               ([''data'', ''z.txt''], LFile ''z'')]\<rparr>"

definition demo_walk :: "string list list" where
  "demo_walk = [[''data'', ''sub''], [''data'', ''sub'', ''a.txt''], [''data'', ''a.txt'']]"

text \<open>The environment the constructor reads the demo repository object from.\<close>

definition demo_env :: environ where
  "demo_env v = (if v = ''MLFLOW_ARTIFACTORY_ENDPOINT_URL'' then Some ''https://af.example/artifactory''
                 else if v = ''MLFLOW_ARTIFACTORY_KEY'' then Some ''key''
                 else if v = ''MLFLOW_ARTIFACTORY_REPO'' then Some ''generic-local'' else None)"

text \<open>A server that accepts every upload, replacing what was stored at the path.\<close>

definition accepting_client :: "store af_client" where
  "accepting_client = store_client\<lparr>cl_deploy := (\<lambda>repo b p s. Inr (AList.update (repo, norm_path p) b s))\<rparr>"

definition demo_empty_listing :: "file_info list" where
  "demo_empty_listing = [\<lparr>fi_path = ''/model.pkl'', fi_is_dir = False, fi_size = Some 10\<rparr>,
                         \<lparr>fi_path = ''weights'', fi_is_dir = True, fi_size = None\<rparr>]"

section \<open>Evaluation on the example\<close>

lemmas repo_eval = uri_eval store_eval list_artifacts_def list_files_def listing_root_def
  py_truthy_def get_af_def get_repo_def Let_def

lemma demo_parse: "parse_artifactory_uri (artifact_uri demo_repo) = Inr (''host'', ''mlruns/1/artifacts'')"
  by (simp add: uri_eval demo_repo_def)

lemmas demo_eval = demo_parse demo_repo_def demo_world_def demo_store_def upload_dir_def py_truthy_def
  endswith_def startswith_def pl_parts_def pl_splitroot_def pl_name_def is_root_part_def
  fs_read_def fs_blocked_def is_lfile_def fs_lookup_def implicit_dir_def

lemma demo_listing_run:
  "list_artifacts store_client demo_repo None demo_world
     = (Inr demo_listing, snd (list_artifacts store_client demo_repo None demo_world))"
proof -
  have "fst (list_artifacts store_client demo_repo None demo_world) = Inr demo_listing"
    by (simp add: repo_eval demo_repo_def demo_world_def demo_store_def demo_listing_def)
  then show ?thesis by (metis prod.collapse)
qed

lemma demo_sub_listing_run:
  "list_artifacts store_client demo_repo (Some ''weights'') demo_world
     = (Inr demo_sub_listing, snd (list_artifacts store_client demo_repo (Some ''weights'') demo_world))"
proof -
  have "fst (list_artifacts store_client demo_repo (Some ''weights'') demo_world) = Inr demo_sub_listing"
    by (simp add: repo_eval demo_repo_def demo_world_def demo_store_def demo_sub_listing_def)
  then show ?thesis by (metis prod.collapse)
qed

lemma demo_walk_glob: "glob_enum (w_local demo_world) (pl_parts ''data'') demo_walk"
  by (simp add: demo_world_def demo_walk_def fs_eval insert_commute)

lemma demo_batch_run:
  "log_artifacts store_client demo_repo ''data'' None demo_walk demo_world
     = (Inr (), snd (log_artifacts store_client demo_repo ''data'' None demo_walk demo_world))"
proof -
  have "fst (log_artifacts store_client demo_repo ''data'' None demo_walk demo_world) = Inr ()"
    unfolding log_artifacts_parsed [OF demo_parse]
    by (simp add: demo_walk_def demo_world_def demo_eval fs_eval
        upload_dir_batch_def deploy_guarded_def deploy_call_def get_af_def get_repo_def store_eval)
  then show ?thesis by (metis prod.collapse)
qed

lemma demo_abort_pre:
  "log_artifacts store_client demo_repo ''data'' None [] demo_abort_world
     = (Inr (), demo_abort_world\<lparr>w_stdout := [''artifact_dir:  host/mlruns/1/artifacts'', ''local_dir:  data'']\<rparr>)"
  unfolding log_artifacts_parsed [OF demo_parse]
  by (simp add: demo_abort_world_def demo_world_def upload_dir_batch_def py_truthy_def endswith_def startswith_def)

lemma demo_env_repo: "env_repo_url (demo_env ''MLFLOW_ARTIFACTORY_REPO'') = Inr ''generic-local''"
  by (simp add: demo_env_def env_repo_url_def uri_eval urlunparse_def)


lemma demo_upload_run:
  "log_artifact store_client demo_repo ''data/a.txt'' None demo_world
     = (Inr (), snd (log_artifact store_client demo_repo ''data/a.txt'' None demo_world))"
proof -
  have "fst (log_artifact store_client demo_repo ''data/a.txt'' None demo_world) = Inr ()"
    unfolding log_artifact_parsed [OF demo_parse]
    by (simp add: demo_world_def demo_eval fs_eval deploy_guarded_def deploy_call_def get_af_def
        get_repo_def store_eval Let_def)
  then show ?thesis by (metis prod.collapse)
qed


lemma demo_empty_path_run:
  "list_artifacts store_client demo_repo (Some []) demo_world
     = (Inr demo_empty_listing, snd (list_artifacts store_client demo_repo (Some []) demo_world))"
proof -
  have "fst (list_artifacts store_client demo_repo (Some []) demo_world) = Inr demo_empty_listing"
    by (simp add: repo_eval demo_repo_def demo_world_def demo_store_def demo_empty_listing_def)
  then show ?thesis by (metis prod.collapse)
qed

lemma demo_file_listing_run:
  "list_artifacts store_client demo_repo (Some ''model.pkl'') demo_world
     = (Inl (AfApiError ''400 Bad Request''), snd (list_artifacts store_client demo_repo (Some ''model.pkl'') demo_world))"
proof -
  have "fst (list_artifacts store_client demo_repo (Some ''model.pkl'') demo_world) = Inl (AfApiError ''400 Bad Request'')"
    by (simp add: repo_eval demo_repo_def demo_world_def demo_store_def)
  then show ?thesis by (metis prod.collapse)
qed

end
