(* ===== verification/Listing.thy ===== *)
theory Listing
  imports Examples
begin

section \<open>Specification of a listing\<close>

text \<open>The path \<open>_list_files\<close> gives a child of the queried folder: a folder child its base
  name alone, a file child its base name after \<open>parent + "/"\<close> when a parent is given.
  A listed entry agrees with its child on that path and on the folder flag, and carries a
  size exactly when it is a file.\<close>

definition child_rel_path :: "string option \<Rightarrow> child_entry \<Rightarrow> string" where
  "child_rel_path parent ch =
     (if ch_folder ch then basename (ch_uri ch)
      else (case parent of None \<Rightarrow> basename (ch_uri ch) | Some p \<Rightarrow> p @ CHR ''/'' # basename (ch_uri ch)))"

definition entry_of :: "string option \<Rightarrow> child_entry \<Rightarrow> file_info \<Rightarrow> bool" where
  "entry_of parent ch i \<longleftrightarrow>
     fi_path i = child_rel_path parent ch \<and> fi_is_dir i = ch_folder ch \<and> (fi_size i = None \<longleftrightarrow> ch_folder ch)"

definition children_of :: "folder_json \<Rightarrow> child_entry list" where
  "children_of r = (case fo_children r of None \<Rightarrow> [] | Some l \<Rightarrow> l)"

section \<open>Properties of the listing\<close>

lemma list_children_frame:
  "list_children c repo d p chs w = (r, w') \<Longrightarrow>
   w_local w' = w_local w \<and> w_remote w' = w_remote w \<and> w_stdout w' = w_stdout w"
proof (induction chs arbitrary: w r w')
  case Nil
  then show ?case by simp
next
  case (Cons ch chs)
  then show ?case
    by (fastforce simp: Let_def split: if_splits prod.splits sum.splits option.splits)
qed

lemma list_children_remote:
  "w_remote w1 = w_remote w2 \<Longrightarrow>
   fst (list_children c repo d p chs w1) = fst (list_children c repo d p chs w2)"
proof (induction chs arbitrary: w1 w2)
  case Nil
  then show ?case by simp
next
  case (Cons ch chs)
  show ?case
  proof (cases "ch_folder ch")
    case True
    obtain r1 v1 r2 v2 where 1: "list_children c repo d p chs w1 = (r1, v1)"
      and 2: "list_children c repo d p chs w2 = (r2, v2)" by fastforce
    have "r1 = r2" using Cons.IH [OF Cons.prems] 1 2 by simp
    then show ?thesis using True 1 2 by (simp split: sum.splits)
  next
    case False
    define k where "k = CFileInfo repo (d @ CHR ''/'' # basename (ch_uri ch))"
    obtain r1 v1 r2 v2 where 1: "list_children c repo d p chs (log_call k w1) = (r1, v1)"
      and 2: "list_children c repo d p chs (log_call k w2) = (r2, v2)" by fastforce
    have "r1 = r2" using Cons.IH [of "log_call k w1" "log_call k w2"] Cons.prems 1 2 by simp
    then show ?thesis using False 1 2 Cons.prems
      by (simp add: Let_def k_def [symmetric] split: sum.splits prod.splits)
  qed
qed

lemma list_children_entries:
  "list_children c repo d p chs w = (Inr infos, w') \<Longrightarrow> list_all2 (entry_of p) chs infos"
proof (induction chs arbitrary: w infos w')
  case Nil
  then show ?case by simp
next
  case (Cons ch chs)
  then show ?case
    by (auto simp: Let_def entry_of_def child_rel_path_def
        split: if_splits prod.splits sum.splits option.splits)
qed

lemma list_children_calls:
  "list_children c repo d p chs w = (Inr infos, w') \<Longrightarrow>
   w_calls w' = w_calls w @ map (\<lambda>ch. CFileInfo repo (d @ CHR ''/'' # basename (ch_uri ch)))
                                (filter (\<lambda>ch. \<not> ch_folder ch) chs)"
proof (induction chs arbitrary: w infos w')
  case Nil
  then show ?case by simp
next
  case (Cons ch chs)
  then show ?case
    by (auto simp: Let_def split: if_splits prod.splits sum.splits option.splits)
qed

lemma list_files_frame:
  "list_files c obj d p w = (r, w') \<Longrightarrow> w_local w' = w_local w \<and> w_remote w' = w_remote w"
  by (auto simp: list_files_def get_af_def get_repo_def dest!: list_children_frame
      split: option.splits prod.splits sum.splits)

lemma list_files_remote:
  assumes "w_remote w1 = w_remote w2"
  shows "fst (list_files c obj d p w1) = fst (list_files c obj d p w2)"
proof -
  have rec: "fst (list_children c repo d p chs (log_call k w1))
           = fst (list_children c repo d p chs (log_call k w2))"
    for repo chs k using assms by (intro list_children_remote) simp
  show ?thesis using assms rec
    by (auto simp: list_files_def get_af_def get_repo_def split: option.splits prod.splits sum.splits)
qed

lemma list_files_success:
  assumes "list_files c obj d p w = (Inr raw, w')"
  shows "\<exists>repo r. af obj \<noteq> None \<and> artifactory_repo obj = Some repo
           \<and> cl_folder_info c repo d (w_remote w) = Inr r \<and> list_all2 (entry_of p) (children_of r) raw
           \<and> w_local w' = w_local w \<and> w_remote w' = w_remote w \<and> w_stdout w' = w_stdout w
           \<and> w_calls w' = w_calls w @ CFolderInfo repo d #
               map (\<lambda>ch. CFileInfo repo (d @ CHR ''/'' # basename (ch_uri ch)))
                   (filter (\<lambda>ch. \<not> ch_folder ch) (children_of r))"
proof -
  obtain s repo where a: "af obj = Some s" and rp: "artifactory_repo obj = Some repo"
    using assms by (auto simp: list_files_def get_af_def get_repo_def split: option.splits)
  obtain r where fi: "cl_folder_info c repo d (w_remote w) = Inr r"
    using assms a rp by (auto simp: list_files_def get_af_def get_repo_def split: sum.splits)
  have run: "list_children c repo d p (children_of r) (log_call (CFolderInfo repo d) w) = (Inr raw, w')"
    using assms a rp fi
    by (auto simp: list_files_def get_af_def get_repo_def children_of_def split: option.splits)
  show ?thesis
    using list_children_entries [OF run] list_children_calls [OF run] list_children_frame [OF run] a rp fi
    by auto
qed

lemma list_artifacts_frame:
  "list_artifacts c obj p w = (r, w') \<Longrightarrow> w_local w' = w_local w \<and> w_remote w' = w_remote w"
  by (auto simp: list_artifacts_def Let_def dest!: list_files_frame split: prod.splits sum.splits)

lemma list_artifacts_body_remote:
  assumes "w_remote w1 = w_remote w2"
  shows "fst (bindA (print_line [''full_path: '', d])
               (\<lambda>_. bindA (list_files c obj d p) (\<lambda>infos. ret (sort_key fi_path infos))) w1)
       = fst (bindA (print_line [''full_path: '', d])
               (\<lambda>_. bindA (list_files c obj d p) (\<lambda>infos. ret (sort_key fi_path infos))) w2)"
proof (rule bindA_fst_eq)
  show "fst (print_line [''full_path: '', d] w1) = fst (print_line [''full_path: '', d] w2)" by simp
  fix a
  have "w_remote (snd (print_line [''full_path: '', d] w1)) = w_remote (snd (print_line [''full_path: '', d] w2))"
    using assms by simp
  then show "fst (bindA (list_files c obj d p) (\<lambda>infos. ret (sort_key fi_path infos))
                (snd (print_line [''full_path: '', d] w1)))
           = fst (bindA (list_files c obj d p) (\<lambda>infos. ret (sort_key fi_path infos))
                (snd (print_line [''full_path: '', d] w2)))"
    by (intro bindA_fst_eq list_files_remote) simp_all
qed

lemma list_artifacts_remote:
  assumes "w_remote w1 = w_remote w2"
  shows "fst (list_artifacts c obj p w1) = fst (list_artifacts c obj p w2)"
proof (cases "parse_artifactory_uri (artifact_uri obj)")
  case (Inl e)
  then show ?thesis by (simp add: list_artifacts_def)
next
  case (Inr x)
  obtain netloc dir where x: "x = (netloc, dir)" by fastforce
  show ?thesis
    unfolding list_artifacts_def Inr x bindA_liftA_Inr split_conv Let_def
    using assms by (rule list_artifacts_body_remote)
qed

lemma list_artifacts_success:
  assumes "list_artifacts c obj p w = (Inr infos, w')"
  shows "\<exists>netloc dir repo r raw. parse_artifactory_uri (artifact_uri obj) = Inr (netloc, dir)
           \<and> af obj \<noteq> None \<and> artifactory_repo obj = Some repo
           \<and> cl_folder_info c repo (listing_root netloc dir p) (w_remote w) = Inr r
           \<and> list_all2 (entry_of p) (children_of r) raw \<and> infos = sort_key fi_path raw
           \<and> w_local w' = w_local w \<and> w_remote w' = w_remote w
           \<and> w_stdout w' = w_stdout w @ [''full_path:  '' @ listing_root netloc dir p]
           \<and> w_calls w' = w_calls w @ CFolderInfo repo (listing_root netloc dir p) #
               map (\<lambda>ch. CFileInfo repo (listing_root netloc dir p @ CHR ''/'' # basename (ch_uri ch)))
                   (filter (\<lambda>ch. \<not> ch_folder ch) (children_of r))"
proof -
  obtain netloc dir where pa: "parse_artifactory_uri (artifact_uri obj) = Inr (netloc, dir)"
    using assms by (auto simp: list_artifacts_def split: sum.splits prod.splits)
  define w1 where "w1 = w\<lparr>w_stdout := w_stdout w @ [''full_path:  '' @ listing_root netloc dir p]\<rparr>"
  obtain raw where lf: "list_files c obj (listing_root netloc dir p) p w1 = (Inr raw, w')"
    and inf: "infos = sort_key fi_path raw"
    using assms pa by (auto simp: list_artifacts_def Let_def w1_def split: sum.splits prod.splits)
  show ?thesis using list_files_success [OF lf] pa inf by (auto simp: w1_def)
qed

lemma entries_paths: "list_all2 (entry_of p) chs raw \<Longrightarrow> map fi_path raw = map (child_rel_path p) chs"
  by (induction rule: list_all2_induct) (auto simp: entry_of_def)

lemma entries_member: "list_all2 (entry_of p) chs raw \<Longrightarrow> i \<in> set raw \<Longrightarrow> \<exists>ch\<in>set chs. entry_of p ch i"
  by (induction rule: list_all2_induct) auto

text \<open>C5. A listing refines its specification: a successful \<open>list_artifacts\<close> parsed the
  artifact URI, asked the server for the folder at \<open>listing_root\<close>, and returns exactly one
  entry per child of that folder (its path as \<open>child_rel_path\<close> gives it, its folder flag,
  a size exactly for a file), reordered so that the paths are the children's paths sorted.\<close>
theorem list_artifacts_listing:
  assumes "list_artifacts c obj p w = (Inr infos, w')"
  shows "\<exists>netloc dir repo r raw. parse_artifactory_uri (artifact_uri obj) = Inr (netloc, dir)
           \<and> artifactory_repo obj = Some repo
           \<and> cl_folder_info c repo (listing_root netloc dir p) (w_remote w) = Inr r
           \<and> list_all2 (entry_of p) (children_of r) raw \<and> mset infos = mset raw
           \<and> map fi_path infos = sort (map (child_rel_path p) (children_of r))"
proof -
  obtain netloc dir repo r raw where pa: "parse_artifactory_uri (artifact_uri obj) = Inr (netloc, dir)"
    and rp: "artifactory_repo obj = Some repo"
    and fi: "cl_folder_info c repo (listing_root netloc dir p) (w_remote w) = Inr r"
    and en: "list_all2 (entry_of p) (children_of r) raw" and inf: "infos = sort_key fi_path raw"
    using list_artifacts_success [OF assms] by blast
  have "map fi_path infos = sort (map (child_rel_path p) (children_of r))"
    using inf entries_paths [OF en] by (simp add: map_sort_key)
  then show ?thesis using pa rp fi en inf by auto
qed

theorem list_artifacts_listing_witness:
  "list_artifacts store_client demo_repo None demo_world
     = (Inr demo_listing, snd (list_artifacts store_client demo_repo None demo_world))
   \<and> (\<exists>netloc dir repo r raw. parse_artifactory_uri (artifact_uri demo_repo) = Inr (netloc, dir)
           \<and> artifactory_repo demo_repo = Some repo
           \<and> cl_folder_info store_client repo (listing_root netloc dir None) (w_remote demo_world) = Inr r
           \<and> list_all2 (entry_of None) (children_of r) raw \<and> mset demo_listing = mset raw
           \<and> map fi_path demo_listing = sort (map (child_rel_path None) (children_of r)))"
  using demo_listing_run list_artifacts_listing [OF demo_listing_run] by blast

text \<open>C6. The result of \<open>list_artifacts\<close> is sorted by path, and an entry is a directory
  exactly when it carries no size.\<close>
theorem list_artifacts_sorted_shape:
  assumes "list_artifacts c obj p w = (Inr infos, w')"
  shows "sorted (map fi_path infos) \<and> (\<forall>i\<in>set infos. fi_is_dir i \<longleftrightarrow> fi_size i = None)"
proof -
  obtain r raw where en: "list_all2 (entry_of p) (children_of r) raw" and inf: "infos = sort_key fi_path raw"
    using list_artifacts_success [OF assms] by blast
  have "fi_is_dir i \<longleftrightarrow> fi_size i = None" if "i \<in> set infos" for i
    using entries_member [OF en, of i] that inf by (auto simp: entry_of_def)
  then show ?thesis using inf by (simp add: sorted_sort_key)
qed

theorem list_artifacts_sorted_shape_witness:
  "list_artifacts store_client demo_repo None demo_world
     = (Inr demo_listing, snd (list_artifacts store_client demo_repo None demo_world))
   \<and> sorted (map fi_path demo_listing) \<and> list_all (\<lambda>i. fi_is_dir i \<longleftrightarrow> fi_size i = None) demo_listing"
  using demo_listing_run list_artifacts_sorted_shape [OF demo_listing_run] by (simp add: list_all_iff)

text \<open>C7. With a \<open>path\<close> argument, the listing prefixes file entries with that path and
  not folder entries: a folder entry is a bare name, a file entry is \<open>path + "/" + name\<close>.\<close>
theorem list_artifacts_parent_prefix:
  assumes "list_artifacts c obj (Some q) w = (Inr infos, w')" and "i \<in> set infos"
  shows "(fi_is_dir i \<longrightarrow> CHR ''/'' \<notin> set (fi_path i))
       \<and> (\<not> fi_is_dir i \<longrightarrow> fi_path i = q @ CHR ''/'' # basename (fi_path i) \<and> CHR ''/'' \<notin> set (basename (fi_path i)))"
proof -
  obtain r raw where en: "list_all2 (entry_of (Some q)) (children_of r) raw"
    and inf: "infos = sort_key fi_path raw"
    using list_artifacts_success [OF assms(1)] by blast
  obtain ch where "entry_of (Some q) ch i" using entries_member [OF en, of i] assms(2) inf by auto
  then show ?thesis by (auto simp: entry_of_def child_rel_path_def basename_plain)
qed

theorem list_artifacts_parent_prefix_witness:
  "list_artifacts store_client demo_repo (Some ''weights'') demo_world
     = (Inr demo_sub_listing, snd (list_artifacts store_client demo_repo (Some ''weights'') demo_world))
   \<and> \<lparr>fi_path = ''ckpt'', fi_is_dir = True, fi_size = None\<rparr> \<in> set demo_sub_listing
   \<and> \<lparr>fi_path = ''weights/w.bin'', fi_is_dir = False, fi_size = Some 2\<rparr> \<in> set demo_sub_listing
   \<and> CHR ''/'' \<notin> set ''ckpt''
   \<and> ''weights/w.bin'' = ''weights'' @ CHR ''/'' # basename ''weights/w.bin''"
proof -
  have "CHR ''/'' \<notin> set ''ckpt''"
    using list_artifacts_parent_prefix [OF demo_sub_listing_run, of "\<lparr>fi_path = ''ckpt'', fi_is_dir = True, fi_size = None\<rparr>"]
    by (simp add: demo_sub_listing_def)
  moreover have "''weights/w.bin'' = ''weights'' @ CHR ''/'' # basename ''weights/w.bin''"
    using list_artifacts_parent_prefix [OF demo_sub_listing_run, of "\<lparr>fi_path = ''weights/w.bin'', fi_is_dir = False, fi_size = Some 2\<rparr>"]
    by (simp add: demo_sub_listing_def)
  ultimately show ?thesis using demo_sub_listing_run by (simp add: demo_sub_listing_def)
qed



text \<open>C9. A successful listing changes neither the local file system nor the server; it
  prints the \<open>full_path\<close> line once, and its calls are one \<open>folder_info\<close> of the listed
  folder followed by one \<open>file_info\<close> per file child, in the children's order.\<close>
theorem list_artifacts_effects:
  assumes "list_artifacts c obj p w = (Inr infos, w')"
  shows "\<exists>netloc dir repo r. parse_artifactory_uri (artifact_uri obj) = Inr (netloc, dir)
           \<and> artifactory_repo obj = Some repo
           \<and> cl_folder_info c repo (listing_root netloc dir p) (w_remote w) = Inr r
           \<and> w_local w' = w_local w \<and> w_remote w' = w_remote w
           \<and> w_stdout w' = w_stdout w @ [''full_path:  '' @ listing_root netloc dir p]
           \<and> w_calls w' = w_calls w @ CFolderInfo repo (listing_root netloc dir p) #
               map (\<lambda>ch. CFileInfo repo (listing_root netloc dir p @ CHR ''/'' # basename (ch_uri ch)))
                   (filter (\<lambda>ch. \<not> ch_folder ch) (children_of r))"
  using list_artifacts_success [OF assms] by blast

theorem list_artifacts_effects_witness:
  "list_artifacts store_client demo_repo None demo_world
     = (Inr demo_listing, snd (list_artifacts store_client demo_repo None demo_world))
   \<and> w_calls (snd (list_artifacts store_client demo_repo None demo_world))
     = [CFolderInfo ''generic-local'' ''/host/mlruns/1/artifacts'',
        CFileInfo ''generic-local'' ''/host/mlruns/1/artifacts/model.pkl'']
   \<and> w_stdout (snd (list_artifacts store_client demo_repo None demo_world))
     = [''full_path:  /host/mlruns/1/artifacts'']"
proof -
  obtain netloc dir repo r where
    pa: "parse_artifactory_uri (artifact_uri demo_repo) = Inr (netloc, dir)"
    and rp: "artifactory_repo demo_repo = Some repo"
    and fi: "cl_folder_info store_client repo (listing_root netloc dir None) (w_remote demo_world) = Inr r"
    and so: "w_stdout (snd (list_artifacts store_client demo_repo None demo_world))
             = w_stdout demo_world @ [''full_path:  '' @ listing_root netloc dir None]"
    and ca: "w_calls (snd (list_artifacts store_client demo_repo None demo_world))
             = w_calls demo_world @ CFolderInfo repo (listing_root netloc dir None) #
               map (\<lambda>ch. CFileInfo repo (listing_root netloc dir None @ CHR ''/'' # basename (ch_uri ch)))
                   (filter (\<lambda>ch. \<not> ch_folder ch) (children_of r))"
    using list_artifacts_effects [OF demo_listing_run] by blast
  have nd: "netloc = ''host''" "dir = ''mlruns/1/artifacts''" using pa by (simp_all add: repo_eval demo_repo_def)
  have rr: "repo = ''generic-local''" using rp by (simp add: demo_repo_def)
  have "children_of r = [\<lparr>ch_uri = ''/model.pkl'', ch_folder = False\<rparr>, \<lparr>ch_uri = ''/weights'', ch_folder = True\<rparr>]"
    using fi by (simp add: nd rr repo_eval demo_world_def demo_store_def children_of_def) (metis folder_json.select_convs(1) option.case(2))
  then show ?thesis using demo_listing_run so ca
    by (simp add: nd rr listing_root_def py_truthy_def demo_world_def basename_def)
qed


lemma list_children_store_sizes:
  assumes "list_children store_client repo d p chs w = (Inr infos, w')" and "i \<in> set infos" and "\<not> fi_is_dir i"
  shows "\<exists>k b. st_file (w_remote w) repo k = Some b \<and> fi_size i = Some (int (length b))"
  using assms
proof (induction chs arbitrary: w infos w')
  case Nil
  then show ?case by simp
next
  case (Cons ch chs)
  show ?case
  proof (cases "ch_folder ch")
    case True
    then obtain rest where "list_children store_client repo d p chs w = (Inr rest, w')" "infos = \<lparr>fi_path = basename (ch_uri ch), fi_is_dir = True, fi_size = None\<rparr> # rest"
      using Cons.prems(1) by (auto split: prod.splits sum.splits)
    then show ?thesis using Cons.IH Cons.prems(2,3) by auto
  next
    case False
    define nm where "nm = d @ CHR ''/'' # basename (ch_uri ch)"
    obtain r sz v rest where fi: "store_file_info repo nm (w_remote w) = Inr r" and sz: "fj_size r = Some sz"
      and v: "py_int sz = Inr v"
      and rest: "list_children store_client repo d p chs (log_call (CFileInfo repo nm) w) = (Inr rest, w')"
      and inf: "infos = \<lparr>fi_path = (case p of None \<Rightarrow> basename (ch_uri ch) | Some q \<Rightarrow> q @ CHR ''/'' # basename (ch_uri ch)),
                        fi_is_dir = False, fi_size = Some v\<rparr> # rest"
      using Cons.prems(1) False
      by (auto simp: Let_def nm_def store_client_def split: prod.splits sum.splits option.splits)
    show ?thesis
    proof (cases "i \<in> set rest")
      case True
      then show ?thesis using Cons.IH [OF rest] Cons.prems(3) by simp
    next
      case False
      then have "fi_size i = Some v" using Cons.prems(2) inf by auto
      then show ?thesis using store_file_info_size [OF fi sz v] by blast
    qed
  qed
qed





text \<open>C30. Boundary input: \<open>list_artifacts(path="")\<close>. The empty string is false for
  \<open>if path:\<close>, so the root of the listing is that of no path, but \<open>parent=""\<close> is not
  \<open>None\<close>: every file entry comes back as \<open>"/" + name\<close>, with a leading slash.\<close>

theorem list_artifacts_empty_path:
  assumes "list_artifacts c obj (Some []) w = (Inr infos, w')" and "i \<in> set infos" and "\<not> fi_is_dir i"
  shows "fi_path i = CHR ''/'' # basename (fi_path i)"
proof -
  obtain r raw where en: "list_all2 (entry_of (Some [])) (children_of r) raw" and inf: "infos = sort_key fi_path raw"
    using list_artifacts_success [OF assms(1)] by blast
  obtain ch where "entry_of (Some []) ch i" using entries_member [OF en, of i] assms(2) inf by auto
  then show ?thesis using assms(3) by (auto simp: entry_of_def child_rel_path_def basename_plain)
qed

theorem list_artifacts_empty_path_witness:
  "list_artifacts store_client demo_repo (Some []) demo_world
     = (Inr demo_empty_listing, snd (list_artifacts store_client demo_repo (Some []) demo_world))
   \<and> \<lparr>fi_path = ''/model.pkl'', fi_is_dir = False, fi_size = Some 10\<rparr> \<in> set demo_empty_listing
   \<and> \<not> fi_is_dir \<lparr>fi_path = ''/model.pkl'', fi_is_dir = False, fi_size = Some 10\<rparr>
   \<and> ''/model.pkl'' = CHR ''/'' # basename ''/model.pkl''"
proof -
  have m: "\<lparr>fi_path = ''/model.pkl'', fi_is_dir = False, fi_size = Some 10\<rparr> \<in> set demo_empty_listing"
    by (simp add: demo_empty_listing_def)
  show ?thesis using list_artifacts_empty_path [OF demo_empty_path_run m] demo_empty_path_run m by simp
qed

lemma list_children_errors:
  "list_children c repo d p chs w = (Inl e, w') \<Longrightarrow>
   (\<exists>q. cl_file_info c repo q (w_remote w) = Inl e) \<or> e = KeyError ''size'' \<or> (\<exists>s. py_int s = Inl e)"
proof (induction chs arbitrary: w w')
  case Nil
  then show ?case by simp
next
  case (Cons ch chs)
  show ?case
  proof (cases "ch_folder ch")
    case True
    then show ?thesis using Cons by (auto split: prod.splits sum.splits)
  next
    case False
    define q where "q = d @ CHR ''/'' # basename (ch_uri ch)"
    show ?thesis
    proof (cases "cl_file_info c repo q (w_remote w)")
      case (Inl e1)
      then show ?thesis using Cons.prems False by (auto simp: Let_def q_def [symmetric])
    next
      case (Inr r)
      show ?thesis
      proof (cases "fj_size r")
        case None
        then show ?thesis using Cons.prems False Inr by (auto simp: Let_def q_def [symmetric])
      next
        case (Some s)
        show ?thesis
        proof (cases "py_int s")
          case (Inl e2)
          then show ?thesis using Cons.prems False Inr Some by (auto simp: Let_def q_def [symmetric])
        next
          case (Inr v)
          then have "list_children c repo d p chs (log_call (CFileInfo repo q) w) = (Inl e, w')"
            using Cons.prems False \<open>cl_file_info c repo q (w_remote w) = Inr r\<close> Some
            by (auto simp: Let_def q_def [symmetric] split: prod.splits sum.splits)
          then show ?thesis using Cons.IH by fastforce
        qed
      qed
    qed
  qed
qed

text \<open>C31. A listing recovers from nothing: every exception it raises is the URI parser's,
  an unset attribute's, one returned by the client's \<open>folder_info\<close> or \<open>file_info\<close> on
  the server as it was, the \<open>KeyError\<close> of a file without \<open>"size"\<close>, or the
  \<open>ValueError\<close> of \<open>int()\<close>, unchanged.\<close>

theorem list_artifacts_errors:
  assumes "list_artifacts c obj p w = (Inl e, w')"
  shows "parse_artifactory_uri (artifact_uri obj) = Inl e
       \<or> e = no_attr ''af'' \<or> e = no_attr ''artifactory_repo''
       \<or> (\<exists>repo q. cl_folder_info c repo q (w_remote w) = Inl e)
       \<or> (\<exists>repo q. cl_file_info c repo q (w_remote w) = Inl e)
       \<or> e = KeyError ''size'' \<or> (\<exists>s. py_int s = Inl e)"
proof (cases "parse_artifactory_uri (artifact_uri obj)")
  case (Inl e0)
  then show ?thesis using assms by (simp add: list_artifacts_def)
next
  case (Inr x)
  obtain netloc dir where x: "x = (netloc, dir)" by fastforce
  define w1 where "w1 = w\<lparr>w_stdout := w_stdout w @ [''full_path:  '' @ listing_root netloc dir p]\<rparr>"
  have lf: "list_files c obj (listing_root netloc dir p) p w1 = (Inl e, w')"
    using assms Inr x by (auto simp: list_artifacts_def Let_def w1_def split: sum.splits prod.splits)
  show ?thesis
  proof (cases "af obj = None \<or> artifactory_repo obj = None")
    case True
    then show ?thesis using lf by (auto simp: list_files_def get_af_def get_repo_def split: option.splits)
  next
    case False
    then obtain s repo where a: "af obj = Some s" and rp: "artifactory_repo obj = Some repo" by auto
    show ?thesis
    proof (cases "cl_folder_info c repo (listing_root netloc dir p) (w_remote w)")
      case (Inl e1)
      then show ?thesis using lf a rp by (auto simp: list_files_def get_af_def get_repo_def w1_def)
    next
      case (Inr r)
      then have "list_children c repo (listing_root netloc dir p) p (children_of r)
                   (log_call (CFolderInfo repo (listing_root netloc dir p)) w1) = (Inl e, w')"
        using lf a rp by (auto simp: list_files_def get_af_def get_repo_def w1_def children_of_def split: option.splits)
      then show ?thesis using list_children_errors by (fastforce simp: w1_def)
    qed
  qed
qed


theorem list_artifacts_errors_witness:
  "list_artifacts store_client demo_repo (Some ''model.pkl'') demo_world
     = (Inl (AfApiError ''400 Bad Request''), snd (list_artifacts store_client demo_repo (Some ''model.pkl'') demo_world))
   \<and> (parse_artifactory_uri (artifact_uri demo_repo) = Inl (AfApiError ''400 Bad Request'')
       \<or> AfApiError ''400 Bad Request'' = no_attr ''af'' \<or> AfApiError ''400 Bad Request'' = no_attr ''artifactory_repo''
       \<or> (\<exists>repo q. cl_folder_info store_client repo q (w_remote demo_world) = Inl (AfApiError ''400 Bad Request''))
       \<or> (\<exists>repo q. cl_file_info store_client repo q (w_remote demo_world) = Inl (AfApiError ''400 Bad Request''))
       \<or> AfApiError ''400 Bad Request'' = KeyError ''size'' \<or> (\<exists>s. py_int s = Inl (AfApiError ''400 Bad Request'')))"
  using list_artifacts_errors [OF demo_file_listing_run] demo_file_listing_run by blast

end
