(* ===== verification/Transfer_Driver.thy ===== *)
theory Transfer_Driver
  imports Examples
begin

text \<open>
  The transfer driver: \<open>log_artifact\<close> on each of its branches (no local file, an
  \<open>AfApiError\<close> from the server, a successful deploy), \<open>log_artifacts\<close> over every
  enumeration order of the glob (one deploy per regular file at any depth, flattened to its
  name; abort at the first failure), \<open>_download_file\<close>, and \<open>delete_artifacts\<close>. Each
  property holds for every client; the witnesses run the in-memory store.
\<close>

section \<open>Uploading one file\<close>

text \<open>C10. \<open>log_artifact\<close> of a path that is not a regular file does nothing but print
  its two lines: no storage call, no error, the server and the local files unchanged.\<close>

lemma log_artifact_missing_file:
  assumes "parse_artifactory_uri (artifact_uri obj) = Inr (netloc, udir)"
    and "\<not> fs_is_file (w_local w) (pl_parts f)"
  shows "log_artifact c obj f ap w =
     (Inr (), w\<lparr>w_stdout := w_stdout w @ [''artifact_dir:  '' @ upload_dir netloc udir ap, ''local_file:  '' @ f]\<rparr>)"
  using assms by (simp add: log_artifact_parsed)

text \<open>C11. When the server refuses the upload of an existing file with an \<open>AfApiError\<close>,
  \<open>log_artifact\<close> prints the error and raises \<open>RuntimeError\<close> naming the local file, the
  repository and the destination; it made exactly one deploy call (no retry) and the
  server is unchanged.\<close>

lemma log_artifact_api_error:
  assumes "parse_artifactory_uri (artifact_uri obj) = Inr (netloc, udir)"
    and "af obj \<noteq> None" and "artifactory_repo obj = Some repo"
    and "fs_read (w_local w) (pl_parts f) = Inr b"
    and "remote = posix_join (upload_dir netloc udir ap) [pl_name (pl_parts f)]"
    and "cl_deploy c repo b remote (w_remote w) = Inl (AfApiError msg)"
  shows "log_artifact c obj f ap w =
     (Inl (RuntimeError (upload_msg f repo remote 24)),
      w\<lparr>w_stdout := w_stdout w @ [''artifact_dir:  '' @ upload_dir netloc udir ap, ''local_file:  '' @ f, msg],
        w_calls := w_calls w @ [CDeploy repo (pl_parts f) remote]\<rparr>)"
  using assms fs_read_is_file [OF assms(4)]
  by (simp add: log_artifact_parsed deploy_guarded_api_error)

text \<open>C12. \<open>log_artifact\<close> of an existing file deploys its bytes once, to
  \<open>posixpath.join(upload_dir, name)\<close> where \<open>upload_dir\<close> joins the host, the
  \<open>artifact_path\<close> and then the URI's path, and returns normally with the server the
  client's answer.\<close>

lemma log_artifact_deploys:
  assumes "parse_artifactory_uri (artifact_uri obj) = Inr (netloc, udir)"
    and "af obj \<noteq> None" and "artifactory_repo obj = Some repo"
    and "fs_read (w_local w) (pl_parts f) = Inr b"
    and "remote = posix_join (upload_dir netloc udir ap) [pl_name (pl_parts f)]"
    and "cl_deploy c repo b remote (w_remote w) = Inr s'"
  shows "log_artifact c obj f ap w =
     (Inr (), w\<lparr>w_remote := s',
        w_stdout := w_stdout w @ [''artifact_dir:  '' @ upload_dir netloc udir ap, ''local_file:  '' @ f],
        w_calls := w_calls w @ [CDeploy repo (pl_parts f) remote]\<rparr>)"
  using assms fs_read_is_file [OF assms(4)]
  by (simp add: log_artifact_parsed deploy_guarded_ok)

theorem log_artifact_missing_file_witness:
  "parse_artifactory_uri (artifact_uri demo_repo) = Inr (''host'', ''mlruns/1/artifacts'')
   \<and> \<not> fs_is_file (w_local demo_world) (pl_parts ''data/none.txt'')
   \<and> log_artifact store_client demo_repo ''data/none.txt'' None demo_world =
     (Inr (), demo_world\<lparr>w_stdout := [''artifact_dir:  host/mlruns/1/artifacts'', ''local_file:  data/none.txt'']\<rparr>)"
proof -
  have nf: "\<not> fs_is_file (w_local demo_world) (pl_parts ''data/none.txt'')"
    by (simp add: demo_world_def fs_is_file_def is_lfile_def fs_blocked_def fs_lookup_def implicit_dir_def pl_parts_def pl_splitroot_def is_root_part_def)
  show ?thesis using nf demo_parse log_artifact_missing_file [OF demo_parse, where c = store_client and f = "''data/none.txt''" and w = demo_world and ap = None]
    by (simp add: upload_dir_def py_truthy_def demo_world_def endswith_def startswith_def)
qed

theorem log_artifact_deploys_witness:
  "parse_artifactory_uri (artifact_uri demo_repo) = Inr (''host'', ''mlruns/1/artifacts'')
   \<and> af demo_repo \<noteq> None \<and> artifactory_repo demo_repo = Some ''generic-local''
   \<and> fs_read (w_local demo_world) (pl_parts ''data/a.txt'') = Inr ''aa''
   \<and> ''host/mlruns/1/artifacts/a.txt'' = posix_join (upload_dir ''host'' ''mlruns/1/artifacts'' None) [pl_name (pl_parts ''data/a.txt'')]
   \<and> cl_deploy store_client ''generic-local'' ''aa'' ''host/mlruns/1/artifacts/a.txt'' (w_remote demo_world)
       = Inr (demo_store @ [((''generic-local'', [''host'', ''mlruns'', ''1'', ''artifacts'', ''a.txt'']), ''aa'')])
   \<and> log_artifact store_client demo_repo ''data/a.txt'' None demo_world =
     (Inr (), demo_world\<lparr>w_remote := demo_store @ [((''generic-local'', [''host'', ''mlruns'', ''1'', ''artifacts'', ''a.txt'']), ''aa'')],
        w_stdout := w_stdout demo_world @ [''artifact_dir:  '' @ upload_dir ''host'' ''mlruns/1/artifacts'' None, ''local_file:  '' @ ''data/a.txt''],
        w_calls := w_calls demo_world @ [CDeploy ''generic-local'' (pl_parts ''data/a.txt'') ''host/mlruns/1/artifacts/a.txt'']\<rparr>)"
proof -
  have h1: "af demo_repo \<noteq> None" "artifactory_repo demo_repo = Some ''generic-local''"
    by (simp_all add: demo_repo_def)
  have h2: "fs_read (w_local demo_world) (pl_parts ''data/a.txt'') = Inr ''aa''"
    by (simp add: demo_eval)
  have h3: "''host/mlruns/1/artifacts/a.txt'' = posix_join (upload_dir ''host'' ''mlruns/1/artifacts'' None) [pl_name (pl_parts ''data/a.txt'')]"
    by (simp add: demo_eval)
  have h4: "cl_deploy store_client ''generic-local'' ''aa'' ''host/mlruns/1/artifacts/a.txt'' (w_remote demo_world)
       = Inr (demo_store @ [((''generic-local'', [''host'', ''mlruns'', ''1'', ''artifacts'', ''a.txt'']), ''aa'')])"
    by (simp add: demo_eval store_eval)
  show ?thesis using log_artifact_deploys [OF demo_parse h1 h2 h3 h4] demo_parse h1 h2 h3 h4 by blast
qed

theorem log_artifact_api_error_witness:
  "parse_artifactory_uri (artifact_uri demo_repo) = Inr (''host'', ''mlruns/1/artifacts'')
   \<and> af demo_repo \<noteq> None \<and> artifactory_repo demo_repo = Some ''generic-local''
   \<and> fs_read (w_local demo_clash_world) (pl_parts ''weights'') = Inr ''w''
   \<and> ''host/mlruns/1/artifacts/weights'' = posix_join (upload_dir ''host'' ''mlruns/1/artifacts'' None) [pl_name (pl_parts ''weights'')]
   \<and> cl_deploy store_client ''generic-local'' ''w'' ''host/mlruns/1/artifacts/weights'' (w_remote demo_clash_world)
       = Inl (AfApiError ''409 Conflict'')
   \<and> log_artifact store_client demo_repo ''weights'' None demo_clash_world =
     (Inl (RuntimeError (upload_msg ''weights'' ''generic-local'' ''host/mlruns/1/artifacts/weights'' 24)),
      demo_clash_world\<lparr>w_stdout := w_stdout demo_clash_world @ [''artifact_dir:  '' @ upload_dir ''host'' ''mlruns/1/artifacts'' None, ''local_file:  '' @ ''weights'', ''409 Conflict''],
        w_calls := w_calls demo_clash_world @ [CDeploy ''generic-local'' (pl_parts ''weights'') ''host/mlruns/1/artifacts/weights'']\<rparr>)"
proof -
  have h1: "af demo_repo \<noteq> None" "artifactory_repo demo_repo = Some ''generic-local''"
    by (simp_all add: demo_repo_def)
  have h2: "fs_read (w_local demo_clash_world) (pl_parts ''weights'') = Inr ''w''"
    by (simp add: demo_clash_world_def demo_eval)
  have h3: "''host/mlruns/1/artifacts/weights'' = posix_join (upload_dir ''host'' ''mlruns/1/artifacts'' None) [pl_name (pl_parts ''weights'')]"
    by (simp add: demo_eval)
  have h4: "cl_deploy store_client ''generic-local'' ''w'' ''host/mlruns/1/artifacts/weights'' (w_remote demo_clash_world)
       = Inl (AfApiError ''409 Conflict'')"
    by (simp add: demo_clash_world_def demo_eval store_eval)
  show ?thesis using log_artifact_api_error [OF demo_parse h1 h2 h3 h4] demo_parse h1 h2 h3 h4 by blast
qed



section \<open>Uploading a directory\<close>

text \<open>C13. A successful \<open>log_artifacts\<close> over any enumeration the glob may produce makes
  exactly one deploy per regular file below the directory, at any depth, in the walk's
  order; every file goes to \<open>upload_dir_batch/name\<close>, its base name alone, so files of the
  same name in different sub-directories go to the same remote path. The local files are
  unchanged.\<close>

theorem log_artifacts_deploys_each_file:
  assumes "parse_artifactory_uri (artifact_uri obj) = Inr (netloc, udir)"
    and "artifactory_repo obj = Some r"
    and "fs_is_dir (w_local w) (pl_parts d)" and "glob_enum (w_local w) (pl_parts d) walk"
    and "log_artifacts c obj d ap walk w = (Inr u, w')"
  shows "w_local w' = w_local w
       \<and> w_calls w' = w_calls w @ map (\<lambda>f. CDeploy r f (posix_join (upload_dir_batch netloc udir ap) [pl_name f]))
                                      (filter (fs_is_file (w_local w)) walk)
       \<and> length (w_calls w') = length (w_calls w) + card {k \<in> set (fs_descendants (w_local w) (pl_parts d)). fs_is_file (w_local w) k}"
proof -
  have run: "log_files c obj (upload_dir_batch netloc udir ap) walk
       (w\<lparr>w_stdout := w_stdout w @ [''artifact_dir:  '' @ upload_dir_batch netloc udir ap, ''local_dir:  '' @ d]\<rparr>) = (Inr u, w')"
    using assms(5) by (simp add: log_artifacts_parsed [OF assms(1)])
  show ?thesis using log_files_success [OF run assms(2)] glob_enum_files [OF assms(4,3)] by simp
qed

text \<open>C14. \<open>log_artifacts\<close> aborts at the first file whose deploy fails with an
  \<open>AfApiError\<close>: it raises \<open>RuntimeError\<close> for that file, and no file after it in the walk
  is deployed.\<close>

theorem log_artifacts_abort:
  assumes "parse_artifactory_uri (artifact_uri obj) = Inr (netloc, udir)"
    and "af obj \<noteq> None" and "artifactory_repo obj = Some r"
    and "log_artifacts c obj d ap pre w = (Inr u, w1)"
    and "fs_read (w_local w1) f = Inr b"
    and "dest = posix_join (upload_dir_batch netloc udir ap) [pl_name f]"
    and "cl_deploy c r b dest (w_remote w1) = Inl (AfApiError msg)"
  shows "log_artifacts c obj d ap (pre @ f # rest) w =
           (Inl (RuntimeError (upload_msg (pl_str f) r dest 28)),
            w1\<lparr>w_stdout := w_stdout w1 @ [msg], w_calls := w_calls w1 @ [CDeploy r f dest]\<rparr>)"
proof -
  have pre: "log_files c obj (upload_dir_batch netloc udir ap) pre
       (w\<lparr>w_stdout := w_stdout w @ [''artifact_dir:  '' @ upload_dir_batch netloc udir ap, ''local_dir:  '' @ d]\<rparr>) = (Inr u, w1)"
    using assms(4) by (simp add: log_artifacts_parsed [OF assms(1)])
  have step: "log_files c obj (upload_dir_batch netloc udir ap) (f # rest) w1 =
           (Inl (RuntimeError (upload_msg (pl_str f) r dest 28)),
            w1\<lparr>w_stdout := w_stdout w1 @ [msg], w_calls := w_calls w1 @ [CDeploy r f dest]\<rparr>)"
    using fs_read_is_file [OF assms(5)] deploy_guarded_api_error [OF assms(2,3,5) assms(7)[unfolded assms(6)]]
    by (simp add: assms(6))
  show ?thesis
    unfolding log_artifacts_parsed [OF assms(1)] log_files_append
    using pre step by (simp add: bindA_Inr)
qed

theorem log_artifacts_deploys_each_file_witness:
  "parse_artifactory_uri (artifact_uri demo_repo) = Inr (''host'', ''mlruns/1/artifacts'')
   \<and> artifactory_repo demo_repo = Some ''generic-local''
   \<and> fs_is_dir (w_local demo_world) (pl_parts ''data'')
   \<and> glob_enum (w_local demo_world) (pl_parts ''data'') demo_walk
   \<and> log_artifacts store_client demo_repo ''data'' None demo_walk demo_world
       = (Inr (), snd (log_artifacts store_client demo_repo ''data'' None demo_walk demo_world))
   \<and> w_calls (snd (log_artifacts store_client demo_repo ''data'' None demo_walk demo_world))
       = [CDeploy ''generic-local'' [''data'', ''sub'', ''a.txt''] ''host/mlruns/1/artifacts/a.txt'',
          CDeploy ''generic-local'' [''data'', ''a.txt''] ''host/mlruns/1/artifacts/a.txt'']"
proof -
  have r: "artifactory_repo demo_repo = Some ''generic-local''" by (simp add: demo_repo_def)
  have d: "fs_is_dir (w_local demo_world) (pl_parts ''data'')" by (simp add: demo_world_def fs_eval)
  have "w_calls (snd (log_artifacts store_client demo_repo ''data'' None demo_walk demo_world))
          = w_calls demo_world @ map (\<lambda>f. CDeploy ''generic-local'' f
                 (posix_join (upload_dir_batch ''host'' ''mlruns/1/artifacts'' None) [pl_name f]))
              (filter (fs_is_file (w_local demo_world)) demo_walk)"
    using log_artifacts_deploys_each_file [OF demo_parse r d demo_walk_glob demo_batch_run] by blast
  also have "\<dots> = [CDeploy ''generic-local'' [''data'', ''sub'', ''a.txt''] ''host/mlruns/1/artifacts/a.txt'',
          CDeploy ''generic-local'' [''data'', ''a.txt''] ''host/mlruns/1/artifacts/a.txt'']"
    by (simp add: demo_world_def demo_walk_def fs_eval upload_dir_batch_def py_truthy_def endswith_def startswith_def)
  finally show ?thesis using demo_parse r d demo_walk_glob demo_batch_run by blast
qed

theorem log_artifacts_abort_witness:
  "parse_artifactory_uri (artifact_uri demo_repo) = Inr (''host'', ''mlruns/1/artifacts'')
   \<and> af demo_repo \<noteq> None \<and> artifactory_repo demo_repo = Some ''generic-local''
   \<and> log_artifacts store_client demo_repo ''data'' None [] demo_abort_world
       = (Inr (), demo_abort_world\<lparr>w_stdout := [''artifact_dir:  host/mlruns/1/artifacts'', ''local_dir:  data'']\<rparr>)
   \<and> log_artifacts store_client demo_repo ''data'' None ([] @ [''data'', ''weights''] # [[''data'', ''z.txt'']]) demo_abort_world
       = (Inl (RuntimeError (upload_msg ''data/weights'' ''generic-local'' ''host/mlruns/1/artifacts/weights'' 28)),
          demo_abort_world\<lparr>w_stdout := [''artifact_dir:  host/mlruns/1/artifacts'', ''local_dir:  data'', ''409 Conflict''],
            w_calls := [CDeploy ''generic-local'' [''data'', ''weights''] ''host/mlruns/1/artifacts/weights'']\<rparr>)"
proof -
  let ?w1 = "demo_abort_world\<lparr>w_stdout := [''artifact_dir:  host/mlruns/1/artifacts'', ''local_dir:  data'']\<rparr>"
  have a: "af demo_repo \<noteq> None" "artifactory_repo demo_repo = Some ''generic-local''" by (simp_all add: demo_repo_def)
  have rd: "fs_read (w_local ?w1) [''data'', ''weights''] = Inr ''w''"
    by (simp add: demo_abort_world_def fs_eval)
  have ds: "''host/mlruns/1/artifacts/weights'' = posix_join (upload_dir_batch ''host'' ''mlruns/1/artifacts'' None) [pl_name [''data'', ''weights'']]"
    by (simp add: upload_dir_batch_def py_truthy_def endswith_def startswith_def pl_name_def is_root_part_def)
  have dp: "cl_deploy store_client ''generic-local'' ''w'' ''host/mlruns/1/artifacts/weights'' (w_remote ?w1)
              = Inl (AfApiError ''409 Conflict'')"
    by (simp add: demo_abort_world_def demo_world_def demo_store_def store_eval)
  have "log_artifacts store_client demo_repo ''data'' None ([] @ [''data'', ''weights''] # [[''data'', ''z.txt'']]) demo_abort_world
       = (Inl (RuntimeError (upload_msg (pl_str [''data'', ''weights'']) ''generic-local'' ''host/mlruns/1/artifacts/weights'' 28)),
          ?w1\<lparr>w_stdout := w_stdout ?w1 @ [''409 Conflict''],
               w_calls := w_calls ?w1 @ [CDeploy ''generic-local'' [''data'', ''weights''] ''host/mlruns/1/artifacts/weights'']\<rparr>)"
    by (rule log_artifacts_abort [OF demo_parse a demo_abort_pre rd ds dp])
  then show ?thesis using demo_parse a demo_abort_pre
    by (simp add: pl_str_def is_root_part_def demo_abort_world_def demo_world_def)
qed


section \<open>Downloading a file\<close>

text \<open>C16. \<open>_download_file\<close> of a remote file the server returns, to a local path with a
  directory part and a proper file name, below no regular file and not itself a directory:
  it creates the missing parent directories, writes exactly the retrieved bytes at the
  path, makes one retrieve call, leaves the server and every other existing local entry
  unchanged, and returns normally.\<close>

theorem download_file_writes:
  assumes "parse_artifactory_uri (artifact_uri obj) = Inr (netloc, adir)"
    and "af obj \<noteq> None" and "artifactory_repo obj = Some r"
    and "cl_retrieve c r (download_path netloc adir rp) (w_remote w) = Inr b"
    and "dirname lp \<noteq> []" and "basename lp \<noteq> []" and "basename lp \<noteq> ''.''"
    and "list_all (\<lambda>q. \<not> is_lfile (w_local w) q) (prefixes (pl_parts (dirname lp)))"
    and "fs_lookup (w_local w) (pl_parts lp) \<noteq> Some LDir"
  shows "\<exists>fs'. download_file c obj rp lp w =
            (Inr (), w\<lparr>w_local := fs',
                       w_stdout := w_stdout w @ [''local_path:  '' @ lp, ''artifact_path:  '' @ download_path netloc adir rp],
                       w_calls := w_calls w @ [CRetrieve r (download_path netloc adir rp)]\<rparr>)
          \<and> fs_read fs' (pl_parts lp) = Inr b \<and> fs_is_dir fs' (pl_parts (dirname lp))
          \<and> (\<forall>k. k \<noteq> pl_parts lp \<longrightarrow> fs_lookup (w_local w) k \<noteq> None \<longrightarrow> fs_lookup fs' k = fs_lookup (w_local w) k)"
proof -
  let ?D = "pl_parts (dirname lp)" and ?K = "pl_parts lp"
  have K: "?K = ?D @ [basename lp]" using pl_parts_dirname assms(5-7) by blast
  obtain fs1 where mk: "os_makedirs (dirname lp) (w_local w) = Inr fs1"
    and dirs: "list_all (\<lambda>q. fs_lookup fs1 q = Some LDir) (prefixes ?D)"
    and keep: "\<forall>k. fs_lookup (w_local w) k \<noteq> None \<longrightarrow> fs_lookup fs1 k = fs_lookup (w_local w) k"
    and long: "\<forall>k. length ?D < length k \<longrightarrow> fs_lookup fs1 k = fs_lookup (w_local w) k"
    using os_makedirs_ok [OF assms(5,8)] by blast
  have lpne: "lp \<noteq> []" using assms(6) by (auto simp: basename_def)
  have nroot: "\<not> is_root_part (basename lp)"
  proof
    assume "is_root_part (basename lp)"
    then have "CHR ''/'' \<in> set (basename lp)" by (auto simp: is_root_part_def simp del: basename_no_slash)
    then show False by simp
  qed
  have nimp: "\<not> implicit_dir ?K" using K nroot by (cases ?D) (auto simp: implicit_dir_def)
  have notdir: "fs_lookup fs1 ?K \<noteq> Some LDir" using long assms(9) K by simp
  have bl: "butlast ?K = ?D" using K by simp
  define fs2 where "fs2 = AList.update ?K (LFile b) fs1"
  have wr: "fs_write lp b fs1 = Inr fs2"
    unfolding fs2_def using lpne basename_not_trailing [OF assms(6)] nimp dirs notdir bl
    by (intro fs_write_ok) simp_all
  have rd: "fs_read fs2 ?K = Inr b" unfolding fs2_def using fs_read_written [of fs1 ?K] dirs bl nimp by simp
  have "list_all (\<lambda>q. fs_lookup fs2 q = Some LDir) (prefixes (butlast ?K))"
    unfolding fs2_def bl using dirs_update_longer [OF dirs] K by simp
  then have dd: "fs_is_dir fs2 ?D" using dirs_butlast bl by metis
  have fr: "\<forall>k. k \<noteq> ?K \<longrightarrow> fs_lookup (w_local w) k \<noteq> None \<longrightarrow> fs_lookup fs2 k = fs_lookup (w_local w) k"
    using keep by (auto simp: fs2_def fs_lookup_update fs_lookup_implicit)
  show ?thesis
    using download_file_parsed [OF assms(1-4), of lp] mk wr rd dd fr by (intro exI [of _ fs2]) simp
qed

theorem download_file_writes_witness:
  "parse_artifactory_uri (artifact_uri demo_repo) = Inr (''host'', ''mlruns/1/artifacts'')
   \<and> af demo_repo \<noteq> None \<and> artifactory_repo demo_repo = Some ''generic-local''
   \<and> cl_retrieve store_client ''generic-local'' (download_path ''host'' ''mlruns/1/artifacts'' ''model.pkl'') (w_remote demo_world) = Inr ''0123456789''
   \<and> dirname ''out/model.pkl'' \<noteq> [] \<and> basename ''out/model.pkl'' \<noteq> [] \<and> basename ''out/model.pkl'' \<noteq> ''.''
   \<and> list_all (\<lambda>q. \<not> is_lfile (w_local demo_world) q) (prefixes (pl_parts (dirname ''out/model.pkl'')))
   \<and> fs_lookup (w_local demo_world) (pl_parts ''out/model.pkl'') \<noteq> Some LDir
   \<and> (\<exists>fs'. download_file store_client demo_repo ''model.pkl'' ''out/model.pkl'' demo_world =
            (Inr (), demo_world\<lparr>w_local := fs',
                       w_stdout := w_stdout demo_world @ [''local_path:  '' @ ''out/model.pkl'', ''artifact_path:  '' @ download_path ''host'' ''mlruns/1/artifacts'' ''model.pkl''],
                       w_calls := w_calls demo_world @ [CRetrieve ''generic-local'' (download_path ''host'' ''mlruns/1/artifacts'' ''model.pkl'')]\<rparr>)
          \<and> fs_read fs' (pl_parts ''out/model.pkl'') = Inr ''0123456789'' \<and> fs_is_dir fs' (pl_parts (dirname ''out/model.pkl''))
          \<and> (\<forall>k. k \<noteq> pl_parts ''out/model.pkl'' \<longrightarrow> fs_lookup (w_local demo_world) k \<noteq> None \<longrightarrow> fs_lookup fs' k = fs_lookup (w_local demo_world) k))"
proof -
  have a: "af demo_repo \<noteq> None" "artifactory_repo demo_repo = Some ''generic-local''"
    by (simp_all add: demo_repo_def)
  have r: "cl_retrieve store_client ''generic-local'' (download_path ''host'' ''mlruns/1/artifacts'' ''model.pkl'') (w_remote demo_world) = Inr ''0123456789''"
    by (simp add: download_path_def startswith_def endswith_def demo_world_def demo_store_def store_eval)
  have p: "dirname ''out/model.pkl'' \<noteq> []" "basename ''out/model.pkl'' \<noteq> []" "basename ''out/model.pkl'' \<noteq> ''.''"
    by (simp_all add: dirname_def basename_def)
  have f: "list_all (\<lambda>q. \<not> is_lfile (w_local demo_world) q) (prefixes (pl_parts (dirname ''out/model.pkl'')))"
    "fs_lookup (w_local demo_world) (pl_parts ''out/model.pkl'') \<noteq> Some LDir"
    by (simp_all add: dirname_def basename_def demo_world_def fs_eval)
  show ?thesis using download_file_writes [OF demo_parse a r p f] demo_parse a r p f by blast
qed

text \<open>C17. \<open>_download_file\<close> to a bare file name (no slash): \<open>os.path.dirname\<close> is the
  empty string and \<open>os.makedirs('')\<close> raises \<open>FileNotFoundError\<close> after the artifact was
  retrieved, so nothing is written.\<close>

theorem download_file_bare_name:
  assumes "parse_artifactory_uri (artifact_uri obj) = Inr (netloc, adir)"
    and "af obj \<noteq> None" and "artifactory_repo obj = Some r"
    and "cl_retrieve c r (download_path netloc adir rp) (w_remote w) = Inr b"
    and "CHR ''/'' \<notin> set lp"
  shows "download_file c obj rp lp w =
           (Inl (FileNotFoundError (''[Errno 2] No such file or directory: '' @ [CHR 0x27, CHR 0x27])),
            w\<lparr>w_stdout := w_stdout w @ [''local_path:  '' @ lp, ''artifact_path:  '' @ download_path netloc adir rp],
              w_calls := w_calls w @ [CRetrieve r (download_path netloc adir rp)]\<rparr>)"
  using download_file_parsed [OF assms(1-4), of lp] dirname_no_slash [OF assms(5)]
  by (simp add: os_makedirs_def)

theorem download_file_bare_name_witness:
  "parse_artifactory_uri (artifact_uri demo_repo) = Inr (''host'', ''mlruns/1/artifacts'')
   \<and> af demo_repo \<noteq> None \<and> artifactory_repo demo_repo = Some ''generic-local''
   \<and> cl_retrieve store_client ''generic-local'' (download_path ''host'' ''mlruns/1/artifacts'' ''model.pkl'') (w_remote demo_world) = Inr ''0123456789''
   \<and> CHR ''/'' \<notin> set ''model.pkl''
   \<and> download_file store_client demo_repo ''model.pkl'' ''model.pkl'' demo_world =
           (Inl (FileNotFoundError (''[Errno 2] No such file or directory: '' @ [CHR 0x27, CHR 0x27])),
            demo_world\<lparr>w_stdout := w_stdout demo_world @ [''local_path:  '' @ ''model.pkl'', ''artifact_path:  '' @ download_path ''host'' ''mlruns/1/artifacts'' ''model.pkl''],
              w_calls := w_calls demo_world @ [CRetrieve ''generic-local'' (download_path ''host'' ''mlruns/1/artifacts'' ''model.pkl'')]\<rparr>)"
proof -
  have a: "af demo_repo \<noteq> None" "artifactory_repo demo_repo = Some ''generic-local''"
    by (simp_all add: demo_repo_def)
  have r: "cl_retrieve store_client ''generic-local'' (download_path ''host'' ''mlruns/1/artifacts'' ''model.pkl'') (w_remote demo_world) = Inr ''0123456789''"
    by (simp add: download_path_def startswith_def endswith_def demo_world_def demo_store_def store_eval)
  have n: "CHR ''/'' \<notin> set ''model.pkl''" by simp
  show ?thesis using download_file_bare_name [OF demo_parse a r n] demo_parse a r n by blast
qed


section \<open>Calls of a directory upload\<close>

text \<open>C26. Bound on the calls of a directory upload, whatever its outcome: it only appends
  to the call log, at most one call per path of the walk, and each call is a deploy of a
  path of the walk.\<close>

theorem log_artifacts_call_bound:
  "\<exists>cs. w_calls (snd (log_artifacts c obj d ap walk w)) = w_calls w @ cs \<and> length cs \<le> length walk
        \<and> (\<forall>x\<in>set cs. \<exists>rp f dst. x = CDeploy rp f dst \<and> f \<in> set walk)"
proof (cases "parse_artifactory_uri (artifact_uri obj)")
  case (Inl e)
  then show ?thesis by (simp add: log_artifacts_def)
next
  case (Inr x)
  obtain n dd where x: "x = (n, dd)" by fastforce
  let ?w1 = "w\<lparr>w_stdout := w_stdout w @ [''artifact_dir:  '' @ upload_dir_batch n dd ap, ''local_dir:  '' @ d]\<rparr>"
  obtain cs where "w_calls (snd (log_files c obj (upload_dir_batch n dd ap) walk ?w1)) = w_calls ?w1 @ cs"
    "length cs \<le> length walk" "\<forall>x\<in>set cs. \<exists>rp f dst. x = CDeploy rp f dst \<and> f \<in> set walk"
    using log_files_calls [OF prod.collapse [symmetric]] by blast
  then show ?thesis
    unfolding log_artifacts_parsed [OF Inr [unfolded x]] by auto
qed


theorem log_artifacts_call_bound_witness:
  "\<exists>cs. w_calls (snd (log_artifacts store_client demo_repo ''data'' None demo_walk demo_world)) = w_calls demo_world @ cs
        \<and> length cs \<le> length demo_walk
        \<and> list_all (\<lambda>x. \<exists>rp f dst. x = CDeploy rp f dst \<and> f \<in> set demo_walk) cs"
  using log_artifacts_call_bound [of store_client demo_repo "''data''" None demo_walk demo_world]
  by (simp add: list_all_iff)


section \<open>Completion of a directory upload\<close>

text \<open>C32. Progress of a directory upload: when the server accepts every upload, \<open>log_artifacts\<close>
  always runs to completion and returns normally, for every walk.\<close>

theorem log_artifacts_completes:
  assumes "parse_artifactory_uri (artifact_uri obj) = Inr (netloc, udir)"
    and "af obj \<noteq> None" and "artifactory_repo obj = Some r"
    and "\<forall>b p s. \<exists>s'. cl_deploy c r b p s = Inr s'"
  shows "fst (log_artifacts c obj d ap walk w) = Inr ()"
  unfolding log_artifacts_parsed [OF assms(1)] by (rule log_files_completes [OF assms(2-4)])

theorem log_artifacts_completes_witness:
  "parse_artifactory_uri (artifact_uri demo_repo) = Inr (''host'', ''mlruns/1/artifacts'')
   \<and> af demo_repo \<noteq> None \<and> artifactory_repo demo_repo = Some ''generic-local''
   \<and> (\<forall>b p s. \<exists>s'. cl_deploy accepting_client ''generic-local'' b p s = Inr s')
   \<and> fst (log_artifacts accepting_client demo_repo ''data'' None demo_walk demo_world) = Inr ()"
proof -
  have a: "af demo_repo \<noteq> None" "artifactory_repo demo_repo = Some ''generic-local''" by (simp_all add: demo_repo_def)
  have c: "\<forall>b p s. \<exists>s'. cl_deploy accepting_client ''generic-local'' b p s = Inr s'"
    by (simp add: accepting_client_def store_client_def)
  show ?thesis using log_artifacts_completes [OF demo_parse a c] demo_parse a c by blast
qed

section \<open>A directory that is not there\<close>

text \<open>C15. \<open>log_artifacts\<close> of a local path that is not a directory (missing, or a regular
  file) returns normally after its two prints: \<open>glob\<close> yields nothing, so no deploy is
  made and no error is raised, whatever the client and the configuration.\<close>

theorem log_artifacts_missing_dir:
  assumes "parse_artifactory_uri (artifact_uri obj) = Inr (netloc, udir)"
    and "\<not> fs_is_dir (w_local w) (pl_parts d)"
    and "glob_enum (w_local w) (pl_parts d) walk"
  shows "log_artifacts c obj d ap walk w =
           (Inr (), w\<lparr>w_stdout := w_stdout w @ [''artifact_dir:  '' @ upload_dir_batch netloc udir ap, ''local_dir:  '' @ d]\<rparr>)"
proof -
  have "walk = []" using assms(2,3) by (simp add: glob_enum_def)
  then show ?thesis by (simp add: log_artifacts_parsed [OF assms(1)])
qed

theorem log_artifacts_missing_dir_witness:
  "parse_artifactory_uri (artifact_uri demo_repo) = Inr (''host'', ''mlruns/1/artifacts'')
   \<and> \<not> fs_is_dir (w_local demo_world) (pl_parts ''models'')
   \<and> glob_enum (w_local demo_world) (pl_parts ''models'') []
   \<and> log_artifacts store_client demo_repo ''models'' None [] demo_world =
       (Inr (), demo_world\<lparr>w_stdout := w_stdout demo_world @ [''artifact_dir:  '' @ upload_dir_batch ''host'' ''mlruns/1/artifacts'' None, ''local_dir:  models'']\<rparr>)"
proof -
  have nd: "\<not> fs_is_dir (w_local demo_world) (pl_parts ''models'')"
    by (simp add: demo_world_def fs_eval)
  have g: "glob_enum (w_local demo_world) (pl_parts ''models'') []"
    using nd by (simp add: glob_enum_def)
  show ?thesis using demo_parse nd g log_artifacts_missing_dir [OF demo_parse nd g] by simp
qed

end
