(* ===== verification/Configuration.thy ===== *)
theory Configuration
  imports Examples
begin

text \<open>
  The constructor \<open>__init__\<close> (lines 18--41) with neither \<open>repo_name\<close> nor \<open>api_key\<close>:
  it reads the three settings from the environment, checks them with three assertions in
  the order endpoint, key, repository, and builds the client from the endpoint and the key.
\<close>

section \<open>Construction from the environment\<close>

text \<open>C18. Once the repository setting has been read through \<open>urlparse(...).geturl()\<close>, the
  constructor succeeds exactly when the endpoint, the key and the repository name are all
  set and non-empty, and then builds the object whose client is configured with exactly that
  endpoint and key and whose repository is that name.\<close>

theorem init_repo_configured:
  assumes "env_repo_url (env ''MLFLOW_ARTIFACTORY_REPO'') = Inr name"
  shows "init_repo env uri None None = Inr obj
     \<longleftrightarrow> (\<exists>ep key. env ''MLFLOW_ARTIFACTORY_ENDPOINT_URL'' = Some ep \<and> ep \<noteq> []
              \<and> env ''MLFLOW_ARTIFACTORY_KEY'' = Some key \<and> key \<noteq> [] \<and> name \<noteq> []
              \<and> obj = \<lparr>artifact_uri = uri, artifactory_repo = Some name, api_key_attr = None,
                       artifactory_endpoint = Some ep, artifactory_api_key = Some key,
                       af = Some \<lparr>af_url = ep, af_api_key = key\<rparr>\<rparr>)"
  using assms by (auto simp: init_repo_env py_truthy_def split: option.splits)

theorem init_repo_configured_witness:
  "env_repo_url (demo_env ''MLFLOW_ARTIFACTORY_REPO'') = Inr ''generic-local''
   \<and> init_repo demo_env ''artifactory://host/mlruns/1/artifacts'' None None = Inr demo_repo"
proof -
  have "(\<exists>ep key. demo_env ''MLFLOW_ARTIFACTORY_ENDPOINT_URL'' = Some ep \<and> ep \<noteq> []
              \<and> demo_env ''MLFLOW_ARTIFACTORY_KEY'' = Some key \<and> key \<noteq> [] \<and> ''generic-local'' \<noteq> []
              \<and> demo_repo = \<lparr>artifact_uri = ''artifactory://host/mlruns/1/artifacts'', artifactory_repo = Some ''generic-local'', api_key_attr = None,
                       artifactory_endpoint = Some ep, artifactory_api_key = Some key,
                       af = Some \<lparr>af_url = ep, af_api_key = key\<rparr>\<rparr>)"
    by (simp add: demo_env_def demo_repo_def)
  then show ?thesis using init_repo_configured [where env = demo_env, OF demo_env_repo] demo_env_repo by blast
qed


text \<open>C19. A failing constructor reports the first missing setting, in the order of the
  assertions: endpoint, then key, then repository.\<close>

theorem init_repo_first_missing:
  assumes "env_repo_url (env ''MLFLOW_ARTIFACTORY_REPO'') = Inr name"
    and "init_repo env uri None None = Inl e"
  shows "e = AssertionError ''please set MLFLOW_ARTIFACTORY_ENDPOINT_URL'' \<and> \<not> py_truthy (env ''MLFLOW_ARTIFACTORY_ENDPOINT_URL'')
       \<or> e = AssertionError ''please set MLFLOW_ARTIFACTORY_KEY'' \<and> py_truthy (env ''MLFLOW_ARTIFACTORY_ENDPOINT_URL'')
           \<and> \<not> py_truthy (env ''MLFLOW_ARTIFACTORY_KEY'')
       \<or> e = AssertionError ''please set MLFLOW_ARTIFACTORY_REPO'' \<and> py_truthy (env ''MLFLOW_ARTIFACTORY_ENDPOINT_URL'')
           \<and> py_truthy (env ''MLFLOW_ARTIFACTORY_KEY'') \<and> name = []"
  using assms by (auto simp: init_repo_env split: if_splits)

theorem init_repo_first_missing_witness:
  "env_repo_url ((demo_env(''MLFLOW_ARTIFACTORY_KEY'' := None)) ''MLFLOW_ARTIFACTORY_REPO'') = Inr ''generic-local''
   \<and> init_repo (demo_env(''MLFLOW_ARTIFACTORY_KEY'' := None)) ''artifactory://host/mlruns/1/artifacts'' None None
       = Inl (AssertionError ''please set MLFLOW_ARTIFACTORY_KEY'')
   \<and> py_truthy ((demo_env(''MLFLOW_ARTIFACTORY_KEY'' := None)) ''MLFLOW_ARTIFACTORY_ENDPOINT_URL'')
   \<and> \<not> py_truthy ((demo_env(''MLFLOW_ARTIFACTORY_KEY'' := None)) ''MLFLOW_ARTIFACTORY_KEY'')"
proof -
  let ?e = "demo_env(''MLFLOW_ARTIFACTORY_KEY'' := None)"
  have r: "env_repo_url (?e ''MLFLOW_ARTIFACTORY_REPO'') = Inr ''generic-local''" using demo_env_repo by simp
  have i: "init_repo ?e ''artifactory://host/mlruns/1/artifacts'' None None = Inl (AssertionError ''please set MLFLOW_ARTIFACTORY_KEY'')"
    by (simp add: init_repo_env [where env = ?e, OF r] py_truthy_def demo_env_def)
  show ?thesis using init_repo_first_missing [where env = ?e, OF r i] r i by auto
qed

end
