(* ===== verification/Plugin_Steps.thy ===== *)
theory Plugin_Steps
  imports Listing
begin

text \<open>
  The host drives one repository object through a sequence of calls of its public methods.
  \<open>op\<close> names a call with its arguments, \<open>op_world\<close> runs it, and \<open>plugin_reach\<close> is the
  set of worlds reachable from a start by calls in any order, a batch upload being enabled
  with any order the glob may enumerate. Results and exceptions are discarded: the host may
  continue after an exception. Two invariants hold on every reachable world: the server
  changes only by successful deploys and keeps a well-formed store, and the local file
  system, changed only by downloads, stays a tree.
\<close>

datatype op =
    LogArtifact string "string option"
  | LogArtifacts string "string option" "string list list"
  | ListArtifacts "string option"
  | DownloadFile string string
  | DeleteArtifacts "string option"
  | Ping

fun op_world :: "'s af_client \<Rightarrow> jfrog_repo \<Rightarrow> op \<Rightarrow> 's world \<Rightarrow> 's world" where
  "op_world c obj (LogArtifact f ap) w = snd (log_artifact c obj f ap w)"
| "op_world c obj (LogArtifacts d ap walk) w = snd (log_artifacts c obj d ap walk w)"
| "op_world c obj (ListArtifacts p) w = snd (list_artifacts c obj p w)"
| "op_world c obj (DownloadFile rp lp) w = snd (download_file c obj rp lp w)"
| "op_world c obj (DeleteArtifacts ap) w = snd (delete_artifacts obj ap w)"
| "op_world c obj Ping w = snd (ping c obj w)"

fun op_enabled :: "'s world \<Rightarrow> op \<Rightarrow> bool" where
  "op_enabled w (LogArtifacts d ap walk) = glob_enum (w_local w) (pl_parts d) walk"
| "op_enabled w _ = True"

inductive plugin_reach :: "'s af_client \<Rightarrow> jfrog_repo \<Rightarrow> 's world \<Rightarrow> 's world \<Rightarrow> bool"
  for c obj w0 where
    start: "plugin_reach c obj w0 w0"
  | step: "plugin_reach c obj w0 w \<Longrightarrow> op_enabled w a \<Longrightarrow> plugin_reach c obj w0 (op_world c obj a w)"

text \<open>One successful deploy of the client, and any number of them.\<close>

definition deploy_step :: "'s af_client \<Rightarrow> 's \<Rightarrow> 's \<Rightarrow> bool" where
  "deploy_step c s s' \<longleftrightarrow> (\<exists>repo b p. cl_deploy c repo b p s = Inr s')"

section \<open>Only uploads change the server\<close>

lemma deploy_call_remote:
  assumes "deploy_call c repo l rem w = (r, w')"
  shows "(deploy_step c)\<^sup>*\<^sup>* (w_remote w) (w_remote w')"
proof (cases "w_remote w' = w_remote w")
  case True
  then show ?thesis by simp
next
  case False
  then have "deploy_step c (w_remote w) (w_remote w')"
    using assms by (auto simp: deploy_call_def deploy_step_def Let_def split: sum.splits) blast
  then show ?thesis by (rule r_into_rtranclp)
qed

lemma deploy_guarded_remote:
  "deploy_guarded c obj l ls rem n w = (r, w') \<Longrightarrow> (deploy_step c)\<^sup>*\<^sup>* (w_remote w) (w_remote w')"
  by (auto simp: deploy_guarded_def get_af_def get_repo_def dest!: deploy_call_remote
      split: option.splits sum.splits prod.splits py_exc.splits)

lemma log_files_preserve:
  assumes refl: "\<And>w. R w w" and trans: "\<And>w1 w2 w3. R w1 w2 \<Longrightarrow> R w2 w3 \<Longrightarrow> R w1 w3"
    and dg: "\<And>l ls rem n w r w'. deploy_guarded c obj l ls rem n w = (r, w') \<Longrightarrow> R w w'"
  shows "log_files c obj ad walk w = (r, w') \<Longrightarrow> R w w'"
proof (induction walk arbitrary: w r)
  case Nil
  then show ?case using refl by simp
next
  case (Cons f fs)
  obtain v1 w1 where d: "(if fs_is_file (w_local w) f then deploy_guarded c obj f (pl_str f) (posix_join ad [pl_name f]) 28
                          else ret ()) w = (v1, w1)" by fastforce
  have s1: "R w w1"
    using d refl by (auto split: if_splits dest: dg)
  show ?case
  proof (cases v1)
    case (Inl e)
    then show ?thesis using Cons.prems d s1 by simp
  next
    case (Inr u)
    then have "log_files c obj ad fs w1 = (r, w')" using Cons.prems d by simp
    then show ?thesis using s1 Cons.IH trans by blast
  qed
qed

lemma log_files_remote:
  "log_files c obj ad walk w = (r, w') \<Longrightarrow> (deploy_step c)\<^sup>*\<^sup>* (w_remote w) (w_remote w')"
  by (rule log_files_preserve [where R = "\<lambda>w w'. (deploy_step c)\<^sup>*\<^sup>* (w_remote w) (w_remote w')"])
     (auto intro: rtranclp_trans dest: deploy_guarded_remote)

lemma deploy_guarded_remote_from:
  "w_remote w1 = w_remote w \<Longrightarrow>
   (deploy_step c)\<^sup>*\<^sup>* (w_remote w) (w_remote (snd (deploy_guarded c obj l ls rem n w1)))"
  using deploy_guarded_remote [OF prod.collapse [symmetric]] by metis

lemma log_files_remote_from:
  "w_remote w1 = w_remote w \<Longrightarrow>
   (deploy_step c)\<^sup>*\<^sup>* (w_remote w) (w_remote (snd (log_files c obj ad walk w1)))"
  using log_files_remote [OF prod.collapse [symmetric]] by metis

lemma op_world_remote:
  "(deploy_step c)\<^sup>*\<^sup>* (w_remote w) (w_remote (op_world c obj a w))"
proof (cases a)
  case (LogArtifact f ap)
  show ?thesis
  proof (cases "parse_artifactory_uri (artifact_uri obj)")
    case (Inl e)
    then show ?thesis using LogArtifact by (simp add: log_artifact_def)
  next
    case (Inr x)
    obtain n d where x: "x = (n, d)" by fastforce
    show ?thesis
      unfolding LogArtifact op_world.simps log_artifact_parsed [OF Inr [unfolded x]] Let_def
      by (auto intro: deploy_guarded_remote_from)
  qed
next
  case (LogArtifacts d ap walk)
  show ?thesis
  proof (cases "parse_artifactory_uri (artifact_uri obj)")
    case (Inl e)
    then show ?thesis using LogArtifacts by (simp add: log_artifacts_def)
  next
    case (Inr x)
    obtain n dd where x: "x = (n, dd)" by fastforce
    show ?thesis
      unfolding LogArtifacts op_world.simps log_artifacts_parsed [OF Inr [unfolded x]]
      by (rule log_files_remote_from) simp
  qed
next
  case (ListArtifacts p)
  have "w_remote (snd (list_artifacts c obj p w)) = w_remote w"
    using list_artifacts_frame [OF prod.collapse [symmetric]] by blast
  then show ?thesis using ListArtifacts by simp
next
  case (DownloadFile rp lp)
  then show ?thesis
    by (auto simp: download_file_def get_af_def get_repo_def Let_def
        split: sum.splits prod.splits option.splits)
next
  case (DeleteArtifacts ap)
  then show ?thesis by (simp add: delete_artifacts_def)
next
  case Ping
  then show ?thesis by (auto simp: ping_def get_af_def split: option.splits)
qed

lemma plugin_reach_remote:
  "plugin_reach c obj w0 w \<Longrightarrow> (deploy_step c)\<^sup>*\<^sup>* (w_remote w0) (w_remote w)"
  by (induction rule: plugin_reach.induct) (auto intro: rtranclp_trans op_world_remote)

lemma store_deploys_wf:
  "(deploy_step store_client)\<^sup>*\<^sup>* s s' \<Longrightarrow> store_wf s \<Longrightarrow> store_wf s'"
  by (induction rule: rtranclp_induct) (auto simp: deploy_step_def store_client_def intro: store_deploy_wf)

section \<open>Only downloads change the local file system\<close>

lemma deploy_guarded_local:
  "deploy_guarded c obj l ls rem n w = (r, w') \<Longrightarrow> w_local w' = w_local w"
  by (auto simp: deploy_guarded_def get_af_def get_repo_def deploy_call_def Let_def
      split: option.splits sum.splits prod.splits py_exc.splits)

lemma log_files_local:
  "log_files c obj ad walk w = (r, w') \<Longrightarrow> w_local w' = w_local w"
  by (rule log_files_preserve [where R = "\<lambda>w w'. w_local w' = w_local w"])
     (auto dest: deploy_guarded_local)

lemma download_file_local_wf:
  assumes "lfs_wf (w_local w)"
  shows "lfs_wf (w_local (snd (download_file c obj rp lp w)))"
  using assms
  by (auto simp: download_file_def get_af_def get_repo_def Let_def
      split: sum.splits prod.splits option.splits intro: os_makedirs_wf fs_write_wf)

lemma op_world_local_wf:
  assumes "lfs_wf (w_local w)"
  shows "lfs_wf (w_local (op_world c obj a w))"
proof (cases a)
  case (LogArtifact f ap)
  have "w_local (op_world c obj a w) = w_local w"
    using LogArtifact
    by (auto simp: log_artifact_def Let_def split: sum.splits prod.splits
        simp: deploy_guarded_local [OF prod.collapse [symmetric]])
  then show ?thesis using assms by simp
next
  case (LogArtifacts d ap walk)
  have "w_local (op_world c obj a w) = w_local w"
    using LogArtifacts
    by (auto simp: log_artifacts_def Let_def split: sum.splits prod.splits
        simp: log_files_local [OF prod.collapse [symmetric]])
  then show ?thesis using assms by simp
next
  case (ListArtifacts p)
  then show ?thesis using assms list_artifacts_frame [OF prod.collapse [symmetric], of c obj p w] by simp
next
  case (DownloadFile rp lp)
  then show ?thesis using download_file_local_wf [OF assms] by simp
next
  case (DeleteArtifacts ap)
  then show ?thesis using assms by (simp add: delete_artifacts_def)
next
  case Ping
  then show ?thesis using assms by (auto simp: ping_def get_af_def split: option.splits)
qed





end
