(* ===== verification/Packaging.thy ===== *)
theory Packaging
  imports Url_Parse Py_Lib
begin

text \<open>
  src/setup.py registers the class as MLflow's artifact repository for one URI scheme
  (lines 23--26): the entry point \<open>name=module:attr\<close> of the group
  \<open>mlflow.artifact_repository\<close>. \<open>parse_entry_point\<close> splits it as setuptools does (name
  before the first \<open>=\<close>, then module and attribute around \<open>:\<close>, each stripped).
  \<open>mlflow_dispatch\<close> is the host's side, MLflow's registry: the scheme of
  \<open>urlparse(uri)\<close> selects the entry point of that name. \<open>setup_py\<close> is the module
  body (lines 3--28): it reads README.md and the first line of version.txt and passes them
  with the metadata to \<open>setup()\<close>; the version it passes is the file's first line,
  stripped, whatever line ends the file uses.
\<close>

definition setup_entry_points :: "(string \<times> string) list" where
  "setup_entry_points =
     [(''mlflow.artifact_repository'',
       ''artifactory=jfrogartifactoryplugin.store.artifact.jfrog_artifact_repository:JFrogArtifactRepository'')]"

definition parse_entry_point :: "string \<Rightarrow> (string \<times> string \<times> string) option" where
  "parse_entry_point s =
     (if CHR ''='' \<notin> set s then None
      else (let (n, v) = split_first CHR ''='' s; v = py_strip v
            in if CHR '':'' \<in> set v
               then (let (m, a) = split_first CHR '':'' v in Some (py_strip n, py_strip m, py_strip a))
               else Some (py_strip n, v, [])))"

definition mlflow_dispatch :: "(string \<times> string) list \<Rightarrow> string \<Rightarrow> (string \<times> string) option" where
  "mlflow_dispatch eps uri =
     (case urlparse uri of
        Inl e \<Rightarrow> None
      | Inr r \<Rightarrow>
          (case map_of eps ''mlflow.artifact_repository'' of
             None \<Rightarrow> None
           | Some spec \<Rightarrow>
               (case parse_entry_point spec of
                  Some (n, m, a) \<Rightarrow> if n = pr_scheme r then Some (m, a) else None
                | None \<Rightarrow> None)))"

text \<open>\<open>open(name)\<close> in text mode, read whole (lines 3--4) or by \<open>readline()\<close>
  (lines 6--7): a missing file raises \<open>FileNotFoundError\<close>; universal newlines translate
  CR LF and a lone CR to LF, and \<open>readline()\<close> returns the
  characters up to and including the first LF. The files of the source tree are a
  map from names to their decoded contents.\<close>

fun univ_newlines :: "string \<Rightarrow> string" where
  "univ_newlines [] = []"
| "univ_newlines [c] = [if c = CHR 0x0D then CHR 0x0A else c]"
| "univ_newlines (c # d # cs) =
     (if c = CHR 0x0D \<and> d = CHR 0x0A then CHR 0x0A # univ_newlines cs
      else (if c = CHR 0x0D then CHR 0x0A else c) # univ_newlines (d # cs))"

fun py_readline :: "string \<Rightarrow> string" where
  "py_readline [] = []"
| "py_readline (c # cs) = (if c = CHR 0x0A then [c] else c # py_readline cs)"

definition py_open_read :: "(string \<Rightarrow> string option) \<Rightarrow> string \<Rightarrow> string py" where
  "py_open_read files name =
     (case files name of
        None \<Rightarrow> Inl (FileNotFoundError (''[Errno 2] No such file or directory: '' @ [CHR 0x27] @ name @ [CHR 0x27]))
      | Some content \<Rightarrow> Inr (univ_newlines content))"

text \<open>The keyword arguments of \<open>setup()\<close> (lines 10--28) as a record, and the module
  body of setup.py: read README.md, then the first line of version.txt stripped, then
  call \<open>setup\<close>. \<open>find_packages()\<close> walks the source tree and is a parameter.\<close>

record setup_kwargs =
  sk_name :: string
  sk_version :: string
  sk_description :: string
  sk_long_description :: string
  sk_long_description_content_type :: string
  sk_author :: string
  sk_author_email :: string
  sk_url :: string
  sk_install_requires :: "string list"
  sk_packages :: "string list"
  sk_entry_points :: "(string \<times> string) list"
  sk_license :: string

definition setup_py :: "(string \<Rightarrow> string option) \<Rightarrow> string list \<Rightarrow> setup_kwargs py" where
  "setup_py files found_packages =
     (case py_open_read files ''README.md'' of
        Inl e \<Rightarrow> Inl e
      | Inr long_description \<Rightarrow>
          (case py_open_read files ''version.txt'' of
             Inl e \<Rightarrow> Inl e
           | Inr text \<Rightarrow>
               Inr \<lparr>sk_name = ''mlflow-artifactory-plugin-jfrog'',
                    sk_version = py_strip (py_readline text),
                    sk_description = ''Plugin that provides JFrog Artifactory Artifact Store functionality for MLflow'',
                    sk_long_description = long_description,
                    sk_long_description_content_type = ''text/markdown'',
                    sk_author = ''Manoj Kumar R'',
                    sk_author_email = ''manojrammurthy@gmail.com'',
                    sk_url = ''https://github.com/manojramamurthy/mlflow-artifactory-plugin-jfrog'',
                    sk_install_requires = [''mlflow==2.4.1'', ''rtpy==1.4.9''],
                    sk_packages = found_packages,
                    sk_entry_points = setup_entry_points,
                    sk_license = ''Apache License 2.0''\<rparr>))"

text \<open>A version string that setup.py reads back as written: a single line with no
  surrounding white space.\<close>

definition version_ok :: "string \<Rightarrow> bool" where
  "version_ok v \<longleftrightarrow> py_strip v = v \<and> CHR 0x0A \<notin> set v \<and> CHR 0x0D \<notin> set v"

text \<open>A source tree with both files, version.txt written with DOS line ends.\<close>

definition demo_files :: "string \<Rightarrow> string option" where
  "demo_files n = (if n = ''README.md'' then Some ''# Plugin''
                   else if n = ''version.txt'' then Some (''1.0.2'' @ [CHR 0x0D, CHR 0x0A] @ ''next'') else None)"

section \<open>The registered scheme is the resolver's scheme\<close>

lemma setup_entry_point_parsed:
  "parse_entry_point (snd (hd setup_entry_points)) =
     Some (''artifactory'', ''jfrogartifactoryplugin.store.artifact.jfrog_artifact_repository'', ''JFrogArtifactRepository'')"
  by (simp add: parse_entry_point_def setup_entry_points_def split_first_def py_strip_def py_space_def)



section \<open>Reading the version\<close>

lemma univ_newlines_Cons: "c \<noteq> CHR 0x0D \<Longrightarrow> univ_newlines (c # xs) = c # univ_newlines xs"
  by (cases xs) auto

lemma univ_newlines_plain: "CHR 0x0D \<notin> set v \<Longrightarrow> univ_newlines (v @ w) = v @ univ_newlines w"
  by (induction v) (auto simp: univ_newlines_Cons)

lemma py_readline_plain: "CHR 0x0A \<notin> set v \<Longrightarrow> py_readline (v @ w) = v @ py_readline w"
  by (induction v) auto

lemma py_strip_snoc_space:
  assumes "py_space c"
  shows "py_strip (s @ [c]) = py_strip s"
proof (cases "\<forall>x\<in>set s. py_space x")
  case True
  then have "dropWhile py_space s = []" "dropWhile py_space (s @ [c]) = []"
    using assms by (simp_all add: dropWhile_eq_Nil_conv)
  then show ?thesis by (simp only: py_strip_def rev.simps dropWhile.simps)
qed (auto simp: py_strip_def dropWhile_append assms)

lemma univ_newlines_sep:
  "sep \<in> {[CHR 0x0A], [CHR 0x0D], [CHR 0x0D, CHR 0x0A]} \<Longrightarrow> \<exists>r. univ_newlines (sep @ rest) = CHR 0x0A # r"
  by (cases rest) auto

text \<open>C28. Round trip of the version: when version.txt holds a version string (one line,
  no surrounding white space) followed by a line end of any convention (LF,
  CR LF or CR) and anything else, or by nothing, setup.py runs and
  passes exactly that string as \<open>version\<close>, with README.md as the long description
  and the plugin's entry point.\<close>

theorem setup_py_version:
  assumes "files ''README.md'' = Some readme" and "files ''version.txt'' = Some (v @ sep @ rest)"
    and "version_ok v" and "sep \<in> {[], [CHR 0x0A], [CHR 0x0D], [CHR 0x0D, CHR 0x0A]}"
    and "sep = [] \<longrightarrow> rest = []"
  shows "\<exists>k. setup_py files pkgs = Inr k \<and> sk_version k = v \<and> sk_long_description k = univ_newlines readme
             \<and> sk_entry_points k = setup_entry_points"
proof -
  have ok: "py_strip v = v" "CHR 0x0A \<notin> set v" "CHR 0x0D \<notin> set v" using assms(3) by (simp_all add: version_ok_def)
  have "py_strip (py_readline (univ_newlines (v @ sep @ rest))) = v"
  proof (cases "sep = []")
    case True
    then show ?thesis using assms(5) ok univ_newlines_plain [of v "[]"] py_readline_plain [of v "[]"] by simp
  next
    case False
    then obtain r where "univ_newlines (sep @ rest) = CHR 0x0A # r" using univ_newlines_sep assms(4) by blast
    then show ?thesis using ok by (simp add: univ_newlines_plain py_readline_plain py_strip_snoc_space py_space_def)
  qed
  then show ?thesis using assms(1,2) by (simp add: setup_py_def py_open_read_def)
qed

theorem setup_py_version_witness:
  "demo_files ''README.md'' = Some ''# Plugin''
   \<and> demo_files ''version.txt'' = Some (''1.0.2'' @ [CHR 0x0D, CHR 0x0A] @ ''next'')
   \<and> version_ok ''1.0.2''
   \<and> [CHR 0x0D, CHR 0x0A] \<in> {[], [CHR 0x0A], [CHR 0x0D], [CHR 0x0D, CHR 0x0A]}
   \<and> (\<exists>k. setup_py demo_files [''jfrogartifactoryplugin''] = Inr k \<and> sk_version k = ''1.0.2''
          \<and> sk_long_description k = univ_newlines ''# Plugin'' \<and> sk_entry_points k = setup_entry_points)"
proof -
  have h: "demo_files ''README.md'' = Some ''# Plugin''"
    "demo_files ''version.txt'' = Some (''1.0.2'' @ [CHR 0x0D, CHR 0x0A] @ ''next'')"
    "version_ok ''1.0.2''"
    by (simp_all add: demo_files_def version_ok_def py_strip_def py_space_def)
  show ?thesis using setup_py_version [OF h, of "[''jfrogartifactoryplugin'']"] h by simp
qed

lemma univ_newlines_no_cr: "CHR 0x0D \<notin> set (univ_newlines s)"
  by (induction s rule: univ_newlines.induct) auto

lemma py_readline_cases:
  "\<exists>u. CHR 0x0A \<notin> set u \<and> set u \<subseteq> set s \<and> (py_readline s = u \<or> py_readline s = u @ [CHR 0x0A])"
proof (induction s)
  case (Cons c cs)
  then obtain u where u: "CHR 0x0A \<notin> set u" "set u \<subseteq> set cs"
    "py_readline cs = u \<or> py_readline cs = u @ [CHR 0x0A]" by blast
  show ?case
  proof (cases "c = CHR 0x0A")
    case True
    then show ?thesis by (intro exI [of _ "[]"]) simp
  next
    case False
    then show ?thesis using u by (intro exI [of _ "c # u"]) auto
  qed
qed simp

lemma py_strip_subset: "set (py_strip s) \<subseteq> set s"
  by (auto simp: py_strip_def dest!: set_dropWhileD)

lemma py_strip_fixed:
  assumes "s \<noteq> [] \<Longrightarrow> \<not> py_space (hd s) \<and> \<not> py_space (last s)"
  shows "py_strip s = s"
proof (cases "s = []")
  case False
  have "dropWhile py_space s = s" using assms False by (cases s) auto
  moreover obtain a l where ra: "rev s = a # l" using False by (cases "rev s") auto
  then have "a = last s" by (metis hd_rev list.sel(1))
  then have "\<not> py_space a" using assms False by simp
  then have "dropWhile py_space (rev s) = rev s" unfolding ra by simp
  ultimately show ?thesis by (simp add: py_strip_def)
qed (simp add: py_strip_def)

lemma py_strip_ends:
  "py_strip s \<noteq> [] \<Longrightarrow> \<not> py_space (hd (py_strip s)) \<and> \<not> py_space (last (py_strip s))"
proof -
  assume ne: "py_strip s \<noteq> []"
  define t where "t = dropWhile py_space s"
  define u where "u = dropWhile py_space (rev t)"
  have ps: "py_strip s = rev u" by (simp add: py_strip_def t_def u_def)
  have une: "u \<noteq> []" using ne ps by simp
  then have tne: "t \<noteq> []" by (auto simp: u_def)
  have "\<not> py_space (hd u)" using une unfolding u_def by (rule hd_dropWhile)
  moreover have "rev t = takeWhile py_space (rev t) @ u" by (simp add: u_def)
  then have "last u = last (rev t)" using une by (metis last_appendR)
  then have "last u = hd t" using tne by (simp add: last_rev)
  moreover have "\<not> py_space (hd t)" using tne unfolding t_def by (rule hd_dropWhile)
  ultimately show ?thesis using ps une by (simp add: hd_rev last_rev)
qed

lemma py_strip_idem: "py_strip (py_strip s) = py_strip s"
  using py_strip_ends by (rule py_strip_fixed)

text \<open>C29. Whatever version.txt and README.md hold, the version setup.py passes is one
  line with no surrounding white space.\<close>

theorem setup_py_version_line:
  assumes "setup_py files pkgs = Inr k"
  shows "version_ok (sk_version k)"
proof -
  obtain t where v: "sk_version k = py_strip (py_readline (univ_newlines t))"
    using assms by (auto simp: setup_py_def py_open_read_def split: option.splits)
  obtain u where u: "CHR 0x0A \<notin> set u" "set u \<subseteq> set (univ_newlines t)"
    and r: "py_readline (univ_newlines t) = u \<or> py_readline (univ_newlines t) = u @ [CHR 0x0A]"
    using py_readline_cases by blast
  have su: "sk_version k = py_strip u"
    using r v py_strip_snoc_space [of "CHR 0x0A" u] by (auto simp: py_space_def)
  have "CHR 0x0D \<notin> set u" using u(2) univ_newlines_no_cr by blast
  then show ?thesis
    using su u(1) py_strip_subset [of u] py_strip_idem [of u] by (auto simp: version_ok_def)
qed

theorem setup_py_version_line_witness:
  "\<exists>k. setup_py demo_files [] = Inr k \<and> version_ok (sk_version k)"
proof -
  have "\<exists>k. setup_py demo_files [] = Inr k" by (simp add: setup_py_def py_open_read_def demo_files_def)
  then obtain k where k: "setup_py demo_files [] = Inr k" by blast
  show ?thesis using k setup_py_version_line [OF k] by blast
qed

end
