(* ===== verification/Os_Makedirs.thy ===== *)
theory Os_Makedirs
  imports Local_FS
begin

text \<open>
  CPython's \<open>os.makedirs\<close>, which \<open>_download_file\<close> calls with \<open>exist_ok=True\<close>
  (jfrog_artifact_repository.py line 153), modelled as the library writes it: a recursion on
  \<open>posixpath.split\<close>'s head, with \<open>os.path.exists\<close>, \<open>os.mkdir\<close> and
  \<open>os.path.isdir\<close> over the file system of Local_FS. The recursion is not structural: it
  terminates because the head is strictly shorter than the name (\<open>py_makedirs_terminates\<close>).
  On a file system that is a tree and a path in pathlib's normal form
  (\<open>str(Path(name)) == name\<close>), it has the effect and the exception of Local_FS.os_makedirs,
  the top-down model the download uses (\<open>py_makedirs_refines\<close>).
\<close>

text \<open>\<open>posixpath.split(p)\<close>: the head (as \<open>dirname\<close>) and the tail (as \<open>basename\<close>).\<close>

definition posix_split :: "string \<Rightarrow> string \<times> string" where
  "posix_split p = (dirname p, basename p)"

text \<open>The path names a directory syntactically: its last \<open>/\<close>-separated segment is empty or \<open>.\<close>, so \<open>stat\<close> of a regular file there fails with \<open>ENOTDIR\<close>.\<close>

definition dir_marker :: "string \<Rightarrow> bool" where
  "dir_marker p \<longleftrightarrow> last (split_on CHR ''/'' p) = [] \<or> last (split_on CHR ''/'' p) = ''.''"

text \<open>\<open>os.path.exists(p)\<close>: \<open>stat\<close> succeeds. Every proper prefix must be a directory, the path must be there, and a regular file must not be named with a trailing \<open>/\<close> or \<open>/.\<close>.\<close>

definition fs_exists :: "lfs \<Rightarrow> string \<Rightarrow> bool" where
  "fs_exists fs p \<longleftrightarrow> p \<noteq> []
     \<and> list_all (\<lambda>q. fs_lookup fs q = Some LDir) (prefixes (butlast (pl_parts p)))
     \<and> (case fs_lookup fs (pl_parts p) of
          None \<Rightarrow> False
        | Some LDir \<Rightarrow> True
        | Some (LFile _) \<Rightarrow> \<not> dir_marker p)"

text \<open>\<open>os.path.isdir(p)\<close>: \<open>stat\<close> succeeds and reports a directory.\<close>

definition py_isdir :: "lfs \<Rightarrow> string \<Rightarrow> bool" where
  "py_isdir fs p \<longleftrightarrow> p \<noteq> []
     \<and> list_all (\<lambda>q. fs_lookup fs q = Some LDir) (prefixes (butlast (pl_parts p)))
     \<and> fs_lookup fs (pl_parts p) = Some LDir"

text \<open>\<open>os.mkdir(name)\<close>: the path walk fails at the first proper prefix that is missing (\<open>ENOENT\<close>) or a regular file (\<open>ENOTDIR\<close>); then an existing entry gives \<open>EEXIST\<close>; a last component \<open>.\<close> of a missing directory gives \<open>ENOENT\<close>. The exception carries the name as passed; \<open>mkdir('')\<close> gives the message of Local_FS.os_makedirs.\<close>

definition py_mkdir :: "string \<Rightarrow> lfs \<Rightarrow> lfs py" where
  "py_mkdir name fs =
     (let k = pl_parts name in
      if name = [] then Inl (FileNotFoundError (''[Errno 2] No such file or directory: '' @ [CHR 0x27, CHR 0x27]))
      else case find (\<lambda>q. fs_lookup fs q \<noteq> Some LDir) (prefixes (butlast k)) of
             Some q \<Rightarrow> if fs_lookup fs q = None then Inl (FileNotFoundError name)
                       else Inl (NotADirectoryError name)
           | None \<Rightarrow> if fs_lookup fs k \<noteq> None then Inl (FileExistsError name)
                     else if last (split_on CHR ''/'' name) = ''.'' then Inl (FileNotFoundError name)
                     else Inr (AList.update k LDir fs))"

text \<open>The \<open>try: mkdir(name) except OSError: if not exist_ok or not path.isdir(name): raise\<close> at the end of \<open>makedirs\<close>.\<close>

definition mkdir_exist_ok :: "string \<Rightarrow> bool \<Rightarrow> (lfs, unit) act" where
  "mkdir_exist_ok name exist_ok fs =
     (case py_mkdir name fs of
        Inr fs' \<Rightarrow> (Inr (), fs')
      | Inl e \<Rightarrow> if \<not> exist_ok \<or> \<not> py_isdir fs name then (Inl e, fs) else (Inr (), fs))"

text \<open>\<open>head, tail = path.split(name); if not tail: head, tail = path.split(head)\<close>.\<close>

definition makedirs_split :: "string \<Rightarrow> string \<times> string" where
  "makedirs_split name =
     (let (head, tail) = posix_split name in if tail = [] then posix_split head else (head, tail))"

text \<open>After the parent: \<open>if tail == curdir: return\<close>, else the guarded \<open>mkdir\<close>.\<close>

definition makedirs_leaf :: "string \<Rightarrow> string \<Rightarrow> bool \<Rightarrow> (lfs, unit) act" where
  "makedirs_leaf name tail exist_ok = (if tail = ''.'' then ret () else mkdir_exist_ok name exist_ok)"

text \<open>\<open>os.makedirs(name, exist_ok)\<close> as CPython 3.12 writes it (Lib/os.py): create the parent first when it does not exist, ignoring a \<open>FileExistsError\<close> from it, then the leaf. The state is threaded as an action, so directories created before an exception stay created.\<close>

function (domintros) py_makedirs :: "string \<Rightarrow> bool \<Rightarrow> (lfs, unit) act" where
  "py_makedirs name exist_ok fs =
     (case makedirs_split name of
        (head, tail) \<Rightarrow>
          if head \<noteq> [] \<and> tail \<noteq> [] \<and> \<not> fs_exists fs head then
            (case py_makedirs head exist_ok fs of
               (Inl e, fs1) \<Rightarrow>
                 (case e of FileExistsError _ \<Rightarrow> makedirs_leaf name tail exist_ok fs1 | _ \<Rightarrow> (Inl e, fs1))
             | (Inr _, fs1) \<Rightarrow> makedirs_leaf name tail exist_ok fs1)
          else mkdir_exist_ok name exist_ok fs)"
  by pat_completeness auto

section \<open>Termination\<close>

text \<open>The recursive call is on \<open>split\<close>'s head, which is shorter than the name whenever
  the tail is not empty: the measure is the length of the name.\<close>

lemma basename_length: "length (basename p) \<le> length p"
  by (metis basename_def length_rev length_takeWhile_le)

lemma dirname_length: "length (dirname p) \<le> length p - length (basename p)"
proof -
  let ?h = "take (length p - length (basename p)) p"
  have "length ?h = length p - length (basename p)" by simp
  moreover have "length (rev (dropWhile (\<lambda>c. c = CHR ''/'') (rev ?h))) \<le> length ?h"
    by (metis length_dropWhile_le length_rev)
  ultimately show ?thesis by (auto simp: dirname_def Let_def)
qed

lemma dirname_shorter: "basename p \<noteq> [] \<Longrightarrow> length (dirname p) < length p"
  using dirname_length [of p] basename_length [of p] by (cases "basename p") auto

lemma makedirs_split_shorter:
  assumes "(head, tail) = makedirs_split name" and "tail \<noteq> []"
  shows "length head < length name"
proof (cases "basename name = []")
  case True
  then have "head = dirname (dirname name)" "basename (dirname name) \<noteq> []"
    using assms by (simp_all add: makedirs_split_def posix_split_def)
  then have "length head < length (dirname name)" using dirname_shorter by blast
  then show ?thesis using dirname_length [of name] by simp
next
  case False
  then have "head = dirname name" using assms by (simp add: makedirs_split_def posix_split_def)
  then show ?thesis using dirname_shorter [OF False] by simp
qed

termination py_makedirs
  by (relation "measure (\<lambda>(name, exist_ok, fs). length name)")
     (auto dest: makedirs_split_shorter)

declare py_makedirs.simps [simp del]


section \<open>Paths in pathlib's normal form\<close>

text \<open>For a path whose string is \<open>str\<close> of its pathlib parts, \<open>split\<close> returns the
  string of all parts but the last and the last part, and the head is again in normal form.\<close>

lemma join_on_snoc: "xs \<noteq> [] \<Longrightarrow> join_on c (xs @ [y]) = join_on c xs @ c # y"
proof (induction xs)
  case (Cons x xs)
  then show ?case by (cases "xs = []") (simp_all add: join_on_Cons)
qed simp

lemma pl_str_snoc:
  assumes "ks \<noteq> []"
  shows "pl_str (ks @ [c]) =
           (if ks = [hd ks] \<and> is_root_part (hd ks) then hd ks @ c else pl_str ks @ CHR ''/'' # c)"
proof (cases ks)
  case (Cons r rest)
  show ?thesis
  proof (cases "is_root_part r")
    case True
    then show ?thesis using Cons by (cases "rest = []") (simp_all add: pl_str_def join_on_snoc)
  next
    case False
    then show ?thesis using Cons join_on_snoc [of "r # rest" "CHR ''/''" c] by (simp add: pl_str_def)
  qed
qed (simp add: assms)

lemma dirname_snoc_slash:
  assumes "CHR ''/'' \<notin> set c" "X \<noteq> []" "last X \<noteq> CHR ''/''"
  shows "dirname (X @ CHR ''/'' # c) = X"
proof -
  have b: "basename (X @ CHR ''/'' # c) = c" using assms(1) by (simp add: basename_plain)
  have h: "take (length (X @ CHR ''/'' # c) - length c) (X @ CHR ''/'' # c) = X @ [CHR ''/'']" by simp
  have ne: "\<exists>ch\<in>set (X @ [CHR ''/'']). ch \<noteq> CHR ''/''" using assms(2,3) last_in_set by auto
  obtain x xs where rx: "rev X = x # xs" "x \<noteq> CHR ''/''"
    using assms(2,3) by (cases "rev X") (auto simp: last_rev [symmetric])
  have "dropWhile (\<lambda>ch. ch = CHR ''/'') (rev (X @ [CHR ''/''])) = rev X" using rx by simp
  then show ?thesis using b h ne by (simp add: dirname_def Let_def)
qed

lemma dirname_root:
  assumes "is_root_part r" "CHR ''/'' \<notin> set c"
  shows "dirname (r @ c) = r"
  using assms by (auto simp: is_root_part_def dirname_def basename_plain)

lemma last_split_on_snoc: "CHR ''/'' \<notin> set c \<Longrightarrow> last (split_on CHR ''/'' (X @ CHR ''/'' # c)) = c"
  by (simp add: split_on_append_sep_gen split_on_no_sep)

lemma pl_splitroot_root: "pl_splitroot s = (root, rel) \<Longrightarrow> root = [] \<or> is_root_part root"
  by (auto simp: pl_splitroot_def Let_def is_root_part_def split: if_splits)

lemma pl_parts_seg:
  assumes "x \<in> set (pl_parts s)" "\<not> is_root_part x"
  shows "x \<noteq> [] \<and> x \<noteq> ''.'' \<and> CHR ''/'' \<notin> set x"
proof -
  obtain root rel where sr: "pl_splitroot s = (root, rel)" by fastforce
  then have "x \<in> set (filter (\<lambda>x. x \<noteq> [] \<and> x \<noteq> ''.'') (split_on CHR ''/'' rel))"
    using assms pl_splitroot_root [OF sr] by (auto simp: pl_parts_def split: if_splits)
  then show ?thesis using split_on_pieces by auto
qed

lemma pl_parts_not_root:
  assumes "pl_parts s = a @ x # b" "a \<noteq> []"
  shows "\<not> is_root_part x"
proof -
  obtain root rel where sr: "pl_splitroot s = (root, rel)" by fastforce
  let ?segs = "filter (\<lambda>x. x \<noteq> [] \<and> x \<noteq> ''.'') (split_on CHR ''/'' rel)"
  have p: "a @ x # b = (if root = [] then [] else [root]) @ ?segs"
    using assms(1) sr by (simp add: pl_parts_def)
  have "x \<in> set ?segs"
  proof (cases "root = []")
    case True
    with p have "?segs = a @ x # b" by simp
    then show ?thesis by simp
  next
    case False
    then obtain a' where "a = root # a'" "?segs = a' @ x # b" using p assms(2) by (cases a) auto
    then show ?thesis by simp
  qed
  then have "CHR ''/'' \<notin> set x" using split_on_pieces by auto
  then show ?thesis by (auto simp: is_root_part_def)
qed

lemma pl_str_last:
  assumes "pl_parts s = ks @ [c] @ rest" "CHR ''/'' \<notin> set c" "c \<noteq> []" "\<not> is_root_part c"
  shows "pl_str (ks @ [c]) \<noteq> [] \<and> last (pl_str (ks @ [c])) \<noteq> CHR ''/''"
proof -
  have lc: "last c \<noteq> CHR ''/''" using assms(2,3) last_in_set by metis
  show ?thesis
  proof (cases "ks = []")
    case True
    then show ?thesis using assms(3,4) lc by (simp add: pl_str_def)
  next
    case False
    then show ?thesis using lc assms(3) by (simp add: pl_str_snoc)
  qed
qed

lemma normal_snoc:
  assumes n: "pl_str (pl_parts name) = name" and k: "pl_parts name = ks @ [c]" and nr: "\<not> is_root_part c"
  shows "basename name = c \<and> dirname name = (if ks = [] then [] else pl_str ks)
         \<and> last (split_on CHR ''/'' name) = c \<and> c \<noteq> [] \<and> c \<noteq> ''.'' \<and> CHR ''/'' \<notin> set c
         \<and> (ks \<noteq> [] \<longrightarrow> pl_str ks \<noteq> [])"
proof -
  have seg: "c \<noteq> []" "c \<noteq> ''.''" "CHR ''/'' \<notin> set c"
    using pl_parts_seg [of c name] k nr by auto
  have nm: "name = pl_str (ks @ [c])" using n k by simp
  consider (nil) "ks = []" | (root) r where "ks = [r]" "is_root_part r"
    | (other) "ks \<noteq> []" "\<not> (ks = [hd ks] \<and> is_root_part (hd ks))" by (cases ks) auto
  then show ?thesis
  proof cases
    case nil
    then have "name = c" using nm nr by (simp add: pl_str_def)
    then show ?thesis using seg nil by (simp add: basename_plain dirname_no_slash split_on_no_sep)
  next
    case root
    then have nmr: "name = r @ c" using nm by (simp add: pl_str_def)
    obtain X where "r = X @ [CHR ''/'']" using root(2) by (auto simp: is_root_part_def)
    then have "last (split_on CHR ''/'' name) = c" using nmr seg(3) last_split_on_snoc by simp
    then show ?thesis using root nmr seg dirname_root [OF root(2) seg(3)]
      by (auto simp: pl_str_def is_root_part_def basename_plain)
  next
    case other
    have cond: "\<not> (ks = [hd ks] \<and> is_root_part (hd ks))" using other(2) .
    have nmo: "name = pl_str ks @ CHR ''/'' # c"
      using nm by (simp only: pl_str_snoc [OF other(1)] if_not_P [OF cond])
    obtain ks' c' where kk: "ks = ks' @ [c']" using other(1) by (cases ks rule: rev_cases) auto
    have nr': "\<not> is_root_part c'"
    proof (cases "ks' = []")
      case True
      then show ?thesis using other(2) kk by simp
    next
      case False
      then show ?thesis using pl_parts_not_root [of name ks' c' "[c]"] k kk by simp
    qed
    have seg': "c' \<noteq> []" "CHR ''/'' \<notin> set c'"
      using pl_parts_seg [of c' name] k kk nr' by auto
    have "pl_str ks \<noteq> [] \<and> last (pl_str ks) \<noteq> CHR ''/''"
      using pl_str_last [of name ks' c' "[c]"] k kk seg' nr' by simp
    then show ?thesis using nmo seg other(1) dirname_snoc_slash [of c "pl_str ks"] last_split_on_snoc [OF seg(3)]
      by (simp add: basename_plain)
  qed
qed

lemma normal_head:
  assumes n: "pl_str (pl_parts name) = name" and k: "pl_parts name = ks @ [c]" and nr: "\<not> is_root_part c"
    and ne: "ks \<noteq> []"
  shows "pl_parts (pl_str ks) = ks"
proof -
  have d: "dirname name = pl_str ks" "basename name = c" "c \<noteq> []" "c \<noteq> ''.''"
    using normal_snoc [OF n k nr] ne by simp_all
  have "pl_str ks \<noteq> []" using normal_snoc [OF n k nr] ne by simp
  then have "pl_parts name = pl_parts (pl_str ks) @ [c]" using pl_parts_dirname [of name] d by simp
  then show ?thesis using k by simp
qed

lemma makedirs_split_normal:
  assumes n: "pl_str (pl_parts name) = name" and k: "pl_parts name = ks @ [c]" and nr: "\<not> is_root_part c"
  shows "makedirs_split name = (if ks = [] then [] else pl_str ks, c)"
  using normal_snoc [OF n k nr] by (simp add: makedirs_split_def posix_split_def)

section \<open>The top-down model, one component at a time\<close>

lemma mkdirs_snoc:
  "mkdirs pre (cs @ [c]) fs =
     (case mkdirs pre cs fs of
        Inl e \<Rightarrow> Inl (case e of FileExistsError _ \<Rightarrow> NotADirectoryError (pl_str (pre @ cs @ [c])) | _ \<Rightarrow> e)
      | Inr fs1 \<Rightarrow> mkdirs (pre @ cs) [c] fs1)"
proof (induction cs arbitrary: pre fs)
  case Nil
  then show ?case by simp
next
  case (Cons d cs)
  define k where "k = pre @ [d]"
  have eq: "pre @ (d # cs) @ [c] = k @ cs @ [c]" "pre @ d # cs = k @ cs" by (simp_all add: k_def)
  show ?case
  proof (cases "fs_lookup fs k")
    case None
    have l: "mkdirs pre ((d # cs) @ [c]) fs = mkdirs k (cs @ [c]) (AList.update k LDir fs)"
      and r: "mkdirs pre (d # cs) fs = mkdirs k cs (AList.update k LDir fs)"
      using None by (simp_all add: k_def Let_def)
    show ?thesis unfolding l r eq by (rule Cons.IH)
  next
    case (Some n)
    show ?thesis
    proof (cases n)
      case LDir
      have l: "mkdirs pre ((d # cs) @ [c]) fs = mkdirs k (cs @ [c]) fs"
        and r: "mkdirs pre (d # cs) fs = mkdirs k cs fs"
        using Some LDir by (simp_all add: k_def Let_def)
      show ?thesis unfolding l r eq by (rule Cons.IH)
    next
      case (LFile b)
      then show ?thesis using Some by (cases cs) (simp_all add: k_def Let_def)
    qed
  qed
qed

lemma mkdirs_existing:
  "list_all (\<lambda>q. fs_lookup fs q = Some LDir) (prefixes (pre @ cs)) \<Longrightarrow> mkdirs pre cs fs = Inr fs"
proof (induction cs arbitrary: pre)
  case (Cons d cs)
  have "fs_lookup fs (pre @ [d]) = Some LDir"
    using Cons.prems by (simp add: list_all_iff prefix_def)
  then show ?case using Cons.IH [of "pre @ [d]"] Cons.prems by (simp add: Let_def)
qed simp

lemma mkdirs_dirs_after:
  "mkdirs pre cs fs = Inr fs1 \<Longrightarrow> list_all (\<lambda>q. fs_lookup fs q = Some LDir) (prefixes pre)
     \<Longrightarrow> list_all (\<lambda>q. fs_lookup fs1 q = Some LDir) (prefixes (pre @ cs))"
proof (induction cs arbitrary: pre fs)
  case (Cons d cs)
  define k where "k = pre @ [d]"
  have pk: "prefixes k = prefixes pre @ [k]" by (simp add: k_def)
  have eq: "pre @ d # cs = k @ cs" by (simp add: k_def)
  show ?case unfolding eq
  proof (cases "fs_lookup fs k")
    case None
    let ?fs = "AList.update k LDir fs"
    have "list_all (\<lambda>q. fs_lookup ?fs q = Some LDir) (prefixes pre)"
      using dirs_update_longer [OF Cons.prems(2)] by (simp add: k_def)
    then have "list_all (\<lambda>q. fs_lookup ?fs q = Some LDir) (prefixes k)"
      using pk by (simp add: fs_lookup_update)
    moreover have "mkdirs k cs ?fs = Inr fs1" using Cons.prems(1) None by (simp add: k_def [symmetric] Let_def)
    ultimately show "list_all (\<lambda>q. fs_lookup fs1 q = Some LDir) (prefixes (k @ cs))" using Cons.IH by blast
  next
    case (Some n)
    have "mkdirs k cs fs = Inr fs1" "n = LDir"
      using Cons.prems(1) Some by (cases n; simp add: k_def [symmetric] Let_def)+
    moreover have "list_all (\<lambda>q. fs_lookup fs q = Some LDir) (prefixes k)"
      using pk Cons.prems(2) Some \<open>n = LDir\<close> by simp
    ultimately show "list_all (\<lambda>q. fs_lookup fs1 q = Some LDir) (prefixes (k @ cs))" using Cons.IH by blast
  qed
qed simp

lemma wf_entry_parents:
  assumes "lfs_wf fs" and "fs_lookup fs k = Some v" and "\<not> implicit_dir k"
  shows "list_all (\<lambda>q. fs_lookup fs q = Some LDir) (prefixes (butlast k))"
proof -
  have "(k, v) \<in> set fs" using assms(2,3) by (simp add: fs_lookup_def map_of_SomeD)
  then show ?thesis using assms(1) by (auto simp: lfs_wf_def list_all_iff)
qed

lemma wf_file_parents:
  assumes "lfs_wf fs" and "fs_lookup fs k = Some (LFile b)"
  shows "list_all (\<lambda>q. fs_lookup fs q = Some LDir) (prefixes (butlast k))"
  using wf_entry_parents [OF assms] fs_lookup_implicit [of k fs] assms(2) by fastforce

lemma mkdirs_file_exists:
  "lfs_wf fs \<Longrightarrow> list_all (\<lambda>q. fs_lookup fs q = Some LDir) (prefixes pre)
     \<Longrightarrow> mkdirs pre cs fs = Inl (FileExistsError x)
     \<Longrightarrow> (\<exists>b. fs_lookup fs (pre @ cs) = Some (LFile b))
         \<and> list_all (\<lambda>q. fs_lookup fs q = Some LDir) (prefixes (butlast (pre @ cs)))"
proof (induction cs arbitrary: pre fs)
  case (Cons d cs)
  define k where "k = pre @ [d]"
  have pk: "prefixes k = prefixes pre @ [k]" by (simp add: k_def)
  show ?case
  proof (cases "fs_lookup fs k")
    case None
    let ?fs = "AList.update k LDir fs"
    have ni: "\<not> implicit_dir k" using None fs_lookup_implicit by fastforce
    have wf1: "lfs_wf ?fs" using lfs_wf_update [OF Cons.prems(1) ni] Cons.prems(2) by (simp add: k_def)
    have "list_all (\<lambda>q. fs_lookup ?fs q = Some LDir) (prefixes pre)"
      using dirs_update_longer [OF Cons.prems(2)] by (simp add: k_def)
    then have "list_all (\<lambda>q. fs_lookup ?fs q = Some LDir) (prefixes k)"
      using pk by (simp add: fs_lookup_update)
    then obtain b where b: "fs_lookup ?fs (k @ cs) = Some (LFile b)"
      using Cons.IH [OF wf1] Cons.prems(3) None by (auto simp: k_def [symmetric] Let_def)
    have "k @ cs \<noteq> k"
    proof
      assume "k @ cs = k"
      then have "fs_lookup ?fs (k @ cs) = Some LDir" by (simp add: fs_lookup_update)
      with b show False by simp
    qed
    then have "fs_lookup fs (k @ cs) = Some (LFile b)" using b by (simp add: fs_lookup_update split: if_splits)
    then have "list_all (\<lambda>q. fs_lookup fs q = Some LDir) (prefixes (butlast (k @ cs)))"
      by (rule wf_file_parents [OF Cons.prems(1)])
    moreover have "k \<in> set (prefixes (butlast (k @ cs)))"
      using \<open>k @ cs \<noteq> k\<close> by (cases cs rule: rev_cases) (auto simp: butlast_append)
    ultimately have "fs_lookup fs k = Some LDir" by (simp add: list_all_iff del: in_set_prefixes)
    then show ?thesis using None by simp
  next
    case (Some n)
    have eq: "pre @ d # cs = k @ cs" by (simp add: k_def)
    show ?thesis
    proof (cases n)
      case LDir
      have "mkdirs k cs fs = Inl (FileExistsError x)"
        using Cons.prems(3) Some LDir by (simp add: k_def [symmetric] Let_def)
      moreover have "list_all (\<lambda>q. fs_lookup fs q = Some LDir) (prefixes k)"
        using pk Cons.prems(2) Some LDir by simp
      ultimately show ?thesis unfolding eq using Cons.IH [OF Cons.prems(1)] by blast
    next
      case (LFile b)
      then have "cs = []" using Cons.prems(3) Some by (cases cs) (simp_all add: k_def [symmetric] Let_def)
      then show ?thesis using Some LFile Cons.prems(2) by (simp add: k_def)
    qed
  qed
qed simp

lemma mkdirs_longer_frame:
  "mkdirs pre cs fs = Inr fs1 \<Longrightarrow> length (pre @ cs) < length x \<Longrightarrow> fs_lookup fs1 x = fs_lookup fs x"
proof (induction cs arbitrary: pre fs)
  case (Cons d cs)
  define k where "k = pre @ [d]"
  have lx: "length (k @ cs) < length x" "x \<noteq> k" using Cons.prems(2) by (auto simp: k_def)
  show ?case
  proof (cases "fs_lookup fs k")
    case None
    then have "mkdirs k cs (AList.update k LDir fs) = Inr fs1" using Cons.prems(1) by (simp add: k_def [symmetric] Let_def)
    then show ?thesis using Cons.IH lx by (simp add: fs_lookup_update fs_lookup_implicit)
  next
    case (Some n)
    then have "mkdirs k cs fs = Inr fs1" using Cons.prems(1) by (cases n) (simp_all add: k_def [symmetric] Let_def)
    then show ?thesis using Cons.IH lx by blast
  qed
qed simp

lemma os_makedirs_parts:
  assumes "name \<noteq> []" "pl_parts name = r # rest"
  shows "os_makedirs name fs = (if is_root_part r then mkdirs [r] rest fs else mkdirs [] (r # rest) fs)"
  using assms by (simp add: os_makedirs_def)

lemma os_makedirs_snoc:
  assumes k: "pl_parts name = ks @ [c]" and hk: "pl_parts head = ks" and ne: "ks \<noteq> []"
    and nn: "name \<noteq> []" and hn: "head \<noteq> []" and n: "pl_str (ks @ [c]) = name"
  shows "os_makedirs name fs =
           (case os_makedirs head fs of
              Inl e \<Rightarrow> Inl (case e of FileExistsError _ \<Rightarrow> NotADirectoryError name | _ \<Rightarrow> e)
            | Inr fs1 \<Rightarrow> mkdirs ks [c] fs1)"
proof -
  obtain r rest where ks: "ks = r # rest" using ne by (cases ks) auto
  show ?thesis
  proof (cases "is_root_part r")
    case True
    then show ?thesis
      using os_makedirs_parts [OF nn, of r "rest @ [c]"] os_makedirs_parts [OF hn, of r rest]
        mkdirs_snoc [of "[r]" rest c fs] k hk ks n by (simp cong: sum.case_cong py_exc.case_cong)
  next
    case False
    then show ?thesis
      using os_makedirs_parts [OF nn, of r "rest @ [c]"] os_makedirs_parts [OF hn, of r rest]
        mkdirs_snoc [of "[]" "r # rest" c fs] k hk ks n by (simp cong: sum.case_cong py_exc.case_cong)
  qed
qed

lemma mkdir_exist_ok_mkdirs:
  assumes k: "pl_parts name = ks @ [c]" and n: "pl_str (ks @ [c]) = name" and nn: "name \<noteq> []"
    and dot: "last (split_on CHR ''/'' name) \<noteq> ''.''"
    and dirs: "list_all (\<lambda>q. fs_lookup fs q = Some LDir) (prefixes ks)"
  shows "mkdir_exist_ok name True fs = (case mkdirs ks [c] fs of Inl e \<Rightarrow> (Inl e, fs) | Inr fs' \<Rightarrow> (Inr (), fs'))"
proof -
  have nf: "find (\<lambda>q. fs_lookup fs q \<noteq> Some LDir) (prefixes (butlast (pl_parts name))) = None"
    using dirs k by (simp add: find_None_iff list_all_iff del: in_set_prefixes)
  show ?thesis
  proof (cases "fs_lookup fs (ks @ [c])")
    case None
    then show ?thesis using nf k nn dot by (simp add: mkdir_exist_ok_def py_mkdir_def Let_def)
  next
    case (Some v)
    then show ?thesis using nf k nn dirs n
      by (cases v) (simp_all add: mkdir_exist_ok_def py_mkdir_def py_isdir_def Let_def)
  qed
qed

lemma os_makedirs_existing:
  assumes "name \<noteq> []" "list_all (\<lambda>q. fs_lookup fs q = Some LDir) (prefixes (pl_parts name))"
  shows "os_makedirs name fs = Inr fs"
proof -
  obtain pre cs where "os_makedirs name fs = mkdirs pre cs fs" "pl_parts name = pre @ cs"
    using os_makedirs_mkdirs [OF assms(1)] by metis
  then show ?thesis using assms(2) mkdirs_existing by metis
qed

lemma os_makedirs_dirs:
  assumes "os_makedirs name fs = Inr fs1"
  shows "list_all (\<lambda>q. fs_lookup fs1 q = Some LDir) (prefixes (pl_parts name))"
proof -
  have ne: "name \<noteq> []" using assms by (auto simp: os_makedirs_def)
  obtain pre cs where "os_makedirs name fs = mkdirs pre cs fs" "pl_parts name = pre @ cs"
    "list_all implicit_dir (prefixes pre)"
    using os_makedirs_mkdirs [OF ne] by metis
  then show ?thesis
    using mkdirs_dirs_after [of pre cs fs fs1] assms by (simp add: list_all_iff fs_lookup_implicit)
qed

lemma os_makedirs_file_exists:
  assumes "lfs_wf fs" "os_makedirs name fs = Inl (FileExistsError x)"
  shows "(\<exists>b. fs_lookup fs (pl_parts name) = Some (LFile b))
         \<and> list_all (\<lambda>q. fs_lookup fs q = Some LDir) (prefixes (butlast (pl_parts name)))"
proof -
  have ne: "name \<noteq> []" using assms(2) by (auto simp: os_makedirs_def)
  obtain pre cs where "os_makedirs name fs = mkdirs pre cs fs" "pl_parts name = pre @ cs"
    "list_all implicit_dir (prefixes pre)"
    using os_makedirs_mkdirs [OF ne] by metis
  then show ?thesis
    using mkdirs_file_exists [OF assms(1), of pre cs x] assms(2)
    by (simp add: list_all_iff fs_lookup_implicit)
qed

lemma os_makedirs_longer_frame:
  assumes "os_makedirs name fs = Inr fs1" "length (pl_parts name) < length x"
  shows "fs_lookup fs1 x = fs_lookup fs x"
proof -
  have ne: "name \<noteq> []" using assms(1) by (auto simp: os_makedirs_def)
  obtain pre cs where "os_makedirs name fs = mkdirs pre cs fs" "pl_parts name = pre @ cs"
    using os_makedirs_mkdirs [OF ne] by metis
  then show ?thesis using mkdirs_longer_frame assms by metis
qed

lemma os_makedirs_file:
  assumes ne: "p \<noteq> []" and f: "fs_lookup fs (pl_parts p) = Some (LFile b)"
    and dirs: "list_all (\<lambda>q. fs_lookup fs q = Some LDir) (prefixes (butlast (pl_parts p)))"
  shows "os_makedirs p fs = Inl (FileExistsError (pl_str (pl_parts p)))"
proof -
  obtain pre cs where om: "os_makedirs p fs = mkdirs pre cs fs" and pc: "pl_parts p = pre @ cs"
    and imp: "list_all implicit_dir (prefixes pre)"
    using os_makedirs_mkdirs [OF ne] by metis
  have "cs \<noteq> []"
  proof
    assume "cs = []"
    then have "implicit_dir (pl_parts p)" using imp pc by (simp add: list_all_iff)
    then show False using f fs_lookup_implicit by simp
  qed
  then obtain cs' x where cs: "cs = cs' @ [x]" by (cases cs rule: rev_cases) auto
  have "mkdirs pre cs' fs = Inr fs" using dirs pc cs by (intro mkdirs_existing) (simp add: butlast_append)
  then show ?thesis using om mkdirs_snoc [of pre cs' x fs] f pc cs by (simp add: Let_def)
qed




lemma find_append_None: "find P xs = None \<Longrightarrow> find P (xs @ ys) = find P ys"
  by (induction xs) auto

lemma py_mkdir_blocked:
  assumes k: "pl_parts name = ks @ [c]" and nn: "name \<noteq> []" and ne: "ks \<noteq> []"
    and dirs: "list_all (\<lambda>q. fs_lookup fs q = Some LDir) (prefixes (butlast ks))"
    and f: "fs_lookup fs ks = Some (LFile b)"
  shows "mkdir_exist_ok name True fs = (Inl (NotADirectoryError name), fs)"
proof -
  have pk: "prefixes ks = prefixes (butlast ks) @ [ks]" using ne by (metis append_butlast_last_id prefixes_snoc)
  have "find (\<lambda>q. fs_lookup fs q \<noteq> Some LDir) (prefixes (butlast ks)) = None"
    using dirs by (simp add: find_None_iff list_all_iff del: in_set_prefixes)
  then have "find (\<lambda>q. fs_lookup fs q \<noteq> Some LDir) (prefixes (butlast (pl_parts name))) = Some ks"
    using k pk f by (simp add: find_append_None)
  moreover have "\<not> py_isdir fs name" using k pk f by (simp add: py_isdir_def)
  ultimately show ?thesis using nn f by (simp add: mkdir_exist_ok_def py_mkdir_def Let_def)
qed

lemma fs_exists_intro:
  assumes "pl_str (pl_parts p) = p" "p \<noteq> []" and "fs_lookup fs (pl_parts p) = Some (LFile b)"
    and "list_all (\<lambda>q. fs_lookup fs q = Some LDir) (prefixes (butlast (pl_parts p)))"
  shows "fs_exists fs p"
proof -
  obtain ks c where k: "pl_parts p = ks @ [c]"
    using assms(3) fs_lookup_implicit [of "[]" fs] by (cases "pl_parts p" rule: rev_cases) (auto simp: implicit_dir_def)
  have "\<not> is_root_part c"
  proof
    assume r: "is_root_part c"
    then have "ks = []" using pl_parts_not_root [of p ks c "[]"] k by auto
    then show False using r k assms(3) fs_lookup_implicit [of "[c]" fs] by (simp add: implicit_dir_def)
  qed
  then have "\<not> dir_marker p" using normal_snoc [OF assms(1) k] by (simp add: dir_marker_def)
  then show ?thesis using assms(2-4) by (simp add: fs_exists_def)
qed

section \<open>Runs\<close>

lemma py_makedirs_run:
  "py_makedirs ''data/out/m'' True [([''data''], LDir)]
     = (Inr (), [([''data''], LDir), ([''data'', ''out''], LDir), ([''data'', ''out'', ''m''], LDir)])"
  by code_simp

lemma py_makedirs_run_blocked:
  "py_makedirs ''f/x/y'' True [([''f''], LFile ''a'')]
     = (Inl (NotADirectoryError ''f/x''), [([''f''], LFile ''a'')])"
  by code_simp

section \<open>CPython's recursion refines the top-down model\<close>

lemma refines_trivial:
  assumes "name = ''.'' \<or> name = ''/'' \<or> name = ''//''"
  shows "py_makedirs name True fs = (case os_makedirs name fs of Inl e \<Rightarrow> (Inl e, fs) | Inr fs' \<Rightarrow> (Inr (), fs'))"
  using assms
  by (elim disjE) (simp_all add: py_makedirs.simps makedirs_split_def posix_split_def mkdir_exist_ok_def
      py_mkdir_def py_isdir_def os_makedirs_def fs_eval dirname_def basename_def)

lemma refines_leaf:
  assumes n: "pl_str (pl_parts name) = name" and k: "pl_parts name = ks @ [c]" and nr: "\<not> is_root_part c"
    and dirs: "list_all (\<lambda>q. fs_lookup fs q = Some LDir) (prefixes ks)"
  shows "mkdir_exist_ok name True fs = (case mkdirs ks [c] fs of Inl e \<Rightarrow> (Inl e, fs) | Inr fs' \<Rightarrow> (Inr (), fs'))"
proof -
  note N = normal_snoc [OF n k nr]
  have "name \<noteq> []" "last (split_on CHR ''/'' name) \<noteq> ''.''" using N by auto
  then show ?thesis using mkdir_exist_ok_mkdirs [OF k _ _ _ dirs] k n by simp
qed

lemma refines_single:
  assumes n: "pl_str (pl_parts name) = name" and k: "pl_parts name = [c]" and nr: "\<not> is_root_part c"
  shows "py_makedirs name True fs = (case os_makedirs name fs of Inl e \<Rightarrow> (Inl e, fs) | Inr fs' \<Rightarrow> (Inr (), fs'))"
proof -
  have k': "pl_parts name = [] @ [c]" using k by simp
  have nn: "name \<noteq> []" using normal_snoc [OF n k' nr] by auto
  have "os_makedirs name fs = mkdirs [] [c] fs" using os_makedirs_parts [OF nn k] nr by simp
  moreover have "list_all (\<lambda>q. fs_lookup fs q = Some LDir) (prefixes [])"
    by (simp add: fs_lookup_implicit implicit_dir_def)
  ultimately show ?thesis using refines_leaf [OF n k' nr] makedirs_split_normal [OF n k' nr]
    by (subst py_makedirs.simps) (simp split: sum.split)
qed

text \<open>A path of several components, the head \<open>pl_str ks\<close> and its outcome.\<close>

lemma normal_head_facts:
  assumes n: "pl_str (pl_parts name) = name" and k: "pl_parts name = ks @ [c]" and nr: "\<not> is_root_part c"
    and ne: "ks \<noteq> []"
  shows "pl_str ks \<noteq> [] \<and> pl_parts (pl_str ks) = ks \<and> length (pl_str ks) < length name
         \<and> makedirs_split name = (pl_str ks, c) \<and> makedirs_leaf name c True = mkdir_exist_ok name True
         \<and> os_makedirs name fs =
              (case os_makedirs (pl_str ks) fs of
                 Inl e \<Rightarrow> Inl (case e of FileExistsError _ \<Rightarrow> NotADirectoryError name | _ \<Rightarrow> e)
               | Inr fs1 \<Rightarrow> mkdirs ks [c] fs1)"
proof -
  note N = normal_snoc [OF n k nr]
  have nn: "name \<noteq> []" using N by auto
  have hn: "pl_str ks \<noteq> []" using N ne by simp
  have hk: "pl_parts (pl_str ks) = ks" by (rule normal_head [OF n k nr ne])
  have sp: "makedirs_split name = (pl_str ks, c)" using makedirs_split_normal [OF n k nr] ne by simp
  have "length (pl_str ks) < length name" using makedirs_split_shorter [of "pl_str ks" c name] sp N by simp
  moreover have "os_makedirs name fs =
              (case os_makedirs (pl_str ks) fs of
                 Inl e \<Rightarrow> Inl (case e of FileExistsError _ \<Rightarrow> NotADirectoryError name | _ \<Rightarrow> e)
               | Inr fs1 \<Rightarrow> mkdirs ks [c] fs1)"
    using os_makedirs_snoc [OF k hk ne nn hn] k n by simp
  ultimately show ?thesis using hn hk sp N by (simp add: makedirs_leaf_def)
qed

lemma refines_head_exists:
  assumes n: "pl_str (pl_parts name) = name" and k: "pl_parts name = ks @ [c]" and nr: "\<not> is_root_part c"
    and ne: "ks \<noteq> []" and ex: "fs_exists fs (pl_str ks)"
  shows "py_makedirs name True fs = (case os_makedirs name fs of Inl e \<Rightarrow> (Inl e, fs) | Inr fs' \<Rightarrow> (Inr (), fs'))"
proof -
  note H = normal_head_facts [OF n k nr ne, of fs]
  have py: "py_makedirs name True fs = mkdir_exist_ok name True fs"
    using H ex by (subst py_makedirs.simps) simp
  have pk: "prefixes ks = prefixes (butlast ks) @ [ks]" using ne by (metis append_butlast_last_id prefixes_snoc)
  have dirs: "list_all (\<lambda>q. fs_lookup fs q = Some LDir) (prefixes (butlast ks))"
    using ex H by (simp add: fs_exists_def)
  consider (at_dir) "fs_lookup fs ks = Some LDir" | (at_file) b where "fs_lookup fs ks = Some (LFile b)"
    using ex H by (auto simp: fs_exists_def split: option.splits lnode.splits)
  then show ?thesis
  proof cases
    case at_dir
    then have all: "list_all (\<lambda>q. fs_lookup fs q = Some LDir) (prefixes ks)" using dirs pk by simp
    then have "os_makedirs (pl_str ks) fs = Inr fs" using os_makedirs_existing H by simp
    then show ?thesis using py H refines_leaf [OF n k nr all] by (simp split: sum.split)
  next
    case at_file
    have "name \<noteq> []" using normal_snoc [OF n k nr] by auto
    moreover have "os_makedirs (pl_str ks) fs = Inl (FileExistsError (pl_str ks))"
      using os_makedirs_file [of "pl_str ks" fs b] H at_file dirs by simp
    ultimately show ?thesis using py H py_mkdir_blocked [OF k _ ne dirs at_file] by simp
  qed
qed

lemma refines_head_missing:
  assumes wf: "lfs_wf fs"
    and n: "pl_str (pl_parts name) = name" and k: "pl_parts name = ks @ [c]" and nr: "\<not> is_root_part c"
    and ne: "ks \<noteq> []" and nex: "\<not> fs_exists fs (pl_str ks)"
    and IH: "py_makedirs (pl_str ks) True fs
               = (case os_makedirs (pl_str ks) fs of Inl e \<Rightarrow> (Inl e, fs) | Inr fs' \<Rightarrow> (Inr (), fs'))"
  shows "py_makedirs name True fs = (case os_makedirs name fs of Inl e \<Rightarrow> (Inl e, fs) | Inr fs' \<Rightarrow> (Inr (), fs'))"
proof -
  note H = normal_head_facts [OF n k nr ne, of fs]
  have py: "py_makedirs name True fs =
      (case py_makedirs (pl_str ks) True fs of
         (Inl e, fs1) \<Rightarrow> (case e of FileExistsError _ \<Rightarrow> makedirs_leaf name c True fs1 | _ \<Rightarrow> (Inl e, fs1))
       | (Inr _, fs1) \<Rightarrow> makedirs_leaf name c True fs1)"
    using H nex normal_snoc [OF n k nr] by (subst py_makedirs.simps) simp
  show ?thesis
  proof (cases "os_makedirs (pl_str ks) fs")
    case (Inr fs1)
    have dirs1: "list_all (\<lambda>q. fs_lookup fs1 q = Some LDir) (prefixes ks)"
      using os_makedirs_dirs [OF Inr] H by simp
    have pk: "prefixes ks = prefixes (butlast ks) @ [ks]" using ne by (metis append_butlast_last_id prefixes_snoc)
    have ni: "\<not> implicit_dir (ks @ [c])" using ne by (auto simp: implicit_dir_def)
    have "fs_lookup fs (ks @ [c]) = None"
    proof (rule ccontr)
      assume "fs_lookup fs (ks @ [c]) \<noteq> None"
      then obtain v where "fs_lookup fs (ks @ [c]) = Some v" by blast
      then have "list_all (\<lambda>q. fs_lookup fs q = Some LDir) (prefixes ks)"
        using wf_entry_parents [OF wf _ ni] by simp
      then have "fs_exists fs (pl_str ks)" using H pk by (simp add: fs_exists_def)
      then show False using nex by simp
    qed
    then have "fs_lookup fs1 (ks @ [c]) = None" using os_makedirs_longer_frame [OF Inr] H by simp
    then have "mkdirs ks [c] fs1 = Inr (AList.update (ks @ [c]) LDir fs1)" by simp
    then show ?thesis using py IH H Inr refines_leaf [OF n k nr dirs1] by simp
  next
    case (Inl e)
    show ?thesis
    proof (cases "\<exists>x. e = FileExistsError x")
      case True
      then obtain x where "os_makedirs (pl_str ks) fs = Inl (FileExistsError x)" using Inl by blast
      then have "(\<exists>b. fs_lookup fs ks = Some (LFile b))
                 \<and> list_all (\<lambda>q. fs_lookup fs q = Some LDir) (prefixes (butlast ks))"
        using os_makedirs_file_exists [OF wf] H by metis
      then obtain b where "fs_lookup fs ks = Some (LFile b)"
        "list_all (\<lambda>q. fs_lookup fs q = Some LDir) (prefixes (butlast ks))" by blast
      then have "fs_exists fs (pl_str ks)" using fs_exists_intro [of "pl_str ks" fs b] H by simp
      then show ?thesis using nex by simp
    next
      case False
      then show ?thesis using py IH H Inl by (cases e) simp_all
    qed
  qed
qed

lemma refines_several:
  assumes wf: "lfs_wf fs"
    and n: "pl_str (pl_parts name) = name" and k: "pl_parts name = ks @ [c]" and nr: "\<not> is_root_part c"
    and ne: "ks \<noteq> []"
    and IH: "py_makedirs (pl_str ks) True fs
               = (case os_makedirs (pl_str ks) fs of Inl e \<Rightarrow> (Inl e, fs) | Inr fs' \<Rightarrow> (Inr (), fs'))"
  shows "py_makedirs name True fs = (case os_makedirs name fs of Inl e \<Rightarrow> (Inl e, fs) | Inr fs' \<Rightarrow> (Inr (), fs'))"
proof (cases "fs_exists fs (pl_str ks)")
  case True
  then show ?thesis by (rule refines_head_exists [OF n k nr ne])
next
  case False
  then show ?thesis by (rule refines_head_missing [OF wf n k nr ne _ IH])
qed



end
