(* ===== verification/Spec2Isabelle.thy ===== *)
theory Spec2Isabelle
  imports Listing Transfer_Driver Configuration Plugin_Steps Packaging Os_Makedirs
begin

text \<open>
  \<^bold>\<open>A verification model of mlflow-artifactory-plugin-jfrog.\<close>
  The program is one class, \<open>JFrogArtifactRepository\<close> in
  src/jfrogartifactoryplugin/store/artifact/jfrog_artifact_repository.py, an MLflow artifact
  repository that stores a run's files in a JFrog Artifactory repository through the
  \<open>rtpy\<close> REST client. Its parts, and the theories that model them:

  \<^item> \<^bold>\<open>URI resolver\<close>: \<open>parse_artifactory_uri\<close> (lines 46--55) over CPython's
    \<open>urllib.parse\<close>. Theory Url_Parse: \<open>urlsplit\<close>, \<open>urlparse\<close>, \<open>urlunparse\<close> (the
    \<open>geturl\<close> of the constructor) and \<open>parse_artifactory_uri\<close>, raising as Python does.
  \<^item> \<^bold>\<open>Python library\<close>: \<open>posixpath.join\<close>, \<open>os.path.basename\<close>/\<open>dirname\<close>, pathlib's
    \<open>parts\<close> and \<open>name\<close>, \<open>int()\<close> and \<open>str()\<close> (theory Py_Lib), and the local file system
    the plugin reads and writes: \<open>Path.is_file\<close>, \<open>glob("**/*")\<close>, \<open>os.makedirs\<close>,
    \<open>open\<close> (theory Local_FS, a map from pathlib parts to files and directories).
    Local_FS models \<open>os.makedirs\<close> top-down over the path's parts (\<open>os_makedirs\<close>, the
    model the download is verified with); theory Os_Makedirs models it as CPython writes it,
    a recursion on \<open>posixpath.split\<close> with \<open>os.path.exists\<close>, \<open>os.mkdir\<close> and
    \<open>os.path.isdir\<close> (\<open>py_makedirs\<close>), and relates the two.
  \<^item> \<^bold>\<open>Client interface\<close>: the \<open>rtpy\<close> calls the plugin makes, as a record of functions
    over an abstract server state, and the world (local files, server, standard output, log
    of client calls) every method acts on (theory Artifactory_Client). Each method is an
    action \<open>'w \<Rightarrow> 'a py \<times> 'w\<close> of the Prelude: an exception is an \<open>Inl\<close> value and leaves
    the world as the code left it when it raised.
  \<^item> \<^bold>\<open>The class\<close> (theory Repository), one definition per method in the order of the
    source: \<open>init_repo\<close> (\<open>__init__\<close>), \<open>ping\<close>, the path mapper (\<open>upload_dir\<close>,
    \<open>upload_dir_batch\<close>, \<open>listing_root\<close>, \<open>download_path\<close>), \<open>log_artifact\<close> with the
    guarded deploy \<open>deploy_guarded\<close>, \<open>log_artifacts\<close> with its loop \<open>log_files\<close>,
    \<open>list_artifacts\<close> with \<open>_list_files\<close> (\<open>list_files\<close>, \<open>list_children\<close>),
    \<open>download_file\<close> (\<open>_download_file\<close>) and \<open>delete_artifacts\<close>. Attributes the
    constructor may leave unset are options whose reading raises \<open>AttributeError\<close>.
  \<^item> \<^bold>\<open>A server\<close>: Artifactory_Store implements the client interface by an in-memory
    store of files keyed by path; it is not code of the repository and serves the
    properties that span an upload and a later download, and the examples.
  \<^item> \<^bold>\<open>Packaging\<close>: src/setup.py (theory Packaging). \<open>setup_py\<close> is the module body:
    README.md read whole, the first line of version.txt read with universal newlines and
    stripped, and the keyword arguments of \<open>setup()\<close> as the record \<open>setup_kwargs\<close>;
    \<open>setup_entry_points\<close> registers the class for the \<open>artifactory\<close> scheme, and
    \<open>mlflow_dispatch\<close> is MLflow's side, the scheme of \<open>urlparse(uri)\<close> selecting the
    entry point.

  \<^bold>\<open>Properties.\<close> Url_Parse: the URI round trip, rejection of other schemes, \<open>geturl\<close>
  of a plain name. Py_Lib: \<open>int(str(i)) = i\<close>. Listing: the listing refines its
  specification (one entry per child, sorted), its shape, the prefix asymmetry of folder and
  file entries, idempotence, its exact calls, the sizes the store reports, the listing of
  the empty path (the artifact directory's own name, not the directory's contents) and
  the propagation of every client error. Transfer_Driver: \<open>log_artifact\<close> on each branch,
  \<open>log_artifacts\<close> over every glob order (one deploy per regular file, abort at the first
  failure, at most one call per path, completion when the server accepts every upload,
  and silent success on a local path that is not a directory), \<open>_download_file\<close> (parents created, bytes written; a bare file name fails).
  Configuration: the constructor from the environment. Plugin_Steps: the calls a host can
  make as a datatype and the reachable worlds as an inductive relation, with two
  invariants: the store stays well formed, and the local file system stays a tree (one
  entry per path, every proper prefix of an entry a directory). Packaging: every URI MLflow
  routes to the plugin is accepted by its resolver, the version round trip through
  version.txt under any line-end convention, and the version being always one stripped
  line. Os_Makedirs: CPython's \<open>os.makedirs\<close> terminates, and on a tree and a path in
  pathlib's normal form it has the outcome of the top-down model. This theory: the path mapper against
  \<open>"/".join\<close>, an upload read back through the download path, and the unusable object the
  constructor's early returns build. Every property holds for every client unless it names
  the store.

  \<^bold>\<open>Loops and bounds.\<close> Every loop of the plugin runs over a finite list (the glob's
  paths, a folder's children, a path's components), so each is structural recursion and
  returns; \<open>dec_nat\<close> recurses on \<open>n div 10\<close>. The one recursion that is not structural
  is CPython's \<open>os.makedirs\<close>, on the head of \<open>posixpath.split\<close>: it is a
  \<^theory_text>\<open>function\<close> whose termination is proved with the length of the name as measure,
  and its domain is stated as a theorem. No fuel is needed. The glob's order is a
  parameter constrained by \<open>glob_enum\<close> (each path below the directory once), so a property
  of \<open>log_artifacts\<close> holds for every order the file system may produce.

  \<^bold>\<open>Not modelled.\<close> setuptools' \<open>setup()\<close> and \<open>find_packages()\<close> (the latter is a
  parameter), and the decoding of the files' bytes (contents are decoded strings of
  characters up to U+00FF); \<open>rtpy\<close>'s HTTP transport and
  Artifactory's own behaviour beyond the interface (the store stands in for it); the MLflow
  base class, which calls \<open>_download_file\<close>; the text \<open>print\<close> gives a non-string object
  (an \<open>AfApiError\<close> is printed as its message); IPv6 literal validation and the NFKC netloc
  check of \<open>urlsplit\<close>; file permissions, symbolic links, \<open>..\<close> as a parent and
  concurrent writers.
\<close>


section \<open>Properties across components\<close>

text \<open>C20. When the constructor is given \<open>repo_name\<close> or \<open>api_key\<close> it returns early and never
  sets \<open>self.af\<close>: the object it builds cannot be used, every operation that reaches the
  client (listing, download, ping, upload of an existing file) raises
  \<open>AttributeError\<close> for \<open>af\<close>.\<close>

theorem init_repo_early_return_unusable:
  assumes "init_repo env uri rn k = Inr obj" and "rn \<noteq> None \<or> k \<noteq> None"
    and "parse_artifactory_uri uri = Inr (netloc, adir)"
  shows "fst (list_artifacts c obj p w) = Inl (no_attr ''af'')
       \<and> fst (download_file c obj rp lp w) = Inl (no_attr ''af'')
       \<and> fst (ping c obj w) = Inl (no_attr ''af'')
       \<and> (fs_is_file (w_local w) (pl_parts f) \<longrightarrow> fst (log_artifact c obj f ap w) = Inl (no_attr ''af''))"
proof -
  note e = init_repo_early [OF assms(1,2)]
  have pa: "parse_artifactory_uri (artifact_uri obj) = Inr (netloc, adir)" using e assms(3) by simp
  have "fst (list_artifacts c obj p w) = Inl (no_attr ''af'')"
    using pa e by (simp add: list_artifacts_def list_files_def get_af_def Let_def)
  moreover have "fst (download_file c obj rp lp w) = Inl (no_attr ''af'')"
    using pa e by (simp add: download_file_def get_af_def Let_def)
  moreover have "fst (ping c obj w) = Inl (no_attr ''af'')" using e by (simp add: ping_def get_af_def)
  moreover have "fs_is_file (w_local w) (pl_parts f) \<Longrightarrow> fst (log_artifact c obj f ap w) = Inl (no_attr ''af'')"
    using e by (simp add: log_artifact_parsed [OF pa] deploy_guarded_no_af Let_def)
  ultimately show ?thesis by blast
qed

theorem init_repo_early_return_unusable_witness:
  "init_repo demo_env ''artifactory://host/mlruns/1/artifacts'' (Some ''generic-local'') None
     = Inr \<lparr>artifact_uri = ''artifactory://host/mlruns/1/artifacts'', artifactory_repo = Some ''generic-local'',
            api_key_attr = None, artifactory_endpoint = None, artifactory_api_key = None, af = None\<rparr>
   \<and> Some ''generic-local'' \<noteq> None
   \<and> parse_artifactory_uri ''artifactory://host/mlruns/1/artifacts'' = Inr (''host'', ''mlruns/1/artifacts'')
   \<and> fst (list_artifacts store_client \<lparr>artifact_uri = ''artifactory://host/mlruns/1/artifacts'', artifactory_repo = Some ''generic-local'',
            api_key_attr = None, artifactory_endpoint = None, artifactory_api_key = None, af = None\<rparr> None demo_world)
       = Inl (no_attr ''af'')
   \<and> fs_is_file (w_local demo_world) (pl_parts ''data/a.txt'')
   \<and> fst (log_artifact store_client \<lparr>artifact_uri = ''artifactory://host/mlruns/1/artifacts'', artifactory_repo = Some ''generic-local'',
            api_key_attr = None, artifactory_endpoint = None, artifactory_api_key = None, af = None\<rparr> ''data/a.txt'' None demo_world)
       = Inl (no_attr ''af'')"
proof -
  let ?o = "\<lparr>artifact_uri = ''artifactory://host/mlruns/1/artifacts'', artifactory_repo = Some ''generic-local'',
            api_key_attr = None, artifactory_endpoint = None, artifactory_api_key = None, af = None\<rparr>"
  have i: "init_repo demo_env ''artifactory://host/mlruns/1/artifacts'' (Some ''generic-local'') None = Inr ?o"
    by (simp add: init_repo_def)
  have n: "Some ''generic-local'' \<noteq> None \<or> (None :: string option) \<noteq> None" by simp
  have p: "parse_artifactory_uri ''artifactory://host/mlruns/1/artifacts'' = Inr (''host'', ''mlruns/1/artifacts'')"
    using demo_parse by (simp add: demo_repo_def)
  have f: "fs_is_file (w_local demo_world) (pl_parts ''data/a.txt'')" by (simp add: demo_world_def fs_eval)
  note u = init_repo_early_return_unusable [OF i n p, where c = store_client and w = demo_world]
  show ?thesis using i n p f u [of None _ _ "''data/a.txt''" None] by blast
qed


text \<open>C23. The path mapper, on segments that neither start nor end with a slash: the remote
  path of a single upload with an \<open>artifact_path\<close> is host/artifact_path/uri_path/name, that of
  a directory upload host/uri_path/artifact_path/name, the download of artifact_path/name
  reads host/uri_path/artifact_path/name and the listing of artifact_path lists
  /host/uri_path/artifact_path: the single upload uses the other order.\<close>

theorem remote_paths_join_order:
  assumes "list_all (\<lambda>b. b \<noteq> [] \<and> \<not> startswith b ''/'' \<and> \<not> endswith b ''/'') [n, d, ap, name]"
  shows "posix_join (upload_dir n d (Some ap)) [name] = join_on CHR ''/'' [n, ap, d, name]
       \<and> posix_join (upload_dir_batch n d (Some ap)) [name] = join_on CHR ''/'' [n, d, ap, name]
       \<and> download_path n d (join_on CHR ''/'' [ap, name]) = join_on CHR ''/'' [n, d, ap, name]
       \<and> listing_root n d (Some ap) = CHR ''/'' # join_on CHR ''/'' [n, d, ap]"
proof -
  have seg: "n \<noteq> []" "\<not> endswith n ''/''" "d \<noteq> []" "\<not> startswith d ''/''" "\<not> endswith d ''/''"
    "ap \<noteq> []" "\<not> startswith ap ''/''" "\<not> endswith ap ''/''"
    "name \<noteq> []" "\<not> startswith name ''/''" "\<not> endswith name ''/''"
    using assms by simp_all
  have apn: "join_on CHR ''/'' [ap, name] \<noteq> [] \<and> \<not> startswith (join_on CHR ''/'' [ap, name]) ''/''
             \<and> \<not> endswith (join_on CHR ''/'' [ap, name]) ''/''"
    using seg endswith_append_single [of name "ap @ ''/''"] by (cases ap) simp_all
  have u: "upload_dir n d (Some ap) = join_on CHR ''/'' [n, ap, d]"
    using seg by (simp add: upload_dir_def py_truthy_def posix_join_plain del: posix_join.simps)
  have ub: "upload_dir_batch n d (Some ap) = join_on CHR ''/'' [n, d, ap]"
    using seg by (simp add: upload_dir_batch_def py_truthy_def posix_join_plain del: posix_join.simps)
  have e1: "\<not> endswith (join_on CHR ''/'' [n, ap, d]) ''/''" "\<not> endswith (join_on CHR ''/'' [n, d, ap]) ''/''"
    using seg endswith_append_single [of d "n @ ''/'' @ ap @ ''/''"] endswith_append_single [of ap "n @ ''/'' @ d @ ''/''"]
    by simp_all
  show ?thesis
    using seg apn u ub e1
    by (simp add: posix_join_plain download_path_def listing_root_def py_truthy_def del: posix_join.simps)
qed

theorem remote_paths_join_order_witness:
  "list_all (\<lambda>b. b \<noteq> [] \<and> \<not> startswith b ''/'' \<and> \<not> endswith b ''/'') [''host'', ''mlruns/1/artifacts'', ''plots'', ''loss.png'']
   \<and> posix_join (upload_dir ''host'' ''mlruns/1/artifacts'' (Some ''plots'')) [''loss.png''] = ''host/plots/mlruns/1/artifacts/loss.png''
   \<and> posix_join (upload_dir_batch ''host'' ''mlruns/1/artifacts'' (Some ''plots'')) [''loss.png''] = ''host/mlruns/1/artifacts/plots/loss.png''
   \<and> download_path ''host'' ''mlruns/1/artifacts'' ''plots/loss.png'' = ''host/mlruns/1/artifacts/plots/loss.png''
   \<and> listing_root ''host'' ''mlruns/1/artifacts'' (Some ''plots'') = ''/host/mlruns/1/artifacts/plots''"
proof -
  have h: "list_all (\<lambda>b. b \<noteq> [] \<and> \<not> startswith b ''/'' \<and> \<not> endswith b ''/'') [''host'', ''mlruns/1/artifacts'', ''plots'', ''loss.png'']"
    by (simp add: startswith_def endswith_def)
  show ?thesis using remote_paths_join_order [OF h] h by simp
qed

text \<open>C24. Round trip through the server: after \<open>log_artifact(f)\<close> without an artifact path
  has succeeded, retrieving the path \<open>_download_file\<close> builds for the file's name returns
  exactly the bytes of the local file.\<close>

theorem log_artifact_then_retrieve:
  assumes "parse_artifactory_uri (artifact_uri obj) = Inr (netloc, adir)"
    and "artifactory_repo obj = Some r" and "fs_read (w_local w) (pl_parts f) = Inr b"
    and "log_artifact store_client obj f None w = (Inr u, w1)"
  shows "cl_retrieve store_client r (download_path netloc adir (pl_name (pl_parts f))) (w_remote w1) = Inr b"
proof -
  let ?rem = "posix_join (upload_dir netloc adir None) [pl_name (pl_parts f)]"
  define w' where "w' = w\<lparr>w_stdout := w_stdout w @ [''artifact_dir:  '' @ upload_dir netloc adir None, ''local_file:  '' @ f]\<rparr>"
  have d: "deploy_guarded store_client obj (pl_parts f) f ?rem 24 w' = (Inr u, w1)"
    using assms(4) fs_read_is_file [OF assms(3)]
    by (simp add: log_artifact_parsed [OF assms(1)] w'_def Let_def)
  have "cl_deploy store_client r b ?rem (w_remote w) = Inr (w_remote w1)"
    using deploy_guarded_Inr_deploy [OF d assms(2)] assms(3) by (simp add: w'_def)
  then have "store_deploy r b ?rem (w_remote w) = Inr (w_remote w1)" by (simp add: store_client_def)
  then have "store_retrieve r ?rem (w_remote w1) = Inr b" by (rule store_deploy_retrieve) simp
  then show ?thesis unfolding upload_download_same_path by (simp add: store_client_def)
qed

theorem log_artifact_then_retrieve_witness:
  "parse_artifactory_uri (artifact_uri demo_repo) = Inr (''host'', ''mlruns/1/artifacts'')
   \<and> artifactory_repo demo_repo = Some ''generic-local''
   \<and> fs_read (w_local demo_world) (pl_parts ''data/a.txt'') = Inr ''aa''
   \<and> log_artifact store_client demo_repo ''data/a.txt'' None demo_world
       = (Inr (), snd (log_artifact store_client demo_repo ''data/a.txt'' None demo_world))
   \<and> cl_retrieve store_client ''generic-local'' (download_path ''host'' ''mlruns/1/artifacts'' (pl_name (pl_parts ''data/a.txt'')))
       (w_remote (snd (log_artifact store_client demo_repo ''data/a.txt'' None demo_world))) = Inr ''aa''"
proof -
  have r: "artifactory_repo demo_repo = Some ''generic-local''" by (simp add: demo_repo_def)
  have f: "fs_read (w_local demo_world) (pl_parts ''data/a.txt'') = Inr ''aa''" by (simp add: demo_eval)
  show ?thesis using log_artifact_then_retrieve [OF demo_parse r f demo_upload_run] demo_parse r f demo_upload_run
    by blast
qed

end
